theory Spec2Isabelle
  imports Complex_Main "HOL-Library.Sublist"
begin

section \<open>JavaScript strings\<close>

text \<open>
  A JavaScript string is a sequence of UTF-16 code units. It is modelled as a
  \<^typ>\<open>string\<close>: one \<^typ>\<open>char\<close> per code unit, for the code units 0..255. The
  length of the list is the \<^verbatim>\<open>.length\<close> of the string.
\<close>

definition nl :: char where
  "nl = CHR 0x0A"

definition backtick :: char where
  "backtick = CHR 0x60"

definition fence :: string where
  "fence = [backtick, backtick, backtick]"

text \<open>
  The white space of \<^verbatim>\<open>String.prototype.trim\<close> and of the regular expression class
  \<^verbatim>\<open>\s\<close> (the same set in ECMAScript), within the code units 0..255: tab, line feed,
  vertical tab, form feed, carriage return, space and no-break space.
\<close>

definition js_ws :: "char \<Rightarrow> bool" where
  "js_ws c \<longleftrightarrow> c \<in> set [CHR 0x09, CHR 0x0A, CHR 0x0B, CHR 0x0C, CHR 0x0D, CHR 0x20, CHR 0xA0]"

definition trim :: "string \<Rightarrow> string" where
  "trim s = rev (dropWhile js_ws (rev (dropWhile js_ws s)))"

text \<open>\<^verbatim>\<open>s.startsWith(p)\<close>\<close>

definition startsWith :: "string \<Rightarrow> string \<Rightarrow> bool" where
  "startsWith s p \<longleftrightarrow> prefix p s"

text \<open>
  \<^verbatim>\<open>s.replace(/pat/g, rep)\<close> for a literal, non-empty pattern: the matches are found
  from left to right, they do not overlap, and the replacement text is not scanned again.
\<close>

function replaceAll :: "string \<Rightarrow> string \<Rightarrow> string \<Rightarrow> string" where
  "replaceAll pat rep [] = []"
| "replaceAll pat rep (c # cs) =
     (if pat \<noteq> [] \<and> prefix pat (c # cs)
      then rep @ replaceAll pat rep (drop (length pat) (c # cs))
      else c # replaceAll pat rep cs)"
  by pat_completeness auto
termination
  by (relation "measure (\<lambda>(pat, rep, s). length s)") auto

text \<open>
  \<^verbatim>\<open>s.replace(/pat\n?/, '')\<close> for a literal pattern: the first occurrence of the
  pattern is removed, together with a line feed that follows it directly.
\<close>

fun removeFirstWithNl :: "string \<Rightarrow> string \<Rightarrow> string" where
  "removeFirstWithNl pat [] = []"
| "removeFirstWithNl pat (c # cs) =
     (if prefix pat (c # cs)
      then (case drop (length pat) (c # cs) of
              [] \<Rightarrow> []
            | d # ds \<Rightarrow> if d = nl then ds else d # ds)
      else c # removeFirstWithNl pat cs)"

text \<open>\<^verbatim>\<open>s.replace(/```$/, '')\<close>: without the \<^verbatim>\<open>m\<close> flag, \<^verbatim>\<open>$\<close> is the end of the input.\<close>

definition removeFenceAtEnd :: "string \<Rightarrow> string" where
  "removeFenceAtEnd s = (if suffix fence s then take (length s - length fence) s else s)"

text \<open>\<^verbatim>\<open>s.split('\n')\<close> and \<^verbatim>\<open>lines.join(sep)\<close>\<close>

fun splitLines :: "string \<Rightarrow> string list" where
  "splitLines [] = [[]]"
| "splitLines (c # cs) =
     (if c = nl then [] # splitLines cs
      else (case splitLines cs of [] \<Rightarrow> [[c]] | l # ls \<Rightarrow> (c # l) # ls))"

fun join :: "string \<Rightarrow> string list \<Rightarrow> string" where
  "join sep [] = []"
| "join sep [l] = l"
| "join sep (l # m # ls) = l @ sep @ join sep (m # ls)"

text \<open>\<^verbatim>\<open>s.replace(/\n\n+/g, '\n')\<close>: every run of two or more line feeds becomes one.\<close>

fun collapseNewlines :: "string \<Rightarrow> string" where
  "collapseNewlines (a # b # cs) =
     (if a = nl \<and> b = nl then collapseNewlines (b # cs) else a # collapseNewlines (b # cs))"
| "collapseNewlines cs = cs"

text \<open>A text without two line feeds in a row.\<close>

fun noDouble :: "string \<Rightarrow> bool" where
  "noDouble (a # b # cs) = (\<not> (a = nl \<and> b = nl) \<and> noDouble (b # cs))"
| "noDouble cs = True"

section \<open>Diagram repair: \<^verbatim>\<open>validateAndFixMermaid\<close>\<close>

definition diagramTypes :: "string list" where
  "diagramTypes = [''graph'', ''sequenceDiagram'', ''classDiagram'', ''stateDiagram'', ''mindmap'']"

definition startsWithDiagramType :: "string \<Rightarrow> bool" where
  "startsWithDiagramType s \<longleftrightarrow> (\<exists>k \<in> set diagramTypes. startsWith s k)"

text \<open>The class \<^verbatim>\<open>\w\<close>: letters, digits and the underscore.\<close>

definition wordChar :: "char \<Rightarrow> bool" where
  "wordChar c \<longleftrightarrow>
     (let n = (of_char c :: nat)
      in (97 \<le> n \<and> n \<le> 122) \<or> (65 \<le> n \<and> n \<le> 90) \<or> (48 \<le> n \<and> n \<le> 57) \<or> n = 95)"

text \<open>
  The characters kept by the negated class of the line filter: word characters, white
  space, square brackets, parentheses, braces, hyphen, both angle brackets, colon, double
  quote, single quote and the vertical bar.
\<close>

definition allowedChar :: "char \<Rightarrow> bool" where
  "allowedChar c \<longleftrightarrow>
     wordChar c \<or> js_ws c \<or>
     c \<in> set [CHR ''['', CHR '']'', CHR ''('', CHR '')'', CHR ''{'', CHR ''}'', CHR ''-'',
               CHR ''>'', CHR ''<'', CHR '':'', CHR 0x22, CHR 0x27, CHR ''|'']"

text \<open>The callback of \<^verbatim>\<open>lines.map\<close>.\<close>

definition fixLine :: "string \<Rightarrow> string" where
  "fixLine line =
     (if trim line = [] \<or> startsWithDiagramType (trim line) then line
      else filter allowedChar line)"

definition stripFence :: "string \<Rightarrow> string" where
  "stripFence fixed =
     (if startsWith fixed (fence @ ''mermaid'')
      then trim (removeFenceAtEnd (removeFirstWithNl (fence @ ''mermaid'') fixed))
      else if startsWith fixed fence
      then trim (removeFenceAtEnd (removeFirstWithNl fence fixed))
      else fixed)"

definition validateAndFixMermaid :: "string \<Rightarrow> string" where
  "validateAndFixMermaid mermaidCode =
     (if mermaidCode = [] \<or> trim mermaidCode = [] then []
      else
        let fixed = stripFence (trim mermaidCode);
            fixed = replaceAll '';'' [nl] fixed;
            fixed = replaceAll ''-->'' '' --> '' fixed;
            fixed = replaceAll ''---'' '' --- '' fixed;
            fixedLines = map fixLine (splitLines fixed);
            fixed = join [nl] fixedLines;
            fixed = (if \<not> startsWithDiagramType fixed then ''graph TD'' @ [nl] @ fixed else fixed);
            fixed = collapseNewlines fixed
        in trim fixed)"

section \<open>Chunker: \<^verbatim>\<open>Embedder.chunkText\<close>\<close>

text \<open>The three fields set by the constructor of \<^verbatim>\<open>Embedder\<close>.\<close>

definition chunkSize :: int where
  "chunkSize = 400"

definition overlapSize :: int where
  "overlapSize = 50"

definition avgCharsPerToken :: int where
  "avgCharsPerToken = 4"

definition chunkSizeChars :: int where
  "chunkSizeChars = chunkSize * avgCharsPerToken"

definition overlapChars :: int where
  "overlapChars = overlapSize * avgCharsPerToken"

text \<open>
  \<^verbatim>\<open>s.substring(a, b)\<close>: both indices are clamped to \<open>0..length\<close>, and they are swapped
  when the first is the larger.
\<close>

definition substring :: "string \<Rightarrow> int \<Rightarrow> int \<Rightarrow> string" where
  "substring s a b =
     (let n = int (length s);
          a' = max 0 (min a n);
          b' = max 0 (min b n);
          lo = min a' b';
          hi = max a' b'
      in take (nat (hi - lo)) (drop (nat lo) s))"

text \<open>
  A chunk: \<^verbatim>\<open>{id, text, metadata: {...metadata, chunkIndex, startChar, endChar}}\<close>.
  The caller's metadata is carried as it is, in \<open>chunk_metadata\<close>.
\<close>

record 'm chunk =
  chunk_id :: string
  chunk_text :: string
  chunk_metadata :: 'm
  chunkIndex :: nat
  startChar :: int
  endChar :: int

text \<open>
  The \<^verbatim>\<open>while\<close> loop of \<^verbatim>\<open>chunkText\<close>, with its \<^verbatim>\<open>break\<close>. The index can
  become negative, so it is an \<^typ>\<open>int\<close>. \<^verbatim>\<open>uuidv4()\<close> is random: \<open>uuid n\<close> is the
  identifier it returns when \<open>n\<close> chunks have been pushed.
\<close>

function chunkLoop ::
  "(nat \<Rightarrow> string) \<Rightarrow> string \<Rightarrow> 'm \<Rightarrow> int \<Rightarrow> 'm chunk list \<Rightarrow> 'm chunk list" where
  "chunkLoop uuid text metadata startIndex chunks =
     (if startIndex < int (length text) then
        (let endIndex = min (startIndex + chunkSizeChars) (int (length text));
             chunkText = trim (substring text startIndex endIndex);
             chunks' =
               (if length chunkText > 0
                then chunks @
                  [\<lparr>chunk_id = uuid (length chunks), chunk_text = chunkText,
                    chunk_metadata = metadata, chunkIndex = length chunks,
                    startChar = startIndex, endChar = endIndex\<rparr>]
                else chunks);
             startIndex' = endIndex - overlapChars
         in if startIndex' \<ge> int (length text) - overlapChars then chunks'
            else chunkLoop uuid text metadata startIndex' chunks')
      else chunks)"
  by pat_completeness auto
termination
  by (relation "measure (\<lambda>(uuid, text, metadata, startIndex, chunks). nat (int (length text) - startIndex))")
    (auto simp: chunkSizeChars_def overlapChars_def chunkSize_def overlapSize_def
      avgCharsPerToken_def min_def split: if_splits)

declare chunkLoop.simps [simp del]

definition chunkText :: "(nat \<Rightarrow> string) \<Rightarrow> string \<Rightarrow> 'm \<Rightarrow> 'm chunk list" where
  "chunkText uuid text metadata = chunkLoop uuid text metadata 0 []"

section \<open>Errors\<close>

text \<open>
  A thrown JavaScript \<^verbatim>\<open>Error\<close>, with its \<^verbatim>\<open>message\<close>. A function that can throw
  returns \<open>error + 'a\<close>, with \<open>Inl\<close> for the exception.
\<close>

datatype error = Error (message: string)

section \<open>JavaScript numbers and values\<close>

text \<open>
  A Number is a double: a finite value, \<^verbatim>\<open>NaN\<close> or an infinity. A finite double is
  modelled by the real it stands for. The two zeros are one value: no function below can
  tell them apart.
\<close>

datatype jsnumber = Num real | NaN | PosInfinity | NegInfinity

definition pow2 :: "int \<Rightarrow> real" where
  "pow2 k = (if 0 \<le> k then 2 ^ nat k else 1 / 2 ^ nat (- k))"

text \<open>
  The binade of a real \<open>a\<close> that is not negative: the greatest exponent \<open>e\<close> from -1022
  to 1025 with \<open>pow2 e \<le> a\<close>, and -1022, the exponent of the subnormal doubles, when
  there is none. The steps try the bits of \<open>e + 1022\<close> from the highest to the lowest.
\<close>

fun binadeSteps :: "nat list \<Rightarrow> real \<Rightarrow> int \<Rightarrow> int" where
  "binadeSteps [] a e = e"
| "binadeSteps (k # ks) a e =
     (if pow2 (e + int k) \<le> a then binadeSteps ks a (e + int k) else binadeSteps ks a e)"

definition binade :: "real \<Rightarrow> int" where
  "binade a = binadeSteps [1024, 512, 256, 128, 64, 32, 16, 8, 4, 2, 1] a (- 1022)"

text \<open>The nearest integer, and the even one of the two when they are equally near.\<close>

definition roundHalfEven :: "real \<Rightarrow> int" where
  "roundHalfEven q =
     (let f = \<lfloor>q\<rfloor>
      in if q - of_int f < 1 / 2 then f
         else if 1 / 2 < q - of_int f then f + 1
         else if even f then f else f + 1)"

text \<open>
  The double that an exact result is rounded to (IEEE 754 binary64, round to nearest,
  ties to even). A double has 53 significant bits, so in the binade \<open>e\<close> the doubles are
  the multiples of \<open>pow2 (e - 52)\<close>; a result that reaches \<open>pow2 1024\<close> is an infinity.
\<close>

definition roundDouble :: "real \<Rightarrow> jsnumber" where
  "roundDouble r =
     (let u = pow2 (binade \<bar>r\<bar> - 52);
          m = of_int (roundHalfEven (\<bar>r\<bar> / u)) * u
      in if pow2 1024 \<le> m then (if 0 < r then PosInfinity else NegInfinity)
         else Num (if 0 \<le> r then m else - m))"

text \<open>\<^verbatim>\<open>a + b\<close> and \<^verbatim>\<open>a / 2\<close> on Numbers\<close>

fun numAdd :: "jsnumber \<Rightarrow> jsnumber \<Rightarrow> jsnumber" where
  "numAdd (Num a) (Num b) = roundDouble (a + b)"
| "numAdd NaN b = NaN"
| "numAdd a NaN = NaN"
| "numAdd PosInfinity NegInfinity = NaN"
| "numAdd NegInfinity PosInfinity = NaN"
| "numAdd PosInfinity b = PosInfinity"
| "numAdd NegInfinity b = NegInfinity"
| "numAdd a PosInfinity = PosInfinity"
| "numAdd a NegInfinity = NegInfinity"

fun numHalf :: "jsnumber \<Rightarrow> jsnumber" where
  "numHalf (Num a) = roundDouble (a / 2)"
| "numHalf v = v"

text \<open>\<^verbatim>\<open>a <= b\<close> on Numbers, which is \<^verbatim>\<open>b >= a\<close>: false when one of them is \<^verbatim>\<open>NaN\<close>.\<close>

fun numLe :: "jsnumber \<Rightarrow> jsnumber \<Rightarrow> bool" where
  "numLe (Num a) (Num b) = (a \<le> b)"
| "numLe NaN b = False"
| "numLe a NaN = False"
| "numLe NegInfinity b = True"
| "numLe a PosInfinity = True"
| "numLe PosInfinity b = False"
| "numLe a NegInfinity = False"

text \<open>
  A value in the body of a request, as the JSON parser builds it: \<^verbatim>\<open>null\<close>, a boolean,
  a Number, a string, an array, or an object with the list of its own properties. A
  field that the body does not have is \<^verbatim>\<open>undefined\<close>, the \<open>None\<close> of an option.
\<close>

datatype jsvalue =
  JSNull
| JSBool bool
| JSNum jsnumber
| JSStr string
| JSArr "jsvalue list"
| JSObj "(string \<times> jsvalue) list"

datatype primitive = PNull | PBool bool | PNum jsnumber | PStr string

text \<open>
  The two conversions of the language between Numbers and strings (\<^verbatim>\<open>Number::toString\<close>
  and \<^verbatim>\<open>StringToNumber\<close>) are not modelled: they are parameters.
\<close>

record conversions =
  numberToString :: "jsnumber \<Rightarrow> string"
  stringToNumber :: "string \<Rightarrow> jsnumber"

text \<open>
  \<^verbatim>\<open>ToString\<close> of a value. An array is the strings of its elements joined by commas,
  \<^verbatim>\<open>null\<close> counting as the empty string. An object from JSON has no callable property:
  it is \<^verbatim>\<open>[object Object]\<close>, and a \<^verbatim>\<open>TypeError\<close> when an own property \<^verbatim>\<open>toString\<close>
  hides the inherited method.
\<close>

fun stringOf :: "conversions \<Rightarrow> jsvalue \<Rightarrow> error + string"
  and joinElements :: "conversions \<Rightarrow> jsvalue list \<Rightarrow> error + string" where
  "stringOf cv JSNull = Inr ''null''"
| "stringOf cv (JSBool b) = Inr (if b then ''true'' else ''false'')"
| "stringOf cv (JSNum n) = Inr (numberToString cv n)"
| "stringOf cv (JSStr s) = Inr s"
| "stringOf cv (JSArr vs) = joinElements cv vs"
| "stringOf cv (JSObj kvs) =
     (if ''toString'' \<in> set (map fst kvs)
      then Inl (Error ''Cannot convert object to primitive value'')
      else Inr ''[object Object]'')"
| "joinElements cv [] = Inr []"
| "joinElements cv (v # vs) =
     (case (if v = JSNull then Inr [] else stringOf cv v) of
        Inl e \<Rightarrow> Inl e
      | Inr s \<Rightarrow>
          if vs = [] then Inr s
          else (case joinElements cv vs of
                  Inl e \<Rightarrow> Inl e
                | Inr t \<Rightarrow> Inr (s @ '','' @ t)))"

text \<open>
  \<^verbatim>\<open>ToPrimitive\<close>: an array or an object becomes its string (\<^verbatim>\<open>valueOf\<close> gives no
  primitive value for them); \<^verbatim>\<open>ToNumber\<close> and \<^verbatim>\<open>ToString\<close> of a primitive value.
\<close>

fun toPrimitive :: "conversions \<Rightarrow> jsvalue \<Rightarrow> error + primitive" where
  "toPrimitive cv JSNull = Inr PNull"
| "toPrimitive cv (JSBool b) = Inr (PBool b)"
| "toPrimitive cv (JSNum n) = Inr (PNum n)"
| "toPrimitive cv (JSStr s) = Inr (PStr s)"
| "toPrimitive cv (JSArr vs) =
     (case stringOf cv (JSArr vs) of Inl e \<Rightarrow> Inl e | Inr s \<Rightarrow> Inr (PStr s))"
| "toPrimitive cv (JSObj kvs) =
     (case stringOf cv (JSObj kvs) of Inl e \<Rightarrow> Inl e | Inr s \<Rightarrow> Inr (PStr s))"

fun toNumber :: "conversions \<Rightarrow> primitive \<Rightarrow> jsnumber" where
  "toNumber cv PNull = Num 0"
| "toNumber cv (PBool b) = Num (if b then 1 else 0)"
| "toNumber cv (PNum n) = n"
| "toNumber cv (PStr s) = stringToNumber cv s"

fun primitiveString :: "conversions \<Rightarrow> primitive \<Rightarrow> string" where
  "primitiveString cv PNull = ''null''"
| "primitiveString cv (PBool b) = (if b then ''true'' else ''false'')"
| "primitiveString cv (PNum n) = numberToString cv n"
| "primitiveString cv (PStr s) = s"

fun isString :: "primitive \<Rightarrow> bool" where
  "isString (PStr s) = True"
| "isString p = False"

text \<open>
  \<^verbatim>\<open>a + b\<close> on values: both become primitive, the left one first; when one of them is a
  string the result is the concatenation of their strings, and their sum as Numbers
  otherwise.
\<close>

definition jsPlus :: "conversions \<Rightarrow> jsvalue \<Rightarrow> jsvalue \<Rightarrow> error + primitive" where
  "jsPlus cv a b =
     (case toPrimitive cv a of
        Inl e \<Rightarrow> Inl e
      | Inr pa \<Rightarrow>
          (case toPrimitive cv b of
             Inl e \<Rightarrow> Inl e
           | Inr pb \<Rightarrow>
               Inr (if isString pa \<or> isString pb
                    then PStr (primitiveString cv pa @ primitiveString cv pb)
                    else PNum (numAdd (toNumber cv pa) (toNumber cv pb)))))"

text \<open>
  \<^verbatim>\<open>c >= v\<close> for a Number \<open>c\<close> and a value \<open>v\<close>, and \<^verbatim>\<open>c <= p\<close> for a Number \<open>c\<close> and a
  primitive value \<open>p\<close>: one operand being a Number, the other is compared as a Number.
\<close>

definition numGeValue :: "conversions \<Rightarrow> jsnumber \<Rightarrow> jsvalue \<Rightarrow> error + bool" where
  "numGeValue cv c v =
     (case toPrimitive cv v of
        Inl e \<Rightarrow> Inl e
      | Inr p \<Rightarrow> Inr (numLe (toNumber cv p) c))"

definition numLePrimitive :: "conversions \<Rightarrow> jsnumber \<Rightarrow> primitive \<Rightarrow> bool" where
  "numLePrimitive cv c p = numLe c (toNumber cv p)"

section \<open>Retriever: \<^verbatim>\<open>QdrantService.search\<close> and \<^verbatim>\<open>Retriever.retrieve\<close>\<close>

text \<open>
  A point as the vector index's client library returns it,
  \<^verbatim>\<open>{id, score, payload: {text, metadata}}\<close>, and a search result as
  \<^verbatim>\<open>QdrantService.search\<close> returns it, \<^verbatim>\<open>{id, score, text, metadata}\<close>. Scores are
  JavaScript numbers, modelled as reals.
\<close>

record 'm payload =
  payload_text :: string
  payload_metadata :: 'm

record 'm scored_point =
  point_id :: string
  point_score :: real
  point_payload :: "'m payload option"

record 'm search_result =
  result_id :: string
  score :: real
  result_text :: string
  result_metadata :: 'm

text \<open>
  The callback of \<^verbatim>\<open>results.map\<close>: \<^verbatim>\<open>result.payload.text\<close> throws a
  \<^verbatim>\<open>TypeError\<close> when the point has no payload.
\<close>

fun mapResults :: "'m scored_point list \<Rightarrow> error + 'm search_result list" where
  "mapResults [] = Inr []"
| "mapResults (result # results) =
     (case point_payload result of
        None \<Rightarrow> Inl (Error ''Cannot read properties of undefined (reading text)'')
      | Some p \<Rightarrow>
          (case mapResults results of
             Inl e \<Rightarrow> Inl e
           | Inr rs \<Rightarrow>
               Inr (\<lparr>result_id = point_id result, score = point_score result,
                     result_text = payload_text p, result_metadata = payload_metadata p\<rparr> # rs)))"

text \<open>
  \<^verbatim>\<open>QdrantService.search\<close>. The client library of the vector index is not part of the
  repository: \<open>client queryEmbedding topK flt\<close> is the outcome of
  \<^verbatim>\<open>this.client.search(collection, {vector, limit: topK, with_payload: true, filter: flt})\<close>,
  where the \<^verbatim>\<open>filter\<close> entry is left out when \<open>flt\<close> is \<^verbatim>\<open>null\<close>.
  The \<^verbatim>\<open>catch\<close> block logs and throws the error again.
\<close>

definition search ::
  "(real list \<Rightarrow> nat \<Rightarrow> 'f option \<Rightarrow> error + 'm scored_point list) \<Rightarrow>
   real list \<Rightarrow> nat \<Rightarrow> 'f option \<Rightarrow> error + 'm search_result list" where
  "search client queryEmbedding topK flt =
     (case client queryEmbedding topK flt of
        Inl e \<Rightarrow> Inl e
      | Inr results \<Rightarrow> mapResults results)"

definition minScore :: real where
  "minScore = 0.5"

text \<open>
  \<^verbatim>\<open>Retriever.retrieve\<close>. \<open>embedQuery\<close> is \<^verbatim>\<open>embedder.embedQuery\<close>, which can throw.
  Every exception of the \<^verbatim>\<open>try\<close> block ends in \<^verbatim>\<open>return []\<close>.
\<close>

definition retrieve ::
  "(string \<Rightarrow> error + real list) \<Rightarrow>
   (real list \<Rightarrow> nat \<Rightarrow> 'f option \<Rightarrow> error + 'm scored_point list) \<Rightarrow>
   string \<Rightarrow> nat \<Rightarrow> 'f option \<Rightarrow> 'm search_result list" where
  "retrieve embedQuery client question topK flt =
     (case embedQuery question of
        Inl e \<Rightarrow> []
      | Inr queryEmbedding \<Rightarrow>
          (case search client queryEmbedding topK flt of
             Inl e \<Rightarrow> []
           | Inr results \<Rightarrow> List.filter (\<lambda>result. score result \<ge> minScore) results))"

section \<open>Frames and the document store\<close>

text \<open>
  The \<^verbatim>\<open>Frame\<close> schema. Identifiers of frames, users and lectures are natural numbers.
  The fields that no function below reads or writes (file size, MIME type, dimensions,
  embedding ids, time stamps) are left out.
\<close>

datatype sourceType = Image | PdfPage | Crop

datatype status = Queued | Processing | Completed | Failed

text \<open>
  The bounding box of a word, as the OCR service copies it from the result of the
  library: four Numbers. A coordinate that is missing behaves as \<^verbatim>\<open>NaN\<close> in the
  sums below.
\<close>

record bbox =
  bbox_x0 :: jsnumber
  bbox_y0 :: jsnumber
  bbox_x1 :: jsnumber
  bbox_y1 :: jsnumber

record word =
  word_text :: string
  word_confidence :: real
  word_bbox :: "bbox option"

text \<open>\<^verbatim>\<open>ocrRaw\<close> is of type \<^verbatim>\<open>Mixed\<close> with default \<^verbatim>\<open>{}\<close>: its \<^verbatim>\<open>words\<close> can be undefined.\<close>

record ocrRaw =
  raw_words :: "word list option"
  raw_lines :: "word list option"

record cropCoordinates =
  crop_x :: real
  crop_y :: real
  crop_width :: real
  crop_height :: real
  crop_scale :: real

record frame =
  frame_id :: nat
  createdBy :: nat
  lectureId :: "nat option"
  sourceType :: sourceType
  sourceUrl :: string
  cropUrl :: "string option"
  pageNumber :: "nat option"
  pdfId :: "nat option"
  cropCoords :: "cropCoordinates option"
  ocrText :: string
  ocrRaw :: ocrRaw
  ocrConfidence :: real
  conceptTags :: "string list"
  difficulty :: string
  status :: status
  processingError :: "string option"

text \<open>
  A document with the defaults of the schema. The required paths (\<open>createdBy\<close>,
  \<open>sourceType\<close>, \<open>sourceUrl\<close>) are set by every caller of \<^verbatim>\<open>Frame.create\<close>.
\<close>

definition schemaDefaults :: frame where
  "schemaDefaults =
     \<lparr>frame_id = 0, createdBy = 0, lectureId = None, sourceType = Image, sourceUrl = [],
      cropUrl = None, pageNumber = None, pdfId = None, cropCoords = None, ocrText = [],
      ocrRaw = \<lparr>raw_words = None, raw_lines = None\<rparr>, ocrConfidence = 0,
      conceptTags = [], difficulty = ''unknown'', status = Queued, processingError = None\<rparr>"

text \<open>
  The schema declares no path \<^verbatim>\<open>parentPdfId\<close> and no path \<^verbatim>\<open>previewUrl\<close>: reading
  either from a document gives \<^verbatim>\<open>undefined\<close>.
\<close>

definition parentPdfId :: "frame \<Rightarrow> nat option" where
  "parentPdfId frame = None"

definition previewUrl :: "frame \<Rightarrow> string option" where
  "previewUrl frame = None"

text \<open>
  The collection of frames. \<open>nextId\<close> is the next fresh identifier. \<open>statusLog\<close> is not
  in the code: it records, in order, the status a frame is created with and every later
  change of its status, so that the history of a frame can be stated. The
  database itself does not fail here: an operation of the store throws only what the
  validation of a document throws.
\<close>

record store =
  frames :: "frame list"
  nextId :: nat
  statusLog :: "(nat \<times> status) list"


definition history :: "store \<Rightarrow> nat \<Rightarrow> status list" where
  "history db i = map snd (filter (\<lambda>e. fst e = i) (statusLog db))"

text \<open>\<^verbatim>\<open>Frame.findById(id)\<close> and \<^verbatim>\<open>Frame.findOne({_id: id, createdBy: userId})\<close>\<close>

definition findById :: "nat \<Rightarrow> store \<Rightarrow> frame option" where
  "findById i db = find (\<lambda>f. frame_id f = i) (frames db)"

definition findOne :: "nat \<Rightarrow> nat \<Rightarrow> store \<Rightarrow> frame option" where
  "findOne i userId db = find (\<lambda>f. frame_id f = i \<and> createdBy f = userId) (frames db)"

text \<open>
  The validators of the schema on the paths of the record, which \<^verbatim>\<open>Frame.create\<close> and
  \<^verbatim>\<open>frame.save()\<close> run on the document: \<open>sourceUrl\<close> is required (the empty string
  does not count), \<open>ocrConfidence\<close> has the minimum 0 and the maximum 1, \<open>difficulty\<close> is
  one of four strings. The enumerated types of \<open>sourceType\<close> and \<open>status\<close> and the
  type of \<open>createdBy\<close> leave their validators nothing to reject. The result is the list
  of the paths that fail, in the order of the schema; the \<^verbatim>\<open>ValidationError\<close> names them
  in its message (what the library says about each path is left out).
\<close>

definition difficulties :: "string list" where
  "difficulties = [''easy'', ''medium'', ''hard'', ''unknown'']"

definition invalidPaths :: "frame \<Rightarrow> string list" where
  "invalidPaths f =
     (if sourceUrl f = [] then [''sourceUrl''] else []) @
     (if ocrConfidence f < 0 \<or> 1 < ocrConfidence f then [''ocrConfidence''] else []) @
     (if difficulty f \<notin> set difficulties then [''difficulty''] else [])"

definition validationError :: "string list \<Rightarrow> error" where
  "validationError paths = Error (''Frame validation failed: '' @ join '', '' paths)"

text \<open>
  \<^verbatim>\<open>Frame.create(doc)\<close>: the document is validated, and the new document gets a fresh
  identifier.
\<close>

definition create :: "frame \<Rightarrow> store \<Rightarrow> error + frame \<times> store" where
  "create doc db =
     (if invalidPaths doc \<noteq> [] then Inl (validationError (invalidPaths doc))
      else
        (let f = doc\<lparr>frame_id := nextId db\<rparr>
         in Inr (f, \<lparr>frames = frames db @ [f], nextId = Suc (nextId db),
                      statusLog = statusLog db @ [(nextId db, status f)]\<rparr>)))"

definition logChange :: "nat \<Rightarrow> status \<Rightarrow> store \<Rightarrow> (nat \<times> status) list" where
  "logChange i s db =
     (case findById i db of
        None \<Rightarrow> statusLog db
      | Some old \<Rightarrow> if status old = s then statusLog db else statusLog db @ [(i, s)])"

text \<open>
  \<^verbatim>\<open>frame.save()\<close>: the document is validated, and the stored document with the
  identifier of \<open>f\<close> becomes \<open>f\<close>. The save of a document that is no longer stored
  throws as well.
\<close>

definition save :: "frame \<Rightarrow> store \<Rightarrow> error + store" where
  "save f db =
     (if invalidPaths f \<noteq> [] then Inl (validationError (invalidPaths f))
      else
        (case findById (frame_id f) db of
           None \<Rightarrow> Inl (Error ''No document found for query'')
         | Some old \<Rightarrow>
             Inr (db\<lparr>frames := map (\<lambda>g. if frame_id g = frame_id f then f else g) (frames db),
                      statusLog := logChange (frame_id f) (status f) db\<rparr>)))"

text \<open>
  \<^verbatim>\<open>Frame.findByIdAndUpdate(id, {status, processingError})\<close>, which runs no validator
\<close>

definition findByIdAndUpdate :: "nat \<Rightarrow> status \<Rightarrow> string option \<Rightarrow> store \<Rightarrow> store" where
  "findByIdAndUpdate i s err db =
     db\<lparr>frames := map (\<lambda>g. if frame_id g = i then g\<lparr>status := s, processingError := err\<rparr> else g)
                    (frames db),
        statusLog := logChange i s db\<rparr>"

text \<open>
  The update of the parent frame at the end of \<^verbatim>\<open>processPdfImmediately\<close>,
  \<^verbatim>\<open>Frame.findByIdAndUpdate(id, {status: 'completed', processedAt})\<close>, leaves the error
  message as it is.
\<close>

definition findByIdAndComplete :: "nat \<Rightarrow> store \<Rightarrow> store" where
  "findByIdAndComplete i db =
     db\<lparr>frames := map (\<lambda>g. if frame_id g = i then g\<lparr>status := Completed\<rparr> else g) (frames db),
        statusLog := logChange i Completed db\<rparr>"

text \<open>\<^verbatim>\<open>Frame.deleteMany({pdfId: id})\<close> and \<^verbatim>\<open>Frame.findByIdAndDelete(id)\<close>\<close>

definition deleteMany :: "nat \<Rightarrow> store \<Rightarrow> store" where
  "deleteMany i db = db\<lparr>frames := filter (\<lambda>f. pdfId f \<noteq> Some i) (frames db)\<rparr>"

fun removeFirst :: "nat \<Rightarrow> frame list \<Rightarrow> frame list" where
  "removeFirst i [] = []"
| "removeFirst i (f # fs) = (if frame_id f = i then fs else f # removeFirst i fs)"

definition findByIdAndDelete :: "nat \<Rightarrow> store \<Rightarrow> store" where
  "findByIdAndDelete i db = db\<lparr>frames := removeFirst i (frames db)\<rparr>"

text \<open>The responses of the handlers: the HTTP status, and the data of a success.\<close>

datatype 'a response =
  Status200 'a
| Status201 'a
| Status400 string
| Status403 string
| Status404 string
| Status500 string string

section \<open>Ingestion: \<^verbatim>\<open>deleteFrame\<close>\<close>

definition deleteFrame :: "nat \<Rightarrow> nat \<Rightarrow> store \<Rightarrow> string response \<times> store" where
  "deleteFrame i userId db =
     (case findOne i userId db of
        None \<Rightarrow> (Status404 ''Frame not found'', db)
      | Some frame \<Rightarrow>
          (let db = (if sourceType frame = PdfPage \<and> parentPdfId frame = None
                     then deleteMany i db else db);
               db = findByIdAndDelete i db
           in (Status200 ''Frame deleted successfully'', db)))"

section \<open>Collaborators\<close>

text \<open>
  The collaborators of a request, as functions from their argument to their outcome at
  the time of the request: the media host, the OCR service on an image given by its URL,
  the extraction of concepts, the reading of the PDF, the download of the source image
  and the cropping. Buffers are strings. \<open>sv_noImage\<close> is the message with which the OCR
  library rejects an image that is \<^verbatim>\<open>undefined\<close>.
\<close>

record ocrResult =
  ocr_text :: string
  ocr_confidence :: real
  ocr_raw :: ocrRaw

record uploadResult =
  up_url :: string

record concepts =
  concept_tags :: "string list"
  concept_difficulty :: string

record page =
  page_number :: nat
  page_imageBuffer :: string

record services =
  sv_upload :: "string \<Rightarrow> error + uploadResult"
  sv_ocr :: "string \<Rightarrow> error + ocrResult"
  sv_noImage :: string
  sv_concepts :: "string \<Rightarrow> string \<Rightarrow> error + concepts"
  sv_pdfMetadata :: "string \<Rightarrow> error + nat"
  sv_convert :: "string \<Rightarrow> error + page list"
  sv_download :: "string \<Rightarrow> error + string"
  sv_crop :: "string \<Rightarrow> cropCoordinates \<Rightarrow> error + string"

text \<open>
  \<^verbatim>\<open>ocrService.extractText(img)\<close>, whose result is \<^verbatim>\<open>{text, confidence, raw}\<close>. It
  hands the image to \<^verbatim>\<open>Tesseract.recognize\<close> first. The library has nothing to read when
  the image is \<^verbatim>\<open>undefined\<close>: it rejects, and \<^verbatim>\<open>extractWithTesseract\<close> throws the
  rejection again under its own prefix.
\<close>

definition extractText :: "services \<Rightarrow> string option \<Rightarrow> error + ocrResult" where
  "extractText sv img =
     (case img of
        None \<Rightarrow> Inl (Error (''Tesseract OCR failed: '' @ sv_noImage sv))
      | Some url \<Rightarrow> sv_ocr sv url)"

section \<open>Ingestion: \<^verbatim>\<open>extractTextFromRegion\<close>\<close>

text \<open>The body of the request: a field that is missing is \<open>None\<close>.\<close>

record regionBody =
  body_frameId :: "nat option"
  body_x :: "jsvalue option"
  body_y :: "jsvalue option"
  body_width :: "jsvalue option"
  body_height :: "jsvalue option"

record regionData =
  region_text :: string
  wordCount :: nat
  region :: "jsvalue \<times> jsvalue \<times> jsvalue \<times> jsvalue"

text \<open>
  The callback of \<^verbatim>\<open>words.filter\<close>. The coordinates of the box are Numbers; \<open>x\<close>, \<open>y\<close>,
  \<open>width\<close> and \<open>height\<close> are the values of the body as they came. The operands of
  \<^verbatim>\<open>&&\<close> are evaluated from left to right, up to the first that is false.
\<close>

definition inRegion ::
  "conversions \<Rightarrow> jsvalue \<Rightarrow> jsvalue \<Rightarrow> jsvalue \<Rightarrow> jsvalue \<Rightarrow> word \<Rightarrow> error + bool" where
  "inRegion cv x y width height word =
     (case word_bbox word of
        None \<Rightarrow> Inr False
      | Some b \<Rightarrow>
          (let centerX = numHalf (numAdd (bbox_x0 b) (bbox_x1 b));
               centerY = numHalf (numAdd (bbox_y0 b) (bbox_y1 b))
           in case numGeValue cv centerX x of
                Inl e \<Rightarrow> Inl e
              | Inr geX \<Rightarrow>
                  if \<not> geX then Inr False
                  else
                    (case jsPlus cv x width of
                       Inl e \<Rightarrow> Inl e
                     | Inr right \<Rightarrow>
                         if \<not> numLePrimitive cv centerX right then Inr False
                         else
                           (case numGeValue cv centerY y of
                              Inl e \<Rightarrow> Inl e
                            | Inr geY \<Rightarrow>
                                if \<not> geY then Inr False
                                else
                                  (case jsPlus cv y height of
                                     Inl e \<Rightarrow> Inl e
                                   | Inr bottom \<Rightarrow> Inr (numLePrimitive cv centerY bottom))))))"

text \<open>\<^verbatim>\<open>words.filter(callback)\<close>, for a callback that can throw.\<close>

fun filterWords :: "(word \<Rightarrow> error + bool) \<Rightarrow> word list \<Rightarrow> error + word list" where
  "filterWords p [] = Inr []"
| "filterWords p (w # ws) =
     (case p w of
        Inl e \<Rightarrow> Inl e
      | Inr keep \<Rightarrow>
          (case filterWords p ws of
             Inl e \<Rightarrow> Inl e
           | Inr selected \<Rightarrow> Inr (if keep then w # selected else selected)))"

definition hasNoWords :: "frame \<Rightarrow> bool" where
  "hasNoWords frame \<longleftrightarrow>
     (case raw_words (ocrRaw frame) of None \<Rightarrow> True | Some ws \<Rightarrow> length ws = 0)"

text \<open>
  \<^verbatim>\<open>extractTextFromRegion\<close>. For a frame without words the handler calls
  \<^verbatim>\<open>ocrService.extractText(frame.previewUrl)\<close>; every exception ends in the \<^verbatim>\<open>catch\<close>
  block of the handler.
\<close>

definition extractTextFromRegion ::
  "conversions \<Rightarrow> services \<Rightarrow> nat \<Rightarrow> regionBody \<Rightarrow> store \<Rightarrow> regionData response \<times> store" where
  "extractTextFromRegion cv sv userId body db =
     (case (body_frameId body, body_x body, body_y body, body_width body, body_height body) of
        (Some frameId, Some x, Some y, Some width, Some height) \<Rightarrow>
          (case findById frameId db of
             None \<Rightarrow> (Status404 ''Frame not found'', db)
           | Some frame \<Rightarrow>
               if createdBy frame \<noteq> userId then (Status403 ''Unauthorized access to frame'', db)
               else
                 (case (if hasNoWords frame
                        then (case extractText sv (previewUrl frame) of
                                Inl e \<Rightarrow> Inl e
                              | Inr ocrResult \<Rightarrow>
                                  (let frame = frame\<lparr>ocrText := ocr_text ocrResult,
                                         ocrRaw := ocr_raw ocrResult,
                                         ocrConfidence := ocr_confidence ocrResult,
                                         status := Completed\<rparr>
                                   in case save frame db of
                                        Inl e \<Rightarrow> Inl e
                                      | Inr db \<Rightarrow> Inr (frame, db)))
                        else Inr (frame, db)) of
                    Inl e \<Rightarrow> (Status500 ''Failed to extract text from region'' (message e), db)
                  | Inr (frame, db) \<Rightarrow>
                      (case filterWords (inRegion cv x y width height)
                              (case raw_words (ocrRaw frame) of None \<Rightarrow> [] | Some ws \<Rightarrow> ws) of
                         Inl e \<Rightarrow>
                           (Status500 ''Failed to extract text from region'' (message e), db)
                       | Inr selectedWords \<Rightarrow>
                           (let extractedText = join '' '' (map word_text selectedWords)
                            in (Status200 \<lparr>region_text = extractedText,
                                            wordCount = length selectedWords,
                                            region = (x, y, width, height)\<rparr>, db)))))
      | _ \<Rightarrow> (Status400 ''Missing required fields: frameId, x, y, width, height'', db))"

text \<open>
  The criterion of region extraction in the words of the specification, in exact
  arithmetic: the word has a bounding box, and the centre of the box lies in the closed
  rectangle from \<open>(x, y)\<close> to \<open>(x + width, y + height)\<close>.
\<close>

definition specInRegion :: "real \<Rightarrow> real \<Rightarrow> real \<Rightarrow> real \<Rightarrow> (real \<times> real \<times> real \<times> real) option \<Rightarrow> bool" where
  "specInRegion x y width height box =
     (case box of
        None \<Rightarrow> False
      | Some (x0, y0, x1, y1) \<Rightarrow>
          x \<le> (x0 + x1) / 2 \<and> (x0 + x1) / 2 \<le> x + width \<and>
          y \<le> (y0 + y1) / 2 \<and> (y0 + y1) / 2 \<le> y + height)"

text \<open>
  The box of a word whose four coordinates are finite, as reals; and the reals that are
  doubles: those that the rounding leaves as they are.
\<close>

definition wordBox :: "word \<Rightarrow> (real \<times> real \<times> real \<times> real) option" where
  "wordBox wd =
     (case word_bbox wd of
        None \<Rightarrow> None
      | Some b \<Rightarrow>
          (case (bbox_x0 b, bbox_y0 b, bbox_x1 b, bbox_y1 b) of
             (Num x0, Num y0, Num x1, Num y1) \<Rightarrow> Some (x0, y0, x1, y1)
           | _ \<Rightarrow> None))"

definition isDouble :: "real \<Rightarrow> bool" where
  "isDouble r \<longleftrightarrow> roundDouble r = Num r"

text \<open>A store for the examples of deletion: a parent document, its three pages, a crop of page 1, an image.\<close>

definition demoFrames :: "frame list" where
  "demoFrames =
     [schemaDefaults\<lparr>frame_id := 0, createdBy := 7, sourceType := PdfPage, status := Completed\<rparr>,
      schemaDefaults\<lparr>frame_id := 1, createdBy := 7, sourceType := PdfPage, pdfId := Some 0, pageNumber := Some 1\<rparr>,
      schemaDefaults\<lparr>frame_id := 2, createdBy := 7, sourceType := PdfPage, pdfId := Some 0, pageNumber := Some 2\<rparr>,
      schemaDefaults\<lparr>frame_id := 3, createdBy := 7, sourceType := PdfPage, pdfId := Some 0, pageNumber := Some 3\<rparr>,
      schemaDefaults\<lparr>frame_id := 4, createdBy := 7, sourceType := Crop, pdfId := Some 1\<rparr>,
      schemaDefaults\<lparr>frame_id := 5, createdBy := 7, sourceType := Image\<rparr>]"

text \<open>A frame for the examples of region extraction: four words, one of them without a bounding box.\<close>

definition demoWords :: "word list" where
  "demoWords =
     [\<lparr>word_text = ''alpha'', word_confidence = 0.9,
       word_bbox = Some \<lparr>bbox_x0 = Num 0, bbox_y0 = Num 0, bbox_x1 = Num 10, bbox_y1 = Num 10\<rparr>\<rparr>,
      \<lparr>word_text = ''beta'', word_confidence = 0.8, word_bbox = None\<rparr>,
      \<lparr>word_text = ''gamma'', word_confidence = 0.7,
       word_bbox = Some \<lparr>bbox_x0 = Num 90, bbox_y0 = Num 90, bbox_x1 = Num 110, bbox_y1 = Num 110\<rparr>\<rparr>,
      \<lparr>word_text = ''delta'', word_confidence = 0.7,
       word_bbox = Some \<lparr>bbox_x0 = Num 10, bbox_y0 = Num 10, bbox_x1 = Num 30, bbox_y1 = Num 30\<rparr>\<rparr>]"

definition demoRegionStore :: store where
  "demoRegionStore =
     \<lparr>frames = [schemaDefaults\<lparr>frame_id := 0, createdBy := 7, sourceUrl := ''http://media/img'',
                 status := Completed,
                 ocrRaw := \<lparr>raw_words = Some demoWords, raw_lines = None\<rparr>\<rparr>],
      nextId = 1, statusLog = [(0, Queued), (0, Processing), (0, Completed)]\<rparr>"

text \<open>
  A frame with one word, whose box is the single point (1, 1); and the doubles that the
  literals \<^verbatim>\<open>0.7\<close> and \<^verbatim>\<open>0.3\<close> denote.
\<close>

definition demoEdgeStore :: store where
  "demoEdgeStore =
     \<lparr>frames = [schemaDefaults\<lparr>frame_id := 0, createdBy := 7, sourceUrl := ''http://media/img'',
                 status := Completed,
                 ocrRaw := \<lparr>raw_words =
                   Some [\<lparr>word_text = ''edge'', word_confidence = 0.9,
                          word_bbox = Some \<lparr>bbox_x0 = Num 1, bbox_y0 = Num 1,
                                            bbox_x1 = Num 1, bbox_y1 = Num 1\<rparr>\<rparr>],
                   raw_lines = None\<rparr>\<rparr>],
      nextId = 1, statusLog = [(0, Queued), (0, Processing), (0, Completed)]\<rparr>"

definition double07 :: real where
  "double07 = 3152519739159347 / 4503599627370496"

definition double03 :: real where
  "double03 = 5404319552844595 / 18014398509481984"

section \<open>Answer pipeline: \<^verbatim>\<open>AskService.askTextQuestion\<close>\<close>

text \<open>
  The operations on the confidence. Here the finite Numbers are handled as reals: the
  rounding of the floating-point division by 100 is not part of the model.
\<close>

text \<open>\<^verbatim>\<open>v > 1\<close>, \<^verbatim>\<open>v / 100\<close>, \<^verbatim>\<open>v || 0\<close>, \<^verbatim>\<open>Math.max(0, v)\<close> and \<^verbatim>\<open>Math.min(1, v)\<close>\<close>

fun greaterThanOne :: "jsnumber \<Rightarrow> bool" where
  "greaterThanOne (Num r) = (r > 1)"
| "greaterThanOne PosInfinity = True"
| "greaterThanOne NaN = False"
| "greaterThanOne NegInfinity = False"

fun dividedBy100 :: "jsnumber \<Rightarrow> jsnumber" where
  "dividedBy100 (Num r) = Num (r / 100)"
| "dividedBy100 v = v"

fun orZero :: "jsnumber \<Rightarrow> jsnumber" where
  "orZero (Num r) = (if r = 0 then Num 0 else Num r)"
| "orZero NaN = Num 0"
| "orZero v = v"

fun mathMax0 :: "jsnumber \<Rightarrow> jsnumber" where
  "mathMax0 (Num r) = Num (max 0 r)"
| "mathMax0 NaN = NaN"
| "mathMax0 PosInfinity = PosInfinity"
| "mathMax0 NegInfinity = Num 0"

fun mathMin1 :: "jsnumber \<Rightarrow> jsnumber" where
  "mathMin1 (Num r) = Num (min 1 r)"
| "mathMin1 NaN = NaN"
| "mathMin1 PosInfinity = Num 1"
| "mathMin1 NegInfinity = NegInfinity"

text \<open>
  The expression stored as \<^verbatim>\<open>confidence\<close>:
  \<^verbatim>\<open>Math.min(1, Math.max(0, (Number(c) > 1 ? Number(c) / 100 : Number(c)) || 0))\<close>,
  as a function of \<^verbatim>\<open>Number(c)\<close>.
\<close>

definition storedConfidence :: "jsnumber \<Rightarrow> jsnumber" where
  "storedConfidence v = mathMin1 (mathMax0 (orZero (if greaterThanOne v then dividedBy100 v else v)))"

text \<open>
  The answer of the generation client, as \<^verbatim>\<open>askTextQuestion\<close> reads it: a property that
  is undefined or \<^verbatim>\<open>null\<close> is \<open>None\<close>, and \<open>ans_confidence\<close> is
  \<^verbatim>\<open>Number(answer.confidence)\<close>. The properties \<^verbatim>\<open>meta\<close> and \<^verbatim>\<open>followUpQuestions\<close>
  are copied to the record without being read and are left out, as are \<^verbatim>\<open>subject\<close> and
  \<^verbatim>\<open>tags\<close>.
\<close>

record codeBlock =
  code_language :: "string option"
  code_snippet :: "string option"

record answer =
  ans_steps :: "string list option"
  ans_explanation :: "string option"
  ans_finalAnswer :: "string option"
  ans_confidence :: jsnumber
  ans_mermaidCode :: "string option"
  ans_code :: "codeBlock option"

datatype doubtStatus = Answered | Pending | DoubtFailed

record 'm contextEntry =
  ctx_text :: string
  ctx_score :: real
  ctx_metadata :: 'm

text \<open>The argument of \<^verbatim>\<open>Doubt.create\<close>; a path that the caller does not set is \<open>None\<close>.\<close>

record 'm doubt =
  d_userId :: nat
  d_questionText :: string
  d_answerSteps :: "string list"
  d_explanation :: "string option"
  d_finalAnswer :: "string option"
  d_confidence :: jsnumber
  d_retrievedContext :: "'m contextEntry list"
  d_status :: doubtStatus
  d_processingTime :: int
  d_mermaidCode :: "string option"
  d_code :: "codeBlock option"

record 'f askOptions =
  opt_topK :: "nat option"
  opt_filter :: "'f option"

text \<open>What \<^verbatim>\<open>askTextQuestion\<close> returns: the saved document and the fields laid over it.\<close>

record 'm askResult =
  res_doubt :: "'m doubt"
  res_steps :: "string list"
  res_explanation :: "string option"
  res_finalAnswer :: "string option"
  res_mermaidCode :: "string option"
  res_processingTime :: int

text \<open>
  \<^verbatim>\<open>Doubt.create\<close> on the list of saved doubts: \<open>rejects d\<close> is the error with which the
  validation of the schema or the store refuses \<open>d\<close>, if it does.
\<close>

definition createDoubt ::
  "('m doubt \<Rightarrow> error option) \<Rightarrow> 'm doubt \<Rightarrow> 'm doubt list \<Rightarrow> error + 'm doubt list" where
  "createDoubt rejects d db = (case rejects d of Some e \<Rightarrow> Inl e | None \<Rightarrow> Inr (db @ [d]))"

text \<open>\<^verbatim>\<open>answer.code && answer.code.snippet && typeof ... === 'string' && snippet.trim()\<close>\<close>

definition codeToSave :: "answer \<Rightarrow> codeBlock option" where
  "codeToSave answer =
     (case ans_code answer of
        None \<Rightarrow> None
      | Some c \<Rightarrow>
          (case code_snippet c of
             None \<Rightarrow> None
           | Some s \<Rightarrow> if s \<noteq> [] \<and> trim s \<noteq> [] then Some c else None))"

text \<open>The document of the \<^verbatim>\<open>catch\<close> block.\<close>

definition failedDoubt :: "nat \<Rightarrow> string \<Rightarrow> int \<Rightarrow> 'm doubt" where
  "failedDoubt userId question elapsed =
     \<lparr>d_userId = userId, d_questionText = question, d_answerSteps = [],
      d_explanation = None,
      d_finalAnswer = Some ''Failed to generate answer. Please try again.'',
      d_confidence = Num 0, d_retrievedContext = [], d_status = DoubtFailed,
      d_processingTime = elapsed, d_mermaidCode = None, d_code = None\<rparr>"

text \<open>The document of the \<^verbatim>\<open>try\<close> block; \<open>context\<close> is the retrieved context.\<close>

definition answeredDoubt ::
  "nat \<Rightarrow> string \<Rightarrow> answer \<Rightarrow> string list \<Rightarrow> 'm search_result list \<Rightarrow> int \<Rightarrow> 'm doubt" where
  "answeredDoubt userId question answer steps context elapsed =
     \<lparr>d_userId = userId, d_questionText = question, d_answerSteps = steps,
      d_explanation = ans_explanation answer,
      d_finalAnswer = ans_finalAnswer answer,
      d_confidence = storedConfidence (ans_confidence answer),
      retrievedContext =
        map (\<lambda>chunk. \<lparr>ctx_text = result_text chunk, ctx_score = score chunk,
                       ctx_metadata = result_metadata chunk\<rparr>) context,
      d_status = Answered, d_processingTime = elapsed,
      d_mermaidCode = Some (validateAndFixMermaid (case ans_mermaidCode answer of None \<Rightarrow> [] | Some m \<Rightarrow> m)),
      d_code = codeToSave answer\<rparr>"

text \<open>
  Step 1 of the \<^verbatim>\<open>try\<close> block:
  \<^verbatim>\<open>retriever.retrieve(questionText, options.topK || 5, options.filter)\<close>. The inner
  \<^verbatim>\<open>catch\<close> is never entered, since \<open>retrieve\<close> does not throw.
\<close>

definition retrieveContext ::
  "(string \<Rightarrow> error + real list) \<Rightarrow>
   (real list \<Rightarrow> nat \<Rightarrow> 'f option \<Rightarrow> error + 'm scored_point list) \<Rightarrow>
   string \<Rightarrow> 'f askOptions \<Rightarrow> 'm search_result list" where
  "retrieveContext embedQuery client questionText options =
     retrieve embedQuery client questionText
       (case opt_topK options of None \<Rightarrow> 5 | Some k \<Rightarrow> if k = 0 then 5 else k)
       (opt_filter options)"

text \<open>
  The \<^verbatim>\<open>try\<close> block. \<open>generate\<close> is \<^verbatim>\<open>geminiClient.askWithContext\<close>; the three readings
  of the clock are \<open>startTime\<close>, \<open>savedAt\<close> and \<open>failedAt\<close>. \<^verbatim>\<open>answer.steps.length\<close> throws a
  \<^verbatim>\<open>TypeError\<close> when \<^verbatim>\<open>answer.steps\<close> is undefined. \<^verbatim>\<open>updateUserStreak\<close> catches
  its own exceptions and changes no doubt; it is left out.
\<close>

definition tryAsk ::
  "(string \<Rightarrow> error + real list) \<Rightarrow>
   (real list \<Rightarrow> nat \<Rightarrow> 'f option \<Rightarrow> error + 'm scored_point list) \<Rightarrow>
   (string \<Rightarrow> 'm search_result list \<Rightarrow> error + answer) \<Rightarrow>
   ('m doubt \<Rightarrow> error option) \<Rightarrow> int \<Rightarrow> int \<Rightarrow>
   string \<Rightarrow> nat \<Rightarrow> 'f askOptions \<Rightarrow> 'm doubt list \<Rightarrow> error + ('m askResult \<times> 'm doubt list)" where
  "tryAsk embedQuery client generate rejects startTime savedAt questionText userId options db =
     (let context = retrieveContext embedQuery client questionText options
      in case generate questionText context of
           Inl e \<Rightarrow> Inl e
         | Inr answer \<Rightarrow>
             (case ans_steps answer of
                None \<Rightarrow> Inl (Error ''Cannot read properties of undefined (reading length)'')
              | Some steps \<Rightarrow>
                  (let processingTime = savedAt - startTime;
                       d = answeredDoubt userId questionText answer steps context processingTime
                   in case createDoubt rejects d db of
                        Inl e \<Rightarrow> Inl e
                      | Inr db \<Rightarrow>
                          Inr (\<lparr>res_doubt = d, res_steps = steps,
                                res_explanation = ans_explanation answer,
                                res_finalAnswer = ans_finalAnswer answer,
                                res_mermaidCode = ans_mermaidCode answer,
                                res_processingTime = processingTime\<rparr>, db))))"

text \<open>
  \<^verbatim>\<open>askTextQuestion\<close>: the \<^verbatim>\<open>catch\<close> block tries to save the failed document, logs a
  failure of that save, and throws the error it caught.
\<close>

definition askTextQuestion ::
  "(string \<Rightarrow> error + real list) \<Rightarrow>
   (real list \<Rightarrow> nat \<Rightarrow> 'f option \<Rightarrow> error + 'm scored_point list) \<Rightarrow>
   (string \<Rightarrow> 'm search_result list \<Rightarrow> error + answer) \<Rightarrow>
   ('m doubt \<Rightarrow> error option) \<Rightarrow> int \<Rightarrow> int \<Rightarrow> int \<Rightarrow>
   string \<Rightarrow> nat \<Rightarrow> 'f askOptions \<Rightarrow> 'm doubt list \<Rightarrow> (error + 'm askResult) \<times> 'm doubt list" where
  "askTextQuestion embedQuery client generate rejects startTime savedAt failedAt
       questionText userId options db =
     (case tryAsk embedQuery client generate rejects startTime savedAt questionText userId options db of
        Inr (result, db) \<Rightarrow> (Inr result, db)
      | Inl error \<Rightarrow>
          (case createDoubt rejects (failedDoubt userId questionText (failedAt - startTime)) db of
             Inl saveError \<Rightarrow> (Inl error, db)
           | Inr db \<Rightarrow> (Inl error, db)))"

text \<open>An answer for the examples, with its confidence on the scale 0..100 or beyond.\<close>

definition demoAnswer :: "real \<Rightarrow> answer" where
  "demoAnswer c =
     \<lparr>ans_steps = Some [''Step one''], ans_explanation = Some ''Because.'',
      ans_finalAnswer = Some ''42'', ans_confidence = Num c, ans_mermaidCode = None,
      ans_code = None\<rparr>"

definition noOptions :: "unit askOptions" where
  "noOptions = \<lparr>opt_topK = None, opt_filter = None\<rparr>"

section \<open>Generation clients\<close>

text \<open>
  A value of JSON. An object is the list of its properties; \<^verbatim>\<open>JSON.parse\<close> itself is
  not modelled: \<open>parse s\<close> is its result on \<open>s\<close>, and \<open>None\<close> when it throws a
  \<^verbatim>\<open>SyntaxError\<close>.
\<close>

datatype json =
  JNull
| JBool bool
| JNum real
| JStr string
| JArr "json list"
| JObj "(string \<times> json) list"

text \<open>
  Reading a property that is not built in (\<^verbatim>\<open>steps\<close>, \<^verbatim>\<open>confidence\<close>, ...): a
  \<^verbatim>\<open>TypeError\<close> on \<^verbatim>\<open>null\<close>, \<^verbatim>\<open>undefined\<close> (\<open>None\<close>) on a value that is not an object
  or has no such property.
\<close>

fun getProp :: "json \<Rightarrow> string \<Rightarrow> error + json option" where
  "getProp JNull k = Inl (Error ''Cannot read properties of null'')"
| "getProp (JObj kvs) k = Inr (map_of kvs k)"
| "getProp v k = Inr None"

fun truthy :: "json \<Rightarrow> bool" where
  "truthy JNull = False"
| "truthy (JBool b) = b"
| "truthy (JNum r) = (r \<noteq> 0)"
| "truthy (JStr s) = (s \<noteq> [])"
| "truthy (JArr vs) = True"
| "truthy (JObj kvs) = True"

text \<open>\<^verbatim>\<open>a || b\<close>, where \<open>a\<close> can be undefined.\<close>

definition orElse :: "json option \<Rightarrow> json \<Rightarrow> json" where
  "orElse a b = (case a of None \<Rightarrow> b | Some v \<Rightarrow> if truthy v then v else b)"

text \<open>The answer object of \<^verbatim>\<open>ClaudeClient\<close> and \<^verbatim>\<open>GeminiClient\<close>.\<close>

record clientAnswer =
  ca_steps :: json
  ca_finalAnswer :: json
  ca_confidence :: json
  ca_rawResponse :: string

subsection \<open>\<^verbatim>\<open>structureNonJsonResponse\<close> (the same in both classes)\<close>

definition isDigit :: "char \<Rightarrow> bool" where
  "isDigit c \<longleftrightarrow> (let n = (of_char c :: nat) in 48 \<le> n \<and> n \<le> 57)"

text \<open>\<^verbatim>\<open>line.match(/^(Step \d+|[0-9]+\.|\*)/)\<close>\<close>

definition isStepLine :: "string \<Rightarrow> bool" where
  "isStepLine line \<longleftrightarrow>
     (startsWith line ''Step '' \<and> takeWhile isDigit (drop 5 line) \<noteq> []) \<or>
     (takeWhile isDigit line \<noteq> [] \<and> startsWith (dropWhile isDigit line) ''.'') \<or>
     startsWith line ''*''"

text \<open>
  \<^verbatim>\<open>line.replace(/^(Step \d+:|[0-9]+\.|\*)\s*/, '')\<close>: the alternatives are tried in
  this order; a line that matches none of them is returned as it is.
\<close>

definition stripStepPrefix :: "string \<Rightarrow> string" where
  "stripStepPrefix line =
     (if startsWith line ''Step '' \<and> takeWhile isDigit (drop 5 line) \<noteq> [] \<and>
         startsWith (dropWhile isDigit (drop 5 line)) '':''
      then dropWhile js_ws (drop 1 (dropWhile isDigit (drop 5 line)))
      else if takeWhile isDigit line \<noteq> [] \<and> startsWith (dropWhile isDigit line) ''.''
      then dropWhile js_ws (drop 1 (dropWhile isDigit line))
      else if startsWith line ''*''
      then dropWhile js_ws (drop 1 line)
      else line)"

text \<open>The \<^verbatim>\<open>for\<close> loop over the lines, on the pair of \<^verbatim>\<open>steps\<close> and \<^verbatim>\<open>finalAnswer\<close>.\<close>

fun structureLoop :: "string list \<Rightarrow> string list \<times> string \<Rightarrow> string list \<times> string" where
  "structureLoop [] (steps, finalAnswer) = (steps, finalAnswer)"
| "structureLoop (line # lines) (steps, finalAnswer) =
     (if isStepLine line then structureLoop lines (steps @ [stripStepPrefix line], finalAnswer)
      else if length line > 50 then structureLoop lines (steps, finalAnswer @ line @ '' '')
      else structureLoop lines (steps, finalAnswer))"

definition structureNonJsonResponse :: "string \<Rightarrow> clientAnswer" where
  "structureNonJsonResponse content =
     (let lines = filter (\<lambda>line. trim line \<noteq> []) (splitLines content);
          (steps, finalAnswer) = structureLoop lines ([], [])
      in \<lparr>ca_steps = JArr (map JStr (if length steps > 0 then steps else [content])),
          ca_finalAnswer = JStr (if trim finalAnswer \<noteq> [] then trim finalAnswer
                                 else substring content 0 200),
          ca_confidence = JNum 0.75,
          ca_rawResponse = content\<rparr>)"

subsection \<open>\<^verbatim>\<open>ClaudeClient\<close>: the parsing inside \<^verbatim>\<open>askWithContext\<close>\<close>

text \<open>
  \<^verbatim>\<open>content.match(/\{[\s\S]*\}/)\<close>: the match starts at the first opening brace and,
  the star being greedy, ends at the last closing brace after it.
\<close>

definition braceSpan :: "string \<Rightarrow> string option" where
  "braceSpan content =
     (let rest = dropWhile (\<lambda>c. c \<noteq> CHR ''{'') content
      in if rest = [] then None
         else if CHR ''}'' \<in> set (tl rest)
         then Some (rev (dropWhile (\<lambda>c. c \<noteq> CHR ''}'') (rev rest)))
         else None)"

text \<open>
  The object built from the parsed value, with the default confidence of the class; a
  \<^verbatim>\<open>TypeError\<close> of the property reads is the \<open>Inl\<close>.
\<close>

definition fromParsed :: "real \<Rightarrow> string \<Rightarrow> json \<Rightarrow> error + clientAnswer" where
  "fromParsed defaultConfidence raw parsed =
     (case getProp parsed ''steps'' of
        Inl e \<Rightarrow> Inl e
      | Inr steps \<Rightarrow>
          (case getProp parsed ''final_answer'' of
             Inl e \<Rightarrow> Inl e
           | Inr final_answer \<Rightarrow>
               (case getProp parsed ''finalAnswer'' of
                  Inl e \<Rightarrow> Inl e
                | Inr finalAnswer \<Rightarrow>
                    (case getProp parsed ''confidence'' of
                       Inl e \<Rightarrow> Inl e
                     | Inr confidence \<Rightarrow>
                         Inr \<lparr>ca_steps = orElse steps (JArr []),
                              ca_finalAnswer =
                                (case final_answer of
                                   Some v \<Rightarrow> if truthy v then v else orElse finalAnswer (JStr [])
                                 | None \<Rightarrow> orElse finalAnswer (JStr [])),
                              ca_confidence = orElse confidence (JNum defaultConfidence),
                              ca_rawResponse = raw\<rparr>))))"

text \<open>\<^verbatim>\<open>ClaudeClient.getFallbackResponse\<close>\<close>

definition claudeFallbackResponse :: "string \<Rightarrow> clientAnswer" where
  "claudeFallbackResponse question =
     \<lparr>ca_steps = JArr
        [JStr ''I apologize, but I encountered an issue generating a detailed response.'',
         JStr ''This could be due to the complexity of the question or a temporary service issue.'',
         JStr ''Please try rephrasing your question or asking something more specific.''],
      ca_finalAnswer = JStr (''I'' @ [CHR 0x27] @ ''m having trouble answering '' @ [CHR 0x22] @
                             question @ [CHR 0x22] @
                             '' right now. Please try again with a more specific question.''),
      ca_confidence = JNum 0.3,
      ca_rawResponse = ''Fallback response due to empty Claude output''\<rparr>"

text \<open>
  What \<^verbatim>\<open>ClaudeClient.askWithContext\<close> does with the text \<open>content\<close> of the response:
  the guard against an empty or blank text, then the \<^verbatim>\<open>try\<close> block that parses it,
  with its \<^verbatim>\<open>catch\<close> and the \<^verbatim>\<open>return\<close> after it.
\<close>

definition claudeParse :: "(string \<Rightarrow> json option) \<Rightarrow> string \<Rightarrow> string \<Rightarrow> clientAnswer" where
  "claudeParse parse question content =
     (if content = [] \<or> length (trim content) = 0 then claudeFallbackResponse question
      else
        (case braceSpan content of
           None \<Rightarrow> structureNonJsonResponse content
         | Some jsonMatch \<Rightarrow>
             (case parse jsonMatch of
                None \<Rightarrow> structureNonJsonResponse content
              | Some parsed \<Rightarrow>
                  (case fromParsed 0.8 content parsed of
                     Inl e \<Rightarrow> structureNonJsonResponse content
                   | Inr a \<Rightarrow> a))))"

subsection \<open>\<^verbatim>\<open>GeminiClient\<close>\<close>

definition geminiParseResponse :: "(string \<Rightarrow> json option) \<Rightarrow> string \<Rightarrow> clientAnswer" where
  "geminiParseResponse parse text =
     (let cleanText = trim (replaceAll fence [] (replaceAll (fence @ ''json'') [] text))
      in case parse cleanText of
           None \<Rightarrow> structureNonJsonResponse text
         | Some parsed \<Rightarrow>
             (case fromParsed 0.85 text parsed of
                Inl e \<Rightarrow> structureNonJsonResponse text
              | Inr a \<Rightarrow> a))"

definition geminiFallbackResponse :: "string \<Rightarrow> clientAnswer" where
  "geminiFallbackResponse question =
     \<lparr>ca_steps = JArr
        [JStr ''I apologize, but I encountered an issue generating a detailed response.'',
         JStr ''Please try asking your question again.''],
      ca_finalAnswer = JStr (''I'' @ [CHR 0x27] @ ''m having trouble answering '' @ [CHR 0x22] @
                             question @ [CHR 0x22] @ '' right now.''),
      ca_confidence = JNum 0.3,
      ca_rawResponse = ''Fallback response''\<rparr>"

definition modelsToTry :: "string list" where
  "modelsToTry = [''gemini-1.5-flash-001'', ''gemini-1.5-flash'', ''gemini-pro'', ''gemini-1.0-pro'']"

text \<open>
  The \<^verbatim>\<open>for\<close> loop of \<^verbatim>\<open>GeminiClient.askWithContext\<close> over the models that are left.
  \<open>generate modelName\<close> is the outcome of the \<^verbatim>\<open>try\<close> block up to \<^verbatim>\<open>response.text()\<close>
  for that model. A loop that ends without a \<^verbatim>\<open>return\<close> gives \<^verbatim>\<open>undefined\<close>, the
  \<open>None\<close>.
\<close>

fun tryModels ::
  "(string \<Rightarrow> json option) \<Rightarrow> (string \<Rightarrow> error + string) \<Rightarrow> string \<Rightarrow> string list \<Rightarrow>
   clientAnswer option" where
  "tryModels parse generate question [] = None"
| "tryModels parse generate question (modelName # models) =
     (case generate modelName of
        Inr text \<Rightarrow> Some (geminiParseResponse parse text)
      | Inl e \<Rightarrow>
          if modelName = last modelsToTry then Some (geminiFallbackResponse question)
          else tryModels parse generate question models)"

definition geminiAskWithContext ::
  "(string \<Rightarrow> json option) \<Rightarrow> (string \<Rightarrow> error + string) \<Rightarrow> string \<Rightarrow> clientAnswer option" where
  "geminiAskWithContext parse generate question = tryModels parse generate question modelsToTry"

subsection \<open>\<^verbatim>\<open>GroqClient\<close>, the client that \<^verbatim>\<open>AskService\<close> imports\<close>

definition groqParseResponse :: "(string \<Rightarrow> json option) \<Rightarrow> string \<Rightarrow> json" where
  "groqParseResponse parse text =
     (case parse text of
        Some parsed \<Rightarrow> parsed
      | None \<Rightarrow>
          JObj [(''explanation'', JStr text),
                (''steps'', JArr [JStr ''See explanation above.'']),
                (''finalAnswer'', JStr ''Could not parse structured answer.''),
                (''confidence'', JNum 0),
                (''meta'', JObj [(''subject'', JStr ''General''), (''difficulty'', JStr ''Unknown''),
                                 (''type'', JStr ''General'')])])"

definition groqFallbackResponse :: "string \<Rightarrow> json" where
  "groqFallbackResponse question =
     JObj [(''explanation'', JStr (''I'' @ [CHR 0x27] @
              ''m having trouble connecting to my brain right now. It might be a network issue.'')),
           (''steps'', JArr [JStr ''Please check your internet connection.'',
                             JStr ''Try again in a moment.'']),
           (''finalAnswer'', JStr ''Temporary connection issue.''),
           (''confidence'', JNum 0),
           (''meta'', JObj [(''subject'', JStr ''System''), (''difficulty'', JStr ''N/A''),
                            (''category'', JStr ''Error'')])]"

text \<open>
  \<^verbatim>\<open>GroqClient.askWithContext\<close>. \<open>completion\<close> is the outcome of the request to the one
  model of the class, up to \<^verbatim>\<open>completion.choices[0]?.message?.content\<close>, which can be
  undefined. Every exception ends in the fallback response.
\<close>

definition groqAskWithContext ::
  "(string \<Rightarrow> json option) \<Rightarrow> error + string option \<Rightarrow> string \<Rightarrow> json" where
  "groqAskWithContext parse completion question =
     (case completion of
        Inl e \<Rightarrow> groqFallbackResponse question
      | Inr None \<Rightarrow> groqFallbackResponse question
      | Inr (Some content) \<Rightarrow>
          if content = [] then groqFallbackResponse question
          else groqParseResponse parse content)"

subsection \<open>The parsing policy in the words of the specification\<close>

text \<open>
  The first balanced \<^verbatim>\<open>{...}\<close> substring: from the first opening brace to the closing
  brace that brings the nesting depth back to zero.
\<close>

fun scanBalanced :: "nat \<Rightarrow> string \<Rightarrow> string option" where
  "scanBalanced depth [] = None"
| "scanBalanced depth (c # cs) =
     (if c = CHR ''{'' then map_option ((#) c) (scanBalanced (Suc depth) cs)
      else if c = CHR ''}'' then
        (if depth \<le> 1 then Some [c] else map_option ((#) c) (scanBalanced (depth - 1) cs))
      else map_option ((#) c) (scanBalanced depth cs))"

definition specFirstBalanced :: "string \<Rightarrow> string option" where
  "specFirstBalanced text =
     (case dropWhile (\<lambda>c. c \<noteq> CHR ''{'') text of
        [] \<Rightarrow> None
      | c # cs \<Rightarrow> map_option ((#) c) (scanBalanced 1 cs))"

text \<open>
  The three stages of the policy: direct parsing, then the first balanced substring, then
  the structuring by lines. The result says which stage produced it.
\<close>

datatype parsed = Direct json | Extracted json | Structured clientAnswer

definition specParse :: "(string \<Rightarrow> json option) \<Rightarrow> string \<Rightarrow> parsed" where
  "specParse parse text =
     (case parse text of
        Some v \<Rightarrow> Direct v
      | None \<Rightarrow>
          (case specFirstBalanced text of
             None \<Rightarrow> Structured (structureNonJsonResponse text)
           | Some sub \<Rightarrow>
               (case parse sub of
                  Some v \<Rightarrow> Extracted v
                | None \<Rightarrow> Structured (structureNonJsonResponse text))))"

text \<open>
  A stand-in for \<^verbatim>\<open>JSON.parse\<close> in the examples. It agrees with \<^verbatim>\<open>JSON.parse\<close> on the
  strings the examples give it: \<^verbatim>\<open>{}\<close> is the empty object, and the other strings are
  not JSON.
\<close>

definition demoParse :: "string \<Rightarrow> json option" where
  "demoParse s = (if s = ''{}'' then Some (JObj []) else None)"

section \<open>Ingestion: uploads, crops and the processing of a frame\<close>

record reqFile =
  file_buffer :: string
  file_mimetype :: string

text \<open>
  \<^verbatim>\<open>processImageImmediately\<close>. It returns the processed frame, and nothing (\<^verbatim>\<open>undefined\<close> or
  \<^verbatim>\<open>null\<close>) when the frame is not found or an exception reaches the \<^verbatim>\<open>catch\<close> block,
  which marks the stored frame as failed with the message of the exception.
\<close>

definition processImageImmediately ::
  "services \<Rightarrow> nat \<Rightarrow> string \<Rightarrow> store \<Rightarrow> frame option \<times> store" where
  "processImageImmediately sv frameId imageUrl db =
     (case findById frameId db of
        None \<Rightarrow> (None, db)
      | Some frame \<Rightarrow>
          (let frame = frame\<lparr>status := Processing\<rparr>
           in case save frame db of
                Inl error \<Rightarrow> (None, findByIdAndUpdate frameId Failed (Some (message error)) db)
              | Inr db \<Rightarrow>
                  (case extractText sv (Some imageUrl) of
                     Inl error \<Rightarrow>
                       (None, findByIdAndUpdate frameId Failed (Some (message error)) db)
                   | Inr ocrResult \<Rightarrow>
                       (let concepts =
                              (case sv_concepts sv imageUrl (ocr_text ocrResult) of
                                 Inl err \<Rightarrow> \<lparr>concept_tags = [], concept_difficulty = ''unknown''\<rparr>
                               | Inr c \<Rightarrow> c);
                            frame = frame\<lparr>ocrText := ocr_text ocrResult,
                                          ocrRaw := ocr_raw ocrResult,
                                          ocrConfidence := ocr_confidence ocrResult,
                                          conceptTags := concept_tags concepts,
                                          difficulty := concept_difficulty concepts,
                                          status := Completed\<rparr>
                        in case save frame db of
                             Inl error \<Rightarrow>
                               (None, findByIdAndUpdate frameId Failed (Some (message error)) db)
                           | Inr db \<Rightarrow> (Some frame, db)))))"

text \<open>\<^verbatim>\<open>uploadImage\<close>\<close>

definition uploadImage ::
  "services \<Rightarrow> nat \<Rightarrow> reqFile option \<Rightarrow> nat option \<Rightarrow> store \<Rightarrow> frame response \<times> store" where
  "uploadImage sv userId upFile reqLectureId db =
     (case upFile of
        None \<Rightarrow> (Status400 ''No image file provided'', db)
      | Some f \<Rightarrow>
          (case sv_upload sv (file_buffer f) of
             Inl error \<Rightarrow> (Status500 ''Failed to upload image'' (message error), db)
           | Inr uploadResult \<Rightarrow>
               (case create (schemaDefaults\<lparr>createdBy := userId, lectureId := reqLectureId,
                               sourceType := Image, sourceUrl := up_url uploadResult,
                               status := Queued\<rparr>) db of
                  Inl error \<Rightarrow> (Status500 ''Failed to upload image'' (message error), db)
                | Inr (frame, db) \<Rightarrow>
                    (let (processed, db) =
                           processImageImmediately sv (frame_id frame) (up_url uploadResult) db
                     in case findById (frame_id frame) db of
                          None \<Rightarrow>
                            (Status500 ''Failed to upload image''
                               ''Cannot read properties of null'', db)
                        | Some processedFrame \<Rightarrow> (Status201 processedFrame, db)))))"

text \<open>
  An entry of \<^verbatim>\<open>pageFrames\<close>: the processed frame, or the page number, the identifier
  and the URL of a page whose processing failed.
\<close>

datatype pageEntry = ProcessedPage frame | FailedPage nat nat string

text \<open>
  The \<^verbatim>\<open>for\<close> loop of \<^verbatim>\<open>processPdfImmediately\<close> over the pages that are left. An
  exception of the upload of a page or of the creation of its frame leaves the loop; the
  frames made before it stay.
\<close>

fun processPages ::
  "services \<Rightarrow> nat \<Rightarrow> nat \<Rightarrow> nat option \<Rightarrow> page list \<Rightarrow> store \<Rightarrow>
   (error + pageEntry list) \<times> store" where
  "processPages sv pdfFrameId userId reqLectureId [] db = (Inr [], db)"
| "processPages sv pdfFrameId userId reqLectureId (page # pages) db =
     (case sv_upload sv (page_imageBuffer page) of
        Inl error \<Rightarrow> (Inl error, db)
      | Inr uploadResult \<Rightarrow>
          (case create (schemaDefaults\<lparr>createdBy := userId, lectureId := reqLectureId,
                          sourceType := PdfPage, sourceUrl := up_url uploadResult,
                          pdfId := Some pdfFrameId, pageNumber := Some (page_number page),
                          status := Queued\<rparr>) db of
             Inl error \<Rightarrow> (Inl error, db)
           | Inr (pageFrame, db) \<Rightarrow>
               (let (processed, db) =
                      processImageImmediately sv (frame_id pageFrame) (up_url uploadResult) db;
                    entry =
                      (case processed of
                         Some processedFrame \<Rightarrow> ProcessedPage processedFrame
                       | None \<Rightarrow>
                           FailedPage (page_number page) (frame_id pageFrame)
                             (up_url uploadResult))
                in case processPages sv pdfFrameId userId reqLectureId pages db of
                     (Inl error, db) \<Rightarrow> (Inl error, db)
                   | (Inr entries, db) \<Rightarrow> (Inr (entry # entries), db))))"

definition processPdfImmediately ::
  "services \<Rightarrow> nat \<Rightarrow> string \<Rightarrow> nat \<Rightarrow> nat option \<Rightarrow> store \<Rightarrow> pageEntry list \<times> store" where
  "processPdfImmediately sv pdfFrameId pdfBuffer userId reqLectureId db =
     (case sv_convert sv pdfBuffer of
        Inl error \<Rightarrow> ([], findByIdAndUpdate pdfFrameId Failed (Some (message error)) db)
      | Inr pages \<Rightarrow>
          (case processPages sv pdfFrameId userId reqLectureId pages db of
             (Inl error, db) \<Rightarrow>
               ([], findByIdAndUpdate pdfFrameId Failed (Some (message error)) db)
           | (Inr pageFrames, db) \<Rightarrow> (pageFrames, findByIdAndComplete pdfFrameId db)))"

text \<open>\<^verbatim>\<open>uploadPdf\<close>: the data of the response are the identifier of the parent frame, the
  number of pages and the entries of the pages.\<close>

definition uploadPdf ::
  "services \<Rightarrow> nat \<Rightarrow> reqFile option \<Rightarrow> nat option \<Rightarrow> store \<Rightarrow>
   (nat \<times> nat \<times> pageEntry list) response \<times> store" where
  "uploadPdf sv userId upFile reqLectureId db =
     (case upFile of
        None \<Rightarrow> (Status400 ''No PDF file provided'', db)
      | Some f \<Rightarrow>
          (case sv_upload sv (file_buffer f) of
             Inl error \<Rightarrow> (Status500 ''Failed to upload PDF'' (message error), db)
           | Inr uploadResult \<Rightarrow>
               (case sv_pdfMetadata sv (file_buffer f) of
                  Inl error \<Rightarrow> (Status500 ''Failed to upload PDF'' (message error), db)
                | Inr pageCount \<Rightarrow>
                    (case create (schemaDefaults\<lparr>createdBy := userId,
                                    lectureId := reqLectureId, sourceType := PdfPage,
                                    sourceUrl := up_url uploadResult,
                                    status := Processing\<rparr>) db of
                       Inl error \<Rightarrow> (Status500 ''Failed to upload PDF'' (message error), db)
                     | Inr (pdfFrame, db) \<Rightarrow>
                         (let (pageFrames, db) =
                                processPdfImmediately sv (frame_id pdfFrame) (file_buffer f)
                                  userId reqLectureId db
                          in (Status201 (frame_id pdfFrame, pageCount, pageFrames), db))))))"

text \<open>
  \<^verbatim>\<open>extractCrop\<close>. The call of \<^verbatim>\<open>processImageImmediately\<close> is not awaited in the code;
  here it has run to its end before the next request. The coordinates of the body are
  Numbers here: the handler hands them to the cropping service and to \<^verbatim>\<open>Frame.create\<close>
  and computes nothing with them.
\<close>

record cropBody =
  cb_frameId :: "nat option"
  cb_x :: "real option"
  cb_y :: "real option"
  cb_width :: "real option"
  cb_height :: "real option"
  cb_scale :: "real option"

definition extractCrop ::
  "services \<Rightarrow> nat \<Rightarrow> cropBody \<Rightarrow> store \<Rightarrow> (nat \<times> string) response \<times> store" where
  "extractCrop sv userId body db =
     (case (cb_frameId body, cb_x body, cb_y body, cb_width body, cb_height body) of
        (Some frameId, Some x, Some y, Some width, Some height) \<Rightarrow>
          if width = 0 \<or> height = 0 then (Status400 ''Missing required crop parameters'', db)
          else
            (case findOne frameId userId db of
               None \<Rightarrow> (Status404 ''Frame not found'', db)
             | Some sourceFrame \<Rightarrow>
                 (let coords = \<lparr>crop_x = x, crop_y = y, crop_width = width, crop_height = height,
                                 crop_scale = (case cb_scale body of None \<Rightarrow> 1 | Some s \<Rightarrow> s)\<rparr>
                  in case sv_download sv (sourceUrl sourceFrame) of
                       Inl error \<Rightarrow> (Status500 ''Failed to extract crop'' (message error), db)
                     | Inr imageBuffer \<Rightarrow>
                         (case sv_crop sv imageBuffer coords of
                            Inl error \<Rightarrow> (Status500 ''Failed to extract crop'' (message error), db)
                          | Inr croppedBuffer \<Rightarrow>
                              (case sv_upload sv croppedBuffer of
                                 Inl error \<Rightarrow>
                                   (Status500 ''Failed to extract crop'' (message error), db)
                               | Inr uploadResult \<Rightarrow>
                                   (case create (schemaDefaults\<lparr>createdBy := userId,
                                                   lectureId := lectureId sourceFrame,
                                                   sourceType := Crop,
                                                   sourceUrl := sourceUrl sourceFrame,
                                                   cropUrl := Some (up_url uploadResult),
                                                   pdfId := Some (frame_id sourceFrame),
                                                   cropCoords := Some coords,
                                                   status := Queued\<rparr>) db of
                                      Inl error \<Rightarrow>
                                        (Status500 ''Failed to extract crop'' (message error), db)
                                    | Inr (cropFrame, db) \<Rightarrow>
                                        (let (processed, db) =
                                               processImageImmediately sv (frame_id cropFrame)
                                                 (up_url uploadResult) db
                                         in (Status201 (frame_id cropFrame, up_url uploadResult),
                                             db)))))))
      | _ \<Rightarrow> (Status400 ''Missing required crop parameters'', db))"

section \<open>Sequences of ingestion requests\<close>

datatype request =
  UploadImage nat "reqFile option" "nat option"
| UploadPdf nat "reqFile option" "nat option"
| ExtractCrop nat cropBody
| ExtractRegion nat regionBody
| DeleteFrame nat nat

text \<open>
  The store after a request, served with the collaborators \<open>sv\<close>; the conversions \<open>cv\<close>
  of the language are the same for every request.
\<close>

fun serve :: "conversions \<Rightarrow> services \<Rightarrow> request \<Rightarrow> store \<Rightarrow> store" where
  "serve cv sv (UploadImage userId reqFile reqLectureId) db =
     snd (uploadImage sv userId reqFile reqLectureId db)"
| "serve cv sv (UploadPdf userId reqFile reqLectureId) db =
     snd (uploadPdf sv userId reqFile reqLectureId db)"
| "serve cv sv (ExtractCrop userId body) db = snd (extractCrop sv userId body db)"
| "serve cv sv (ExtractRegion userId body) db = snd (extractTextFromRegion cv sv userId body db)"
| "serve cv sv (DeleteFrame i userId) db = snd (deleteFrame i userId db)"

fun run :: "conversions \<Rightarrow> (services \<times> request) list \<Rightarrow> store \<Rightarrow> store" where
  "run cv [] db = db"
| "run cv ((sv, r) # rs) db = run cv rs (serve cv sv r db)"



text \<open>
  Collaborators for the examples: every call succeeds; the OCR fails; the extraction of
  concepts answers with a difficulty that the schema does not know. The conversions of
  the examples stand in for those of the language on the strings and Numbers the
  examples give them: the string \<^verbatim>\<open>12\<close> is the Number 12.
\<close>

definition demoOcrResult :: ocrResult where
  "demoOcrResult =
     \<lparr>ocr_text = ''alpha'', ocr_confidence = 0.9,
      ocr_raw = \<lparr>raw_words = Some [\<lparr>word_text = ''alpha'', word_confidence = 0.9,
                                     word_bbox = Some \<lparr>bbox_x0 = Num 0, bbox_y0 = Num 0,
                                                       bbox_x1 = Num 10, bbox_y1 = Num 10\<rparr>\<rparr>],
                 raw_lines = Some []\<rparr>\<rparr>"

definition workingServices :: services where
  "workingServices =
     \<lparr>sv_upload = (\<lambda>buffer. Inr \<lparr>up_url = ''http://media/'' @ buffer\<rparr>),
      sv_ocr = (\<lambda>url. Inr demoOcrResult),
      sv_noImage = ''no image'',
      sv_concepts = (\<lambda>url text. Inr \<lparr>concept_tags = [''algebra''], concept_difficulty = ''easy''\<rparr>),
      sv_pdfMetadata = (\<lambda>buffer. Inr 2),
      sv_convert = (\<lambda>buffer. Inr [\<lparr>page_number = 1, page_imageBuffer = ''p1''\<rparr>,
                                   \<lparr>page_number = 2, page_imageBuffer = ''p2''\<rparr>]),
      sv_download = (\<lambda>url. Inr ''bytes''),
      sv_crop = (\<lambda>buffer coords. Inr ''cropped'')\<rparr>"

definition failingOcr :: services where
  "failingOcr = workingServices\<lparr>sv_ocr := (\<lambda>url. Inl (Error ''Tesseract OCR failed: timeout''))\<rparr>"


definition demoConversions :: conversions where
  "demoConversions =
     \<lparr>numberToString = (\<lambda>n. if n = Num 1 then ''1'' else if n = Num 2 then ''2'' else ''NaN''),
      stringToNumber = (\<lambda>s. if s = ''12'' then Num 12 else if s = ''1'' then Num 1 else NaN)\<rparr>"




section \<open>Properties of the chunker\<close>

lemma length_trim_le: "length (trim s) \<le> length s"
proof -
  have "length (dropWhile js_ws (rev (dropWhile js_ws s))) \<le> length (rev (dropWhile js_ws s))"
    by (rule length_dropWhile_le)
  also have "\<dots> \<le> length s"
    by (simp add: length_dropWhile_le)
  finally show ?thesis by (simp add: trim_def)
qed

lemma length_substring_le: "a \<le> b \<Longrightarrow> length (substring s a b) \<le> nat (b - a)"
  by (auto simp: substring_def Let_def min_def max_def)

lemma chunkLoop_bounded:
  "\<forall>c \<in> set chunks. length (chunk_text c) \<le> nat chunkSizeChars \<Longrightarrow>
   \<forall>c \<in> set (chunkLoop uuid tx metadata startIndex chunks). length (chunk_text c) \<le> nat chunkSizeChars"
proof (induction uuid tx metadata startIndex chunks rule: chunkLoop.induct)
  case (1 uuid tx metadata startIndex chunks)
  show ?case
  proof (cases "startIndex < int (length tx)")
    case False
    then show ?thesis using "1.prems" by (subst chunkLoop.simps) simp
  next
    case True
    define endIndex where "endIndex = min (startIndex + chunkSizeChars) (int (length tx))"
    define piece where "piece = trim (substring tx startIndex endIndex)"
    define chunks' where "chunks' =
      (if length piece > 0
       then chunks @
         [\<lparr>chunk_id = uuid (length chunks), chunk_text = piece,
           chunk_metadata = metadata, chunkIndex = length chunks,
           startChar = startIndex, endChar = endIndex\<rparr>]
       else chunks)"
    have le: "startIndex \<le> endIndex"
      using True by (simp add: endIndex_def chunkSizeChars_def chunkSize_def avgCharsPerToken_def)
    have "length piece \<le> length (substring tx startIndex endIndex)"
      unfolding piece_def by (rule length_trim_le)
    also have "\<dots> \<le> nat (endIndex - startIndex)"
      using le by (rule length_substring_le)
    also have "\<dots> \<le> nat chunkSizeChars"
      by (simp add: endIndex_def)
    finally have piece: "length piece \<le> nat chunkSizeChars" .
    have inv: "\<forall>c \<in> set chunks'. length (chunk_text c) \<le> nat chunkSizeChars"
      using "1.prems" piece by (simp add: chunks'_def)
    show ?thesis
    proof (cases "endIndex - overlapChars \<ge> int (length tx) - overlapChars")
      case stop: True
      have "chunkLoop uuid tx metadata startIndex chunks = chunks'"
        using True stop
        by (subst chunkLoop.simps) (simp add: Let_def endIndex_def piece_def chunks'_def)
      then show ?thesis using inv by simp
    next
      case go: False
      have eq: "chunkLoop uuid tx metadata startIndex chunks =
                chunkLoop uuid tx metadata (endIndex - overlapChars) chunks'"
        using True go
        by (subst chunkLoop.simps) (simp add: Let_def endIndex_def piece_def chunks'_def)
      have "\<forall>c \<in> set (chunkLoop uuid tx metadata (endIndex - overlapChars) chunks').
              length (chunk_text c) \<le> nat chunkSizeChars"
        using True go inv
        by (intro "1.IH"[OF True endIndex_def piece_def chunks'_def refl]) auto
      then show ?thesis using eq by simp
    qed
  qed
qed

lemma chunkLoop_count:
  "length (chunkLoop uuid tx metadata startIndex chunks) \<le>
     length chunks +
     (if startIndex < int (length tx)
      then nat ((int (length tx) - startIndex - 1) div (chunkSizeChars - overlapChars)) + 1
      else 0)"
proof (induction uuid tx metadata startIndex chunks rule: chunkLoop.induct)
  case (1 uuid tx metadata startIndex chunks)
  show ?case
  proof (cases "startIndex < int (length tx)")
    case False
    then show ?thesis by (subst chunkLoop.simps) simp
  next
    case True
    define endIndex where "endIndex = min (startIndex + chunkSizeChars) (int (length tx))"
    define piece where "piece = trim (substring tx startIndex endIndex)"
    define chunks' where "chunks' =
      (if length piece > 0
       then chunks @
         [\<lparr>chunk_id = uuid (length chunks), chunk_text = piece,
           chunk_metadata = metadata, chunkIndex = length chunks,
           startChar = startIndex, endChar = endIndex\<rparr>]
       else chunks)"
    have len': "length chunks' \<le> length chunks + 1"
      by (simp add: chunks'_def)
    show ?thesis
    proof (cases "endIndex - overlapChars \<ge> int (length tx) - overlapChars")
      case stop: True
      have "chunkLoop uuid tx metadata startIndex chunks = chunks'"
        using True stop
        by (subst chunkLoop.simps) (simp add: Let_def endIndex_def piece_def chunks'_def)
      then show ?thesis using len' True by simp
    next
      case go: False
      have eq: "chunkLoop uuid tx metadata startIndex chunks =
                chunkLoop uuid tx metadata (endIndex - overlapChars) chunks'"
        using True go
        by (subst chunkLoop.simps) (simp add: Let_def endIndex_def piece_def chunks'_def)
      have e: "endIndex = startIndex + chunkSizeChars" and lt: "startIndex + chunkSizeChars < int (length tx)"
        using go by (auto simp: endIndex_def min_def split: if_splits)
      have next_lt: "endIndex - overlapChars < int (length tx)"
        using e lt by (simp add: overlapChars_def overlapSize_def avgCharsPerToken_def)
      have IH: "length (chunkLoop uuid tx metadata (endIndex - overlapChars) chunks') \<le>
          length chunks' +
          (nat ((int (length tx) - (endIndex - overlapChars) - 1) div (chunkSizeChars - overlapChars)) + 1)"
        using "1.IH"[OF True endIndex_def piece_def chunks'_def refl] go next_lt by simp
      have stride: "chunkSizeChars - overlapChars = 1400" and cs: "chunkSizeChars = 1600"
        and ov: "overlapChars = 200"
        by (simp_all add: chunkSizeChars_def overlapChars_def chunkSize_def overlapSize_def avgCharsPerToken_def)
      define k where "k = int (length tx) - startIndex - 1"
      have k: "1400 \<le> k" using lt by (simp add: k_def cs)
      have "(k - 1400) div 1400 = k div 1400 - 1"
        using div_mult_self1[of 1400 k "-1"] by simp
      moreover have "1 \<le> k div 1400"
        using k by (simp add: pos_imp_zdiv_pos_iff)
      ultimately have "nat ((k - 1400) div 1400) + 1 = nat (k div 1400)"
        by simp
      moreover have "int (length tx) - (endIndex - overlapChars) - 1 = k - 1400"
        by (simp add: e cs ov k_def)
      ultimately have "nat ((int (length tx) - (endIndex - overlapChars) - 1) div (chunkSizeChars - overlapChars)) + 1
            = nat ((int (length tx) - startIndex - 1) div (chunkSizeChars - overlapChars))"
        unfolding stride k_def by simp
      then show ?thesis using IH len' eq True by simp
    qed
  qed
qed

text \<open>
  Claim C6. \<^verbatim>\<open>chunkText\<close> returns for every text: \<open>chunkLoop\<close> is a total function,
  its termination proved above from the \<^verbatim>\<open>break\<close> and from the stride
  \<open>chunkSizeChars - overlapChars = 1400 > 0\<close>; the loop body runs at most
  \<open>length text div 1400 + 1\<close> times, each run pushing at most one chunk, also when the
  tail left over is shorter than the overlap; and the text of every chunk has at most
  \<open>chunkSizeChars = 1600\<close> characters.
\<close>

theorem chunkText_total_and_bounded:
  "overlapChars < chunkSizeChars \<and>
   (\<forall>c \<in> set (chunkText uuid tx metadata). length (chunk_text c) \<le> nat chunkSizeChars) \<and>
   length (chunkText uuid tx metadata) \<le> length tx div nat (chunkSizeChars - overlapChars) + 1"
proof -
  have stride: "chunkSizeChars - overlapChars = 1400"
    by (simp add: chunkSizeChars_def overlapChars_def chunkSize_def overlapSize_def
        avgCharsPerToken_def)
  have "length (chunkLoop uuid tx metadata 0 []) \<le>
        length ([] :: 'a chunk list) +
        (if 0 < int (length tx)
         then nat ((int (length tx) - 0 - 1) div (chunkSizeChars - overlapChars)) + 1 else 0)"
    by (rule chunkLoop_count)
  then have "length (chunkText uuid tx metadata) \<le>
        (if tx \<noteq> [] then nat ((int (length tx) - 1) div 1400) + 1 else 0)"
    by (simp add: chunkText_def stride split: if_splits)
  also have "\<dots> \<le> nat (int (length tx) div 1400) + 1"
    by (auto intro!: nat_mono zdiv_mono1)
  also have "\<dots> = length tx div 1400 + 1"
    by (simp add: nat_div_distrib)
  finally have count: "length (chunkText uuid tx metadata) \<le> length tx div 1400 + 1" .
  have "\<forall>c \<in> set (chunkText uuid tx metadata). length (chunk_text c) \<le> nat chunkSizeChars"
    unfolding chunkText_def by (rule chunkLoop_bounded) simp
  then show ?thesis
    using count stride by simp
qed

theorem chunkText_short_tail_witness:
  "chunkText (\<lambda>n. ''id'') ''  abc  '' () \<noteq> [] \<and>
   length (chunk_text (hd (chunkText (\<lambda>n. ''id'') ''  abc  '' ()))) \<le> 1600 \<and>
   length (chunkText (\<lambda>n. ''id'') ''  abc  '' ()) \<le> 1"
proof -
  have run: "map chunk_text (chunkText (\<lambda>n. ''id'') ''  abc  '' ()) = [''abc'']"
    by code_simp
  have ne: "chunkText (\<lambda>n. ''id'') ''  abc  '' () \<noteq> []"
    using run by auto
  then have mem: "hd (chunkText (\<lambda>n. ''id'') ''  abc  '' ()) \<in> set (chunkText (\<lambda>n. ''id'') ''  abc  '' ())"
    by simp
  have size: "nat chunkSizeChars = 1600"
    by (simp add: chunkSizeChars_def chunkSize_def avgCharsPerToken_def)
  have stride: "nat (chunkSizeChars - overlapChars) = 1400"
    by (simp add: chunkSizeChars_def overlapChars_def chunkSize_def overlapSize_def
        avgCharsPerToken_def)
  show ?thesis
    using chunkText_total_and_bounded[of "\<lambda>n. ''id''" "''  abc  ''" "()"] ne mem
    unfolding size stride by simp
qed

section \<open>Properties of the diagram repair\<close>

text \<open>
  Claim C5, as stated, at the input \<^verbatim>\<open>A-->B\<close>: the first pass gives
  \<^verbatim>\<open>graph TD\<close>, a line feed and \<^verbatim>\<open>A --> B\<close>; the second pass pads the arrow again.
\<close>

theorem validateAndFixMermaid_not_idempotent:
  "validateAndFixMermaid (validateAndFixMermaid ''A-->B'') \<noteq> validateAndFixMermaid ''A-->B''"
  by code_simp

subsection \<open>Trimming\<close>

lemma trimEnd_append_ws:
  "\<forall>c \<in> set h. js_ws c \<Longrightarrow>
   rev (dropWhile js_ws (rev (s @ h))) = rev (dropWhile js_ws (rev s))"
proof -
  assume ws: "\<forall>c \<in> set h. js_ws c"
  have "dropWhile js_ws (rev h @ rev s) = dropWhile js_ws (rev s)"
    by (rule dropWhile_append2) (use ws in auto)
  then show ?thesis by simp
qed

lemma trimEnd_keeps_head:
  assumes "s \<noteq> []" "\<not> js_ws (hd s)"
  shows "rev (dropWhile js_ws (rev s)) \<noteq> [] \<and> hd (rev (dropWhile js_ws (rev s))) = hd s"
proof -
  obtain a r where s: "s = a # r" using assms(1) by (cases s) auto
  have "dropWhile js_ws (rev r @ [a]) = dropWhile js_ws (rev r) @ [a]"
    using assms(2) s by (simp add: dropWhile_append3)
  then show ?thesis using s by simp
qed

lemma trimEnd_no_trailing:
  "rev (dropWhile js_ws (rev s)) = [] \<or> \<not> js_ws (last (rev (dropWhile js_ws (rev s))))"
proof (cases "dropWhile js_ws (rev s)")
  case Nil
  then show ?thesis by simp
next
  case (Cons a r)
  then have "\<not> js_ws a"
    by (metis dropWhile_eq_Cons_conv)
  then show ?thesis using Cons by simp
qed

lemma trimEnd_fixed:
  "s = [] \<or> \<not> js_ws (last s) \<Longrightarrow> rev (dropWhile js_ws (rev s)) = s"
  by (cases s rule: rev_cases) auto

lemma dropWhile_fixed:
  "s = [] \<or> \<not> js_ws (hd s) \<Longrightarrow> dropWhile js_ws s = s"
  by (cases s) auto

lemma trim_shape:
  "(trim s = [] \<or> \<not> js_ws (hd (trim s))) \<and> (trim s = [] \<or> \<not> js_ws (last (trim s)))"
proof -
  let ?t = "dropWhile js_ws s"
  have lead: "?t = [] \<or> \<not> js_ws (hd ?t)"
    by (metis hd_dropWhile)
  have "trim s = [] \<or> \<not> js_ws (hd (trim s))"
  proof (cases "?t = []")
    case True
    show ?thesis unfolding trim_def True by simp
  next
    case False
    then have nh: "\<not> js_ws (hd ?t)"
      using lead by blast
    have "hd (trim s) = hd ?t"
      unfolding trim_def using trimEnd_keeps_head[OF False nh] by blast
    then show ?thesis
      using nh by (simp only:) blast
  qed
  moreover have "trim s = [] \<or> \<not> js_ws (last (trim s))"
    unfolding trim_def by (rule trimEnd_no_trailing)
  ultimately show ?thesis by blast
qed

lemma trim_fixed:
  assumes "s = [] \<or> \<not> js_ws (hd s)" "s = [] \<or> \<not> js_ws (last s)"
  shows "trim s = s"
  using assms by (simp add: trim_def dropWhile_fixed trimEnd_fixed)

lemma trim_idem: "trim (trim s) = trim s"
  using trim_shape[of s] by (intro trim_fixed) auto

lemma trim_append_ws:
  assumes "\<forall>c \<in> set h. js_ws c"
  shows "trim (l @ h) = trim l"
proof (cases "\<forall>c \<in> set l. js_ws c")
  case True
  have a: "dropWhile js_ws (l @ h) = []"
    using True assms by (simp add: dropWhile_eq_Nil_conv)
  have b: "dropWhile js_ws l = []"
    using True by (simp add: dropWhile_eq_Nil_conv)
  show ?thesis unfolding trim_def a b by simp
next
  case False
  then obtain x where "x \<in> set l" "\<not> js_ws x" by blast
  then have "dropWhile js_ws (l @ h) = dropWhile js_ws l @ h"
    by (simp add: dropWhile_append1)
  then show ?thesis
    using trimEnd_append_ws[OF assms] by (simp add: trim_def)
qed

lemma trim_Nil_iff: "trim s = [] \<longleftrightarrow> (\<forall>c \<in> set s. js_ws c)"
proof
  assume "trim s = []"
  then have "\<forall>c \<in> set (dropWhile js_ws s). js_ws c"
    by (simp add: trim_def dropWhile_eq_Nil_conv)
  then have "dropWhile js_ws s = []"
    by (metis hd_dropWhile hd_in_set)
  then show "\<forall>c \<in> set s. js_ws c"
    by (simp add: dropWhile_eq_Nil_conv)
next
  assume "\<forall>c \<in> set s. js_ws c"
  then have d: "dropWhile js_ws s = []"
    by (simp add: dropWhile_eq_Nil_conv)
  show "trim s = []"
    by (simp only: trim_def d rev.simps dropWhile.simps)
qed

lemma trimEnd_split:
  "\<exists>q. s = rev (dropWhile js_ws (rev s)) @ q \<and> (\<forall>c \<in> set q. js_ws c)"
proof -
  have "rev s = takeWhile js_ws (rev s) @ dropWhile js_ws (rev s)"
    by simp
  then have "s = rev (dropWhile js_ws (rev s)) @ rev (takeWhile js_ws (rev s))"
    by (metis rev_append rev_rev_ident)
  moreover have "\<forall>c \<in> set (rev (takeWhile js_ws (rev s))). js_ws c"
    by (auto dest: set_takeWhileD)
  ultimately show ?thesis by blast
qed

lemma set_trim: "set (trim s) \<subseteq> set s"
proof -
  have "set (rev (dropWhile js_ws (rev (dropWhile js_ws s)))) \<subseteq> set (dropWhile js_ws s)"
    using set_dropWhileD by fastforce
  also have "\<dots> \<subseteq> set s"
    using set_dropWhileD by fastforce
  finally show ?thesis by (simp add: trim_def)
qed

subsection \<open>Replacement\<close>

lemma replaceAll_absent:
  "\<not> sublist pat s \<Longrightarrow> replaceAll pat rep s = s"
proof (induction pat rep s rule: replaceAll.induct)
  case (1 pat rep)
  then show ?case by simp
next
  case (2 pat rep c cs)
  have np: "\<not> prefix pat (c # cs)"
    using "2.prems" prefix_imp_sublist by blast
  have "\<not> sublist pat cs"
    using "2.prems" by (meson sublist_Cons_right)
  then show ?case
    using 2 np by simp
qed

lemma set_replaceAll:
  "set (replaceAll pat rep s) \<subseteq> set s \<union> set rep"
proof (induction pat rep s rule: replaceAll.induct)
  case (1 pat rep)
  then show ?case by simp
next
  case (2 pat rep c cs)
  have "set (drop (length pat) (c # cs)) \<subseteq> set (c # cs)"
    by (rule set_drop_subset)
  then show ?case
    using 2 by (auto split: if_splits)
qed

lemma replaceAll_char_gone:
  "x \<notin> set rep \<Longrightarrow> x \<notin> set (replaceAll [x] rep s)"
proof (induction "[x]" rep s rule: replaceAll.induct)
  case (1 rep)
  then show ?case by simp
next
  case (2 rep c cs)
  then show ?case by (auto split: if_splits)
qed

subsection \<open>Lines\<close>

lemma splitLines_not_Nil: "splitLines s \<noteq> []"
  by (induction s) (auto split: list.splits)

lemma splitLines_Cons:
  "c \<noteq> nl \<Longrightarrow> splitLines (c # cs) = (c # hd (splitLines cs)) # tl (splitLines cs)"
  using splitLines_not_Nil[of cs] by (cases "splitLines cs") auto

lemma splitLines_nl: "splitLines (nl # cs) = [] # splitLines cs"
  by simp

lemma lines_no_nl: "l \<in> set (splitLines s) \<Longrightarrow> nl \<notin> set l"
  by (induction s arbitrary: l) (auto split: if_splits list.splits)

lemma join_Cons:
  "ls \<noteq> [] \<Longrightarrow> join sep (l # ls) = l @ sep @ join sep ls"
  by (cases ls) auto

lemma join_splitLines: "join [nl] (splitLines s) = s"
proof (induction s)
  case Nil
  then show ?case by simp
next
  case (Cons c cs)
  show ?case
  proof (cases "c = nl")
    case True
    then show ?thesis
      using Cons splitLines_not_Nil[of cs] by (simp add: join_Cons)
  next
    case False
    obtain l ls where ls: "splitLines cs = l # ls"
      using splitLines_not_Nil[of cs] by (cases "splitLines cs") auto
    then have "join [nl] ((c # l) # ls) = c # join [nl] (l # ls)"
      by (cases ls) auto
    then show ?thesis
      using Cons False ls by simp
  qed
qed

lemma splitLines_append_line:
  "nl \<notin> set l \<Longrightarrow> splitLines (l @ nl # s) = l # splitLines s"
  by (induction l) (auto simp: splitLines_Cons)

lemma splitLines_no_nl: "nl \<notin> set l \<Longrightarrow> splitLines l = [l]"
  by (induction l) (auto simp: splitLines_Cons)

lemma splitLines_join:
  "ls \<noteq> [] \<Longrightarrow> \<forall>l \<in> set ls. nl \<notin> set l \<Longrightarrow> splitLines (join [nl] ls) = ls"
proof (induction ls)
  case Nil
  then show ?case by simp
next
  case (Cons l ls)
  show ?case
  proof (cases "ls = []")
    case True
    then show ?thesis using Cons.prems by (simp add: splitLines_no_nl)
  next
    case False
    then show ?thesis
      using Cons by (simp add: join_Cons splitLines_append_line)
  qed
qed

lemma set_lines: "l \<in> set (splitLines s) \<Longrightarrow> set l \<subseteq> set s"
  by (induction s arbitrary: l) (fastforce split: if_splits list.splits)+

lemma set_join: "set (join sep ls) \<subseteq> set sep \<union> \<Union> (set ` set ls)"
  by (induction sep ls rule: join.induct) auto

text \<open>The lines of a text with something appended: the last line grows, the others stay.\<close>

lemma splitLines_append:
  "splitLines (p @ q) =
     butlast (splitLines p) @ [last (splitLines p) @ hd (splitLines q)] @ tl (splitLines q)"
proof (induction p)
  case Nil
  then show ?case using splitLines_not_Nil[of q] by simp
next
  case (Cons c p)
  show ?case
  proof (cases "c = nl")
    case True
    then show ?thesis using Cons splitLines_not_Nil[of p] by simp
  next
    case False
    obtain l ls where ls: "splitLines p = l # ls"
      using splitLines_not_Nil[of p] by (cases "splitLines p") auto
    show ?thesis
    proof (cases "ls = []")
      case True
      then show ?thesis
        using Cons False ls by (simp add: splitLines_Cons)
    next
      case nonempty: False
      then show ?thesis
        using Cons False ls by (simp add: splitLines_Cons)
    qed
  qed
qed

subsection \<open>Runs of line feeds\<close>

lemma collapse_head:
  "s \<noteq> [] \<Longrightarrow> collapseNewlines s \<noteq> [] \<and> hd (collapseNewlines s) = hd s"
  by (induction s rule: collapseNewlines.induct) auto

lemma collapse_Cons:
  "a \<noteq> nl \<Longrightarrow> collapseNewlines (a # s) = a # collapseNewlines s"
  by (cases s) auto

lemma noDouble_collapse: "noDouble (collapseNewlines s)"
proof (induction s rule: collapseNewlines.induct)
  case (1 a b cs)
  show ?case
  proof (cases "a = nl \<and> b = nl")
    case True
    then show ?thesis using 1 by simp
  next
    case False
    obtain d ds where d: "collapseNewlines (b # cs) = d # ds" "d = b"
      using collapse_head[of "b # cs"] by (cases "collapseNewlines (b # cs)") auto
    then show ?thesis using 1 False by auto
  qed
qed auto

lemma collapse_fixed: "noDouble s \<Longrightarrow> collapseNewlines s = s"
  by (induction s rule: collapseNewlines.induct) auto

lemma noDouble_tl: "noDouble (a # s) \<Longrightarrow> noDouble s"
  by (cases s) auto

lemma noDouble_append: "noDouble (p @ q) \<Longrightarrow> noDouble p \<and> noDouble q"
proof (induction p rule: noDouble.induct)
  case (1 a b cs)
  then show ?case by auto
qed (auto dest: noDouble_tl)

lemma set_collapse: "set (collapseNewlines s) \<subseteq> set s"
  by (induction s rule: collapseNewlines.induct) auto

lemma collapse_prefix:
  "prefix k s \<Longrightarrow> nl \<notin> set k \<Longrightarrow> prefix k (collapseNewlines s)"
proof (induction k arbitrary: s)
  case Nil
  then show ?case by simp
next
  case (Cons a k)
  then obtain r where s: "s = a # r" and pr: "prefix k r"
    by (cases s) auto
  have "a \<noteq> nl"
    using Cons.prems(2) by auto
  then have "collapseNewlines s = a # collapseNewlines r"
    unfolding s by (rule collapse_Cons)
  then show ?case
    using Cons.IH[OF pr] Cons.prems(2) by simp
qed

text \<open>The lines after the collapse are lines of the text before it.\<close>

lemma collapse_lines:
  "hd (splitLines (collapseNewlines s)) = hd (splitLines s) \<and>
   set (tl (splitLines (collapseNewlines s))) \<subseteq> set (tl (splitLines s))"
proof (induction s rule: collapseNewlines.induct)
  case (1 a b cs)
  show ?case
  proof (cases "a = nl \<and> b = nl")
    case True
    have ih: "hd (splitLines (collapseNewlines (nl # cs))) = [] \<and>
       set (tl (splitLines (collapseNewlines (nl # cs)))) \<subseteq> set (splitLines cs)"
      using "1.IH"(1)[OF True] True by simp
    have c: "collapseNewlines (a # b # cs) = collapseNewlines (nl # cs)"
      using True by simp
    have "set (splitLines cs) \<subseteq> set (tl (splitLines (a # b # cs)))"
      using True by auto
    then show ?thesis
      unfolding c using ih True by auto
  next
    case False
    note nd = False
    show ?thesis
    proof (cases "a = nl")
      case True
      have ne: "splitLines (collapseNewlines (b # cs)) \<noteq> []"
        by (rule splitLines_not_Nil)
      have "set (splitLines (collapseNewlines (b # cs))) \<subseteq> set (splitLines (b # cs))"
      proof -
        have "set (splitLines (collapseNewlines (b # cs))) =
              insert (hd (splitLines (collapseNewlines (b # cs))))
                (set (tl (splitLines (collapseNewlines (b # cs)))))"
          using ne by (metis list.collapse list.simps(15))
        also have "\<dots> \<subseteq> insert (hd (splitLines (b # cs))) (set (tl (splitLines (b # cs))))"
          using "1.IH"(2)[OF nd] by auto
        also have "\<dots> = set (splitLines (b # cs))"
          using splitLines_not_Nil[of "b # cs"] by (metis list.collapse list.simps(15))
        finally show ?thesis .
      qed
      then show ?thesis
        using True nd by simp
    next
      case False
      then have c: "collapseNewlines (a # b # cs) = a # collapseNewlines (b # cs)"
        by simp
      show ?thesis
        unfolding c using "1.IH"(2)[OF nd] False by (simp add: splitLines_Cons del: splitLines.simps)
    qed
  qed
qed auto

lemma collapse_lines_subset:
  "set (splitLines (collapseNewlines s)) \<subseteq> set (splitLines s)"
proof -
  have "set (splitLines (collapseNewlines s)) =
        insert (hd (splitLines (collapseNewlines s))) (set (tl (splitLines (collapseNewlines s))))"
    using splitLines_not_Nil by (metis list.collapse list.simps(15))
  also have "\<dots> \<subseteq> insert (hd (splitLines s)) (set (tl (splitLines s)))"
    using collapse_lines[of s] by auto
  also have "\<dots> = set (splitLines s)"
    using splitLines_not_Nil[of s] by (metis list.collapse list.simps(15))
  finally show ?thesis .
qed

subsection \<open>Lines that the line filter leaves alone\<close>

lemma set_fixLine: "set (fixLine l) \<subseteq> set l"
  by (auto simp: fixLine_def)

lemma fixLine_idem: "fixLine (fixLine l) = fixLine l"
  by (simp add: fixLine_def)

lemma fixLine_strip:
  assumes fx: "fixLine (l @ h) = l @ h" and ws: "\<forall>c \<in> set h. js_ws c"
  shows "fixLine l = l"
proof (cases "trim l = [] \<or> startsWithDiagramType (trim l)")
  case True
  then show ?thesis by (simp add: fixLine_def)
next
  case False
  then have "filter allowedChar (l @ h) = l @ h"
    using fx trim_append_ws[OF ws, of l] by (simp add: fixLine_def)
  then have "\<forall>c \<in> set (l @ h). allowedChar c"
    by (metis filter_id_conv)
  then have "filter allowedChar l = l"
    by (simp add: filter_id_conv)
  then show ?thesis
    using False by (simp add: fixLine_def)
qed

subsection \<open>The diagram type at the start\<close>

lemma diagramType_shape:
  "k \<in> set diagramTypes \<Longrightarrow>
   k \<noteq> [] \<and> nl \<notin> set k \<and> \<not> js_ws (hd k) \<and> \<not> js_ws (last k) \<and> hd k \<noteq> backtick"
  by (auto simp: diagramTypes_def nl_def js_ws_def backtick_def)

lemma prefix_trim:
  assumes pr: "prefix k s" and ne: "k \<noteq> []"
    and h: "\<not> js_ws (hd k)" and l: "\<not> js_ws (last k)"
  shows "prefix k (trim s)"
proof -
  obtain r where s: "s = k @ r"
    using pr by (auto simp: prefix_def)
  have "s \<noteq> []" "hd s = hd k"
    using s ne by auto
  then have d: "dropWhile js_ws s = s"
    using h by (intro dropWhile_fixed) simp
  define t where "t = rev (dropWhile js_ws (rev s))"
  have tr: "trim s = t"
    by (simp add: trim_def d t_def)
  obtain q where q: "s = t @ q" "\<forall>c \<in> set q. js_ws c"
    using trimEnd_split[of s] unfolding t_def by blast
  have "prefix t s"
    using q(1) by simp
  then consider "prefix k t" | "prefix t k"
    using pr prefix_same_cases by blast
  then have "prefix k t"
  proof cases
    case 1
    then show ?thesis .
  next
    case 2
    then obtain u where u: "k = t @ u"
      by (auto simp: prefix_def)
    have qu: "q = u @ r"
      using s q(1) u by simp
    show ?thesis
    proof (cases "u = []")
      case True
      then show ?thesis using u by simp
    next
      case False
      then have "last k = last u" "last u \<in> set u"
        using u by auto
      then have "js_ws (last k)"
        using q(2) qu by auto
      then show ?thesis using l by simp
    qed
  qed
  then show ?thesis by (simp add: tr)
qed

lemma startsWithDiagramType_trim:
  "startsWithDiagramType s \<Longrightarrow> startsWithDiagramType (trim s)"
  unfolding startsWithDiagramType_def startsWith_def
  using diagramType_shape prefix_trim by blast

lemma startsWithDiagramType_collapse:
  "startsWithDiagramType s \<Longrightarrow> startsWithDiagramType (collapseNewlines s)"
  unfolding startsWithDiagramType_def startsWith_def
  using diagramType_shape collapse_prefix by blast

lemma startsWithDiagramType_head:
  assumes "startsWithDiagramType s"
  shows "s \<noteq> [] \<and> \<not> js_ws (hd s) \<and> hd s \<noteq> backtick"
proof -
  obtain k where k: "k \<in> set diagramTypes" "prefix k s"
    using assms by (auto simp: startsWithDiagramType_def startsWith_def)
  obtain r where "s = k @ r"
    using k(2) by (auto simp: prefix_def)
  then show ?thesis
    using diagramType_shape[OF k(1)] by auto
qed

lemma stripFence_diagram:
  assumes "startsWithDiagramType s"
  shows "stripFence s = s"
proof -
  have hd: "s \<noteq> []" "hd s \<noteq> backtick"
    using startsWithDiagramType_head[OF assms] by auto
  have "\<not> prefix (fence @ p) s" for p
    using hd by (cases s) (auto simp: fence_def)
  from this[of "''mermaid''"] this[of "[]"] show ?thesis
    by (simp add: stripFence_def startsWith_def)
qed

lemma graphTD_diagram: "startsWithDiagramType (''graph TD'' @ s)"
  by (simp add: startsWithDiagramType_def startsWith_def diagramTypes_def)

lemma graphTD_line: "fixLine ''graph TD'' = ''graph TD''"
proof -
  have "startsWithDiagramType ''graph TD''"
    using graphTD_diagram[of "[]"] by simp
  then have "startsWithDiagramType (trim ''graph TD'')"
    by (rule startsWithDiagramType_trim)
  then show ?thesis
    unfolding fixLine_def by (simp only: if_True simp_thms)
qed

subsection \<open>Outputs of the repair\<close>

lemma replaceAll_char_absent:
  "x \<notin> set s \<Longrightarrow> replaceAll [x] rep s = s"
proof (rule replaceAll_absent)
  assume a: "x \<notin> set s"
  show "\<not> sublist [x] s"
  proof
    assume "sublist [x] s"
    then obtain p q where "s = p @ [x] @ q"
      by (auto simp: sublist_def)
    then show False using a by simp
  qed
qed

text \<open>A text with these seven properties is returned unchanged.\<close>

lemma repair_fixed:
  assumes dt: "startsWithDiagramType y"
    and semi: "CHR '';'' \<notin> set y"
    and arrow: "\<not> sublist ''-->'' y"
    and line: "\<not> sublist ''---'' y"
    and good: "\<forall>l \<in> set (splitLines y). fixLine l = l"
    and nd: "noDouble y"
    and tr: "trim y = y"
  shows "validateAndFixMermaid y = y"
proof -
  have ne: "y \<noteq> []"
    using startsWithDiagramType_head[OF dt] by simp
  have s0: "stripFence y = y"
    using dt by (rule stripFence_diagram)
  have s1: "replaceAll '';'' [nl] y = y"
    using semi by (rule replaceAll_char_absent)
  have s2: "replaceAll ''-->'' '' --> '' y = y"
    using arrow by (rule replaceAll_absent)
  have s3: "replaceAll ''---'' '' --- '' y = y"
    using line by (rule replaceAll_absent)
  have s4: "map fixLine (splitLines y) = splitLines y"
    using good by (simp add: map_idI)
  have s5: "join [nl] (splitLines y) = y"
    by (rule join_splitLines)
  have s6: "collapseNewlines y = y"
    using nd by (rule collapse_fixed)
  show ?thesis
    unfolding validateAndFixMermaid_def Let_def
    by (simp only: tr s0 s1 s2 s3 s4 s5 s6 dt ne simp_thms if_False if_True not_True_eq_False)
qed

lemma repair_output:
  assumes nb: "trim x \<noteq> []"
  defines "y \<equiv> validateAndFixMermaid x"
  shows "startsWithDiagramType y \<and> CHR '';'' \<notin> set y \<and>
         (\<forall>l \<in> set (splitLines y). fixLine l = l) \<and> noDouble y \<and> trim y = y"
proof -
  define v1 where "v1 = replaceAll '';'' [nl] (stripFence (trim x))"
  define v2 where "v2 = replaceAll ''-->'' '' --> '' v1"
  define v where "v = replaceAll ''---'' '' --- '' v2"
  define ls where "ls = map fixLine (splitLines v)"
  define w where "w = join [nl] ls"
  define z where "z = (if \<not> startsWithDiagramType w then ''graph TD'' @ [nl] @ w else w)"
  define c where "c = collapseNewlines z"
  have xne: "x \<noteq> []"
    using nb by (auto simp: trim_def)
  have y: "y = trim c"
    unfolding y_def validateAndFixMermaid_def Let_def c_def z_def w_def ls_def v_def v2_def v1_def
    using nb xne by simp

  have "CHR '';'' \<notin> set v1"
    unfolding v1_def by (rule replaceAll_char_gone) (simp add: nl_def)
  then have "CHR '';'' \<notin> set v2"
    using set_replaceAll[of "''-->''" "'' --> ''" v1] unfolding v2_def by auto
  then have semi_v: "CHR '';'' \<notin> set v"
    using set_replaceAll[of "''---''" "'' --- ''" v2] unfolding v_def by auto

  have ls_ne: "ls \<noteq> []"
    by (simp add: ls_def splitLines_not_Nil)
  have ls_line: "nl \<notin> set l \<and> CHR '';'' \<notin> set l \<and> fixLine l = l" if lin: "l \<in> set ls" for l
  proof -
    obtain m where m: "m \<in> set (splitLines v)" "l = fixLine m"
      using lin by (auto simp: ls_def)
    have "set l \<subseteq> set m"
      unfolding m(2) by (rule set_fixLine)
    moreover have "nl \<notin> set m"
      using m(1) by (rule lines_no_nl)
    moreover have "CHR '';'' \<notin> set m"
      using set_lines[OF m(1)] semi_v by auto
    ultimately show ?thesis
      using fixLine_idem[of m] m(2) by auto
  qed
  have lines_w: "splitLines w = ls"
    unfolding w_def using ls_ne ls_line by (intro splitLines_join) auto

  have dz: "startsWithDiagramType z"
    unfolding z_def using graphTD_diagram[of "[nl] @ w"] by simp
  have lines_z: "set (splitLines z) \<subseteq> insert ''graph TD'' (set ls)"
  proof (cases "startsWithDiagramType w")
    case True
    then show ?thesis by (auto simp: z_def lines_w)
  next
    case False
    have "nl \<notin> set ''graph TD''"
      by (simp add: nl_def)
    then have "splitLines (''graph TD'' @ nl # w) = ''graph TD'' # splitLines w"
      by (rule splitLines_append_line)
    then show ?thesis
      using False by (auto simp: z_def lines_w)
  qed
  have z_line: "CHR '';'' \<notin> set l \<and> fixLine l = l" if lin: "l \<in> set (splitLines z)" for l
  proof (cases "l = ''graph TD''")
    case True
    then show ?thesis using graphTD_line by simp
  next
    case False
    then show ?thesis using lin lines_z ls_line by blast
  qed

  have dc: "startsWithDiagramType c"
    unfolding c_def using dz by (rule startsWithDiagramType_collapse)
  have ndc: "noDouble c"
    unfolding c_def by (rule noDouble_collapse)
  have c_line: "CHR '';'' \<notin> set l \<and> fixLine l = l" if lin: "l \<in> set (splitLines c)" for l
    using lin collapse_lines_subset[of z] z_line unfolding c_def by blast
  have semi_c: "CHR '';'' \<notin> set c"
  proof
    assume "CHR '';'' \<in> set c"
    then have "CHR '';'' \<in> set (join [nl] (splitLines c))"
      by (simp add: join_splitLines)
    then obtain l where "l \<in> set (splitLines c)" "CHR '';'' \<in> set l"
      using set_join[of "[nl]" "splitLines c"] by (auto simp: nl_def)
    then show False using c_line by blast
  qed

  have hc: "c \<noteq> []" "\<not> js_ws (hd c)"
    using startsWithDiagramType_head[OF dc] by auto
  have "dropWhile js_ws c = c"
    using hc by (intro dropWhile_fixed) simp
  then have yt: "y = rev (dropWhile js_ws (rev c))"
    by (simp add: y trim_def)
  obtain q where q: "c = y @ q" "\<forall>a \<in> set q. js_ws a"
    using trimEnd_split[of c] unfolding yt by blast

  have dy: "startsWithDiagramType y"
    unfolding y using dc by (rule startsWithDiagramType_trim)
  have semi_y: "CHR '';'' \<notin> set y"
    using semi_c q(1) by simp
  have ndy: "noDouble y"
    using noDouble_append[of y q] ndc q(1) by simp
  have ty: "trim y = y"
    unfolding y by (rule trim_idem)
  have y_line: "fixLine l = l" if l: "l \<in> set (splitLines y)" for l
  proof -
    let ?h = "hd (splitLines q)"
    have sp: "splitLines c =
        butlast (splitLines y) @ [last (splitLines y) @ ?h] @ tl (splitLines q)"
      unfolding q(1) by (rule splitLines_append)
    have "?h \<in> set (splitLines q)"
      using splitLines_not_Nil by simp
    then have hws: "\<forall>a \<in> set ?h. js_ws a"
      using set_lines q(2) by blast
    have "splitLines y = butlast (splitLines y) @ [last (splitLines y)]"
      using splitLines_not_Nil by simp
    then consider "l \<in> set (butlast (splitLines y))" | "l = last (splitLines y)"
      using l by (metis Un_iff empty_iff insert_iff list.set(1) list.simps(15) set_append)
    then show ?thesis
    proof cases
      case 1
      then have "l \<in> set (splitLines c)"
        unfolding sp by simp
      then show ?thesis using c_line by blast
    next
      case 2
      have "l @ ?h \<in> set (splitLines c)"
        unfolding sp 2 by simp
      then have "fixLine (l @ ?h) = l @ ?h"
        using c_line by blast
      then show ?thesis
        using hws by (rule fixLine_strip)
    qed
  qed
  show ?thesis
    using dy semi_y y_line ndy ty by blast
qed

lemma repair_idem_without_arrows:
  assumes "\<not> sublist ''-->'' (validateAndFixMermaid x)"
    and "\<not> sublist ''---'' (validateAndFixMermaid x)"
  shows "validateAndFixMermaid (validateAndFixMermaid x) = validateAndFixMermaid x"
proof (cases "trim x = []")
  case True
  then show ?thesis by (simp add: validateAndFixMermaid_def)
next
  case False
  from repair_output[OF False] assms show ?thesis
    by (intro repair_fixed) blast+
qed

text \<open>
  Claim C5, amended. The repair is a total function (it has no failing branch); an empty or
  white-space-only input gives the empty string; and a second pass changes nothing
  whenever the result of the first pass contains neither \<^verbatim>\<open>-->\<close> nor \<^verbatim>\<open>---\<close>.
\<close>

theorem validateAndFixMermaid_idempotent_without_arrows:
  "(trim x = [] \<longrightarrow> validateAndFixMermaid x = []) \<and>
   (\<not> sublist ''-->'' (validateAndFixMermaid x) \<and> \<not> sublist ''---'' (validateAndFixMermaid x) \<longrightarrow>
      validateAndFixMermaid (validateAndFixMermaid x) = validateAndFixMermaid x)"
proof -
  have "trim x = [] \<longrightarrow> validateAndFixMermaid x = []"
    by (simp add: validateAndFixMermaid_def)
  then show ?thesis
    using repair_idem_without_arrows[of x] by blast
qed

theorem validateAndFixMermaid_idempotent_witness:
  "validateAndFixMermaid [CHR 0x20, CHR 0x0A, CHR 0x09] = [] \<and>
   validateAndFixMermaid ''A[Start];B(End)$'' = ''graph TD'' @ [nl] @ ''A[Start]'' @ [nl] @ ''B(End)'' \<and>
   validateAndFixMermaid (validateAndFixMermaid ''A[Start];B(End)$'') =
     validateAndFixMermaid ''A[Start];B(End)$''"
proof -
  have blank: "trim [CHR 0x20, CHR 0x0A, CHR 0x09] = []"
    by code_simp
  have run: "validateAndFixMermaid ''A[Start];B(End)$'' =
             ''graph TD'' @ [nl] @ ''A[Start]'' @ [nl] @ ''B(End)''"
    by code_simp
  have a: "\<not> sublist ''-->'' (''graph TD'' @ [nl] @ ''A[Start]'' @ [nl] @ ''B(End)'')"
    by code_simp
  have b: "\<not> sublist ''---'' (''graph TD'' @ [nl] @ ''A[Start]'' @ [nl] @ ''B(End)'')"
    by code_simp
  have "validateAndFixMermaid [CHR 0x20, CHR 0x0A, CHR 0x09] = []"
    using validateAndFixMermaid_idempotent_without_arrows[of "[CHR 0x20, CHR 0x0A, CHR 0x09]"] blank
    by blast
  moreover have "validateAndFixMermaid (validateAndFixMermaid ''A[Start];B(End)$'') =
     validateAndFixMermaid ''A[Start];B(End)$''"
    using validateAndFixMermaid_idempotent_without_arrows[of "''A[Start];B(End)$''"] a b
    unfolding run by blast
  ultimately show ?thesis
    using run by blast
qed

section \<open>Properties of the retriever\<close>

lemma mapResults_filter_scores:
  "mapResults ps = Inr rs \<Longrightarrow>
   map score (filter (\<lambda>r. score r \<ge> c) rs) = filter (\<lambda>x. x \<ge> c) (map point_score ps)"
  by (induction ps arbitrary: rs) (auto split: option.splits sum.splits)

text \<open>
  Claim C2, as stated, for an index whose response to \<^verbatim>\<open>limit: 1\<close> holds two hits, the
  lower score first: \<^verbatim>\<open>retrieve\<close> returns both, in that order. It has no sorting and no
  truncation of its own.
\<close>

theorem retrieve_neither_sorts_nor_truncates:
  "map score
     (retrieve (\<lambda>q. Inr [0, 0])
        (\<lambda>v k f. Inr
           [\<lparr>point_id = ''a'', point_score = 0.6,
              point_payload = Some \<lparr>payload_text = ''x'', payload_metadata = ()\<rparr>\<rparr>,
            \<lparr>point_id = ''b'', point_score = 0.9,
              point_payload = Some \<lparr>payload_text = ''y'', payload_metadata = ()\<rparr>\<rparr>])
        ''q'' 1 (None :: unit option)) = [0.6, 0.9] \<and>
   \<not> sorted_wrt (\<lambda>a b. score a \<ge> score b)
     (retrieve (\<lambda>q. Inr [0, 0])
        (\<lambda>v k f. Inr
           [\<lparr>point_id = ''a'', point_score = 0.6,
              point_payload = Some \<lparr>payload_text = ''x'', payload_metadata = ()\<rparr>\<rparr>,
            \<lparr>point_id = ''b'', point_score = 0.9,
              point_payload = Some \<lparr>payload_text = ''y'', payload_metadata = ()\<rparr>\<rparr>])
        ''q'' 1 (None :: unit option)) \<and>
   \<not> length
     (retrieve (\<lambda>q. Inr [0, 0])
        (\<lambda>v k f. Inr
           [\<lparr>point_id = ''a'', point_score = 0.6,
              point_payload = Some \<lparr>payload_text = ''x'', payload_metadata = ()\<rparr>\<rparr>,
            \<lparr>point_id = ''b'', point_score = 0.9,
              point_payload = Some \<lparr>payload_text = ''y'', payload_metadata = ()\<rparr>\<rparr>])
        ''q'' 1 (None :: unit option)) \<le> 1"
  by (simp add: retrieve_def search_def minScore_def)

text \<open>
  Claim C2, amended. Every result of \<^verbatim>\<open>retrieve\<close> has score at least 0.5, and
  \<^verbatim>\<open>retrieve\<close> returns the empty sequence when the embedding step or the search throws
  (the search also throws when a hit has no payload). It passes \<open>topK\<close> to the vector
  index as \<^verbatim>\<open>limit\<close> and does not sort or truncate: the scores of its results are the
  scores of the hits of the index that are at least 0.5, in the order of the index. So the
  results are in descending order of score and at most \<open>topK\<close> whenever the response of
  the index is.
\<close>

theorem retrieve_floor_and_index_order:
  "(\<forall>r \<in> set (retrieve embedQuery client question topK flt). score r \<ge> 0.5) \<and>
   ((\<exists>e. embedQuery question = Inl e) \<longrightarrow> retrieve embedQuery client question topK flt = []) \<and>
   (\<forall>v. embedQuery question = Inr v \<and> (\<exists>e. search client v topK flt = Inl e) \<longrightarrow>
          retrieve embedQuery client question topK flt = []) \<and>
   (\<forall>v ps. embedQuery question = Inr v \<and> client v topK flt = Inr ps \<and>
            (\<forall>p \<in> set ps. point_payload p \<noteq> None) \<longrightarrow>
      map score (retrieve embedQuery client question topK flt) =
        filter (\<lambda>x. x \<ge> 0.5) (map point_score ps) \<and>
      (sorted_wrt (\<ge>) (map point_score ps) \<longrightarrow>
         sorted_wrt (\<ge>) (map score (retrieve embedQuery client question topK flt))) \<and>
      (length ps \<le> topK \<longrightarrow> length (retrieve embedQuery client question topK flt) \<le> topK))"
proof -
  let ?out = "retrieve embedQuery client question topK flt"
  have floor: "\<forall>r \<in> set ?out. score r \<ge> 0.5"
    by (auto simp: retrieve_def minScore_def split: sum.splits)
  have fail1: "(\<exists>e. embedQuery question = Inl e) \<longrightarrow> ?out = []"
    by (auto simp: retrieve_def)
  have fail2: "\<forall>v. embedQuery question = Inr v \<and> (\<exists>e. search client v topK flt = Inl e) \<longrightarrow> ?out = []"
    by (auto simp: retrieve_def)
  have order: "map score ?out = filter (\<lambda>x. x \<ge> 0.5) (map point_score ps) \<and>
      (sorted_wrt (\<ge>) (map point_score ps) \<longrightarrow> sorted_wrt (\<ge>) (map score ?out)) \<and>
      (length ps \<le> topK \<longrightarrow> length ?out \<le> topK)"
    if v: "embedQuery question = Inr v" and ps: "client v topK flt = Inr ps"
      and pl: "\<forall>p \<in> set ps. point_payload p \<noteq> None" for v ps
  proof -
    have "\<exists>rs. mapResults ps = Inr rs"
      using pl by (induction ps) (auto split: option.splits)
    then obtain rs where m: "mapResults ps = Inr rs"
      by blast
    have out: "?out = filter (\<lambda>r. score r \<ge> minScore) rs"
      using v ps m by (simp add: retrieve_def search_def)
    have sc: "map score ?out = filter (\<lambda>x. x \<ge> 0.5) (map point_score ps)"
      unfolding out using mapResults_filter_scores[OF m, of minScore] by (simp add: minScore_def)
    have "length (filter (\<lambda>x. x \<ge> 0.5) (map point_score ps)) \<le> length ps"
      using length_filter_le[of "\<lambda>x. x \<ge> 0.5" "map point_score ps"] by simp
    then have len: "length ?out \<le> length ps"
      using sc by (metis length_map)
    have "sorted_wrt (\<ge>) (map point_score ps) \<longrightarrow> sorted_wrt (\<ge>) (map score ?out)"
      unfolding sc by (simp add: sorted_wrt_filter)
    then show ?thesis
      using sc len by auto
  qed
  show ?thesis
    using floor fail1 fail2 order by blast
qed

theorem retrieve_floor_and_index_order_witness:
  "map score
     (retrieve (\<lambda>q. Inr [0, 0])
        (\<lambda>v k f. Inr (take k
           [\<lparr>point_id = ''a'', point_score = 0.9,
              point_payload = Some \<lparr>payload_text = ''x'', payload_metadata = ()\<rparr>\<rparr>,
            \<lparr>point_id = ''b'', point_score = 0.6,
              point_payload = Some \<lparr>payload_text = ''y'', payload_metadata = ()\<rparr>\<rparr>,
            \<lparr>point_id = ''c'', point_score = 0.3,
              point_payload = Some \<lparr>payload_text = ''z'', payload_metadata = ()\<rparr>\<rparr>]))
        ''q'' 5 (None :: unit option)) = [0.9, 0.6] \<and>
   length
     (retrieve (\<lambda>q. Inr [0, 0])
        (\<lambda>v k f. Inr (take k
           [\<lparr>point_id = ''a'', point_score = 0.9,
              point_payload = Some \<lparr>payload_text = ''x'', payload_metadata = ()\<rparr>\<rparr>,
            \<lparr>point_id = ''b'', point_score = 0.6,
              point_payload = Some \<lparr>payload_text = ''y'', payload_metadata = ()\<rparr>\<rparr>,
            \<lparr>point_id = ''c'', point_score = 0.3,
              point_payload = Some \<lparr>payload_text = ''z'', payload_metadata = ()\<rparr>\<rparr>]))
        ''q'' 5 (None :: unit option)) \<le> 5 \<and>
   retrieve (\<lambda>q. Inl (Error ''no embedding''))
     (\<lambda>v k f. (Inr [] :: error + unit scored_point list)) ''q'' 5 (None :: unit option) = []"
proof -
  let ?pts = "[\<lparr>point_id = ''a'', point_score = 0.9,
              point_payload = Some \<lparr>payload_text = ''x'', payload_metadata = ()\<rparr>\<rparr>,
            \<lparr>point_id = ''b'', point_score = 0.6,
              point_payload = Some \<lparr>payload_text = ''y'', payload_metadata = ()\<rparr>\<rparr>,
            \<lparr>point_id = ''c'', point_score = 0.3,
              point_payload = Some \<lparr>payload_text = ''z'', payload_metadata = ()\<rparr>\<rparr>]"
  let ?client = "\<lambda>(v :: real list) (k :: nat) (f :: unit option).
                   (Inr (take k ?pts) :: error + unit scored_point list)"
  let ?embed = "\<lambda>q :: string. (Inr [0, 0] :: error + real list)"
  have hyp: "?embed ''q'' = Inr [0, 0] \<and> ?client [0, 0] 5 None = Inr ?pts \<and>
             (\<forall>p \<in> set ?pts. point_payload p \<noteq> None) \<and> length ?pts \<le> 5"
    by simp
  have a: "map score (retrieve ?embed ?client ''q'' 5 None) =
             filter (\<lambda>x. x \<ge> 0.5) (map point_score ?pts) \<and>
           length (retrieve ?embed ?client ''q'' 5 None) \<le> 5"
    using retrieve_floor_and_index_order[of ?embed ?client "''q''" 5 None] hyp by blast
  have b: "retrieve (\<lambda>q. Inl (Error ''no embedding''))
     (\<lambda>v k f. (Inr [] :: error + unit scored_point list)) ''q'' 5 (None :: unit option) = []"
    using retrieve_floor_and_index_order[of "\<lambda>q. Inl (Error ''no embedding'')"
        "\<lambda>v k f. (Inr [] :: error + unit scored_point list)" "''q''" 5 "None :: unit option"]
    by blast
  have c: "filter (\<lambda>x. x \<ge> 0.5) (map point_score ?pts) = [0.9, 0.6 :: real]"
    by simp
  show ?thesis
    using a b unfolding c by simp
qed

section \<open>Properties of deletion\<close>

lemma filter_absent_id:
  "i \<notin> frame_id ` set fs \<Longrightarrow>
   filter (\<lambda>g. frame_id g \<noteq> i) fs = fs \<and> filter (\<lambda>g. frame_id g = i) fs = []"
  by (induction fs) auto

lemma removeFirst_distinct:
  "distinct (map frame_id fs) \<Longrightarrow> removeFirst i fs = filter (\<lambda>f. frame_id f \<noteq> i) fs"
proof (induction fs)
  case Nil
  then show ?case by simp
next
  case (Cons f fs)
  have "frame_id f = i \<Longrightarrow> filter (\<lambda>g. frame_id g \<noteq> i) fs = fs"
    using Cons.prems filter_absent_id[of i fs] by simp
  then show ?case using Cons by auto
qed

lemma filter_id_distinct:
  "distinct (map frame_id fs) \<Longrightarrow> f \<in> set fs \<Longrightarrow>
   filter (\<lambda>g. frame_id g = frame_id f) fs = [f]"
proof (induction fs)
  case Nil
  then show ?case by simp
next
  case (Cons g fs)
  show ?case
  proof (cases "g = f")
    case True
    have "filter (\<lambda>h. frame_id h = frame_id f) fs = []"
      using Cons.prems True filter_absent_id[of "frame_id f" fs] by simp
    then show ?thesis using True by simp
  next
    case False
    then have "f \<in> set fs" using Cons.prems by simp
    moreover have "frame_id g \<noteq> frame_id f"
      using Cons.prems \<open>f \<in> set fs\<close> by force
    ultimately show ?thesis using Cons by simp
  qed
qed

lemma findOne_SomeD:
  "findOne i userId db = Some f \<Longrightarrow> f \<in> set (frames db) \<and> frame_id f = i \<and> createdBy f = userId"
  by (auto simp: findOne_def find_Some_iff)

lemma find_filter_other:
  "q \<noteq> i \<Longrightarrow> find (\<lambda>f. frame_id f = q) (filter (\<lambda>f. frame_id f \<noteq> i) fs) = find (\<lambda>f. frame_id f = q) fs"
  by (induction fs) auto

lemma length_filter_split:
  "length (filter (\<lambda>f. \<not> P f) fs) + length (filter P fs) = length fs"
  by (induction fs) auto

text \<open>
  Claim C9. Deleting a parent document frame \<open>p\<close> removes \<open>p\<close> and every frame whose
  \<open>pdfId\<close> is \<open>p\<close>: with \<open>N\<close> such frames, \<open>N + 1\<close> documents go. Deleting a crop removes
  the crop alone: every other frame, its parent among them, is found unchanged.
\<close>

theorem deleteFrame_cascade:
  assumes ids: "distinct (map frame_id (frames db))"
  shows "(findOne p userId db = Some parent \<and> sourceType parent = PdfPage \<and> pdfId parent = None \<longrightarrow>
            frames (snd (deleteFrame p userId db)) =
              filter (\<lambda>f. frame_id f \<noteq> p \<and> pdfId f \<noteq> Some p) (frames db) \<and>
            length (frames (snd (deleteFrame p userId db))) +
              (length (filter (\<lambda>f. pdfId f = Some p) (frames db)) + 1) = length (frames db)) \<and>
         (findOne c userId db = Some crop \<and> sourceType crop = Crop \<longrightarrow>
            frames (snd (deleteFrame c userId db)) = filter (\<lambda>f. frame_id f \<noteq> c) (frames db) \<and>
            length (frames (snd (deleteFrame c userId db))) + 1 = length (frames db) \<and>
            (\<forall>q. q \<noteq> c \<longrightarrow> findById q (snd (deleteFrame c userId db)) = findById q db))"
proof (intro conjI impI)
  assume a: "findOne p userId db = Some parent \<and> sourceType parent = PdfPage \<and> pdfId parent = None"
  then have mem: "parent \<in> set (frames db)" and idp: "frame_id parent = p"
    using findOne_SomeD by auto
  have d: "distinct (map frame_id (filter (\<lambda>f. pdfId f \<noteq> Some p) (frames db)))"
    using ids by (simp add: distinct_map_filter)
  have fr: "frames (snd (deleteFrame p userId db)) =
        filter (\<lambda>f. frame_id f \<noteq> p) (filter (\<lambda>f. pdfId f \<noteq> Some p) (frames db))"
    using a d by (simp add: deleteFrame_def parentPdfId_def deleteMany_def findByIdAndDelete_def
        removeFirst_distinct)
  then show "frames (snd (deleteFrame p userId db)) =
              filter (\<lambda>f. frame_id f \<noteq> p \<and> pdfId f \<noteq> Some p) (frames db)"
    by (simp add: conj_commute)
  have keep: "parent \<in> set (filter (\<lambda>f. pdfId f \<noteq> Some p) (frames db))"
    using a mem by simp
  have one: "length (filter (\<lambda>f. frame_id f = p) (filter (\<lambda>f. pdfId f \<noteq> Some p) (frames db))) = 1"
    using filter_id_distinct[OF d keep] idp by simp
  have "length (filter (\<lambda>f. frame_id f \<noteq> p) (filter (\<lambda>f. pdfId f \<noteq> Some p) (frames db))) + 1 =
        length (filter (\<lambda>f. pdfId f \<noteq> Some p) (frames db))"
    using length_filter_split[of "\<lambda>f. frame_id f = p" "filter (\<lambda>f. pdfId f \<noteq> Some p) (frames db)"] one
    by simp
  moreover have "length (filter (\<lambda>f. pdfId f \<noteq> Some p) (frames db)) +
        length (filter (\<lambda>f. pdfId f = Some p) (frames db)) = length (frames db)"
    using length_filter_split[of "\<lambda>f. pdfId f = Some p" "frames db"] by simp
  ultimately show "length (frames (snd (deleteFrame p userId db))) +
              (length (filter (\<lambda>f. pdfId f = Some p) (frames db)) + 1) = length (frames db)"
    using fr by simp
next
  assume a: "findOne c userId db = Some crop \<and> sourceType crop = Crop"
  then have mem: "crop \<in> set (frames db)" and idc: "frame_id crop = c"
    using findOne_SomeD by auto
  show fr: "frames (snd (deleteFrame c userId db)) = filter (\<lambda>f. frame_id f \<noteq> c) (frames db)"
    using a ids by (simp add: deleteFrame_def findByIdAndDelete_def removeFirst_distinct)
  have "length (filter (\<lambda>f. frame_id f = c) (frames db)) = 1"
    using filter_id_distinct[OF ids mem] idc by simp
  then show "length (frames (snd (deleteFrame c userId db))) + 1 = length (frames db)"
    using length_filter_split[of "\<lambda>f. frame_id f = c" "frames db"] fr by simp
  show "\<forall>q. q \<noteq> c \<longrightarrow> findById q (snd (deleteFrame c userId db)) = findById q db"
    using fr by (simp add: findById_def find_filter_other)
qed

theorem deleteFrame_cascade_witness:
  "map frame_id (frames (snd (deleteFrame 0 7 \<lparr>frames = demoFrames, nextId = 6, statusLog = []\<rparr>))) = [4, 5] \<and>
   length (frames (snd (deleteFrame 0 7 \<lparr>frames = demoFrames, nextId = 6, statusLog = []\<rparr>))) + (3 + 1) = 6 \<and>
   map frame_id (frames (snd (deleteFrame 4 7 \<lparr>frames = demoFrames, nextId = 6, statusLog = []\<rparr>))) = [0, 1, 2, 3, 5] \<and>
   findById 1 (snd (deleteFrame 4 7 \<lparr>frames = demoFrames, nextId = 6, statusLog = []\<rparr>)) = Some (demoFrames ! 1)"
proof -
  let ?db = "\<lparr>frames = demoFrames, nextId = 6, statusLog = []\<rparr>"
  have ids: "distinct (map frame_id (frames ?db))"
    by (simp add: demoFrames_def schemaDefaults_def)
  have parent: "findOne 0 7 ?db = Some (demoFrames ! 0) \<and> sourceType (demoFrames ! 0) = PdfPage \<and>
      pdfId (demoFrames ! 0) = None"
    by (simp add: findOne_def demoFrames_def schemaDefaults_def)
  have crop: "findOne 4 7 ?db = Some (demoFrames ! 4) \<and> sourceType (demoFrames ! 4) = Crop"
    by (simp add: findOne_def demoFrames_def schemaDefaults_def)
  have pages: "length (filter (\<lambda>f. pdfId f = Some 0) (frames ?db)) = 3"
    by (simp add: demoFrames_def schemaDefaults_def)
  have one: "findById 1 ?db = Some (demoFrames ! 1)"
    by (simp add: findById_def demoFrames_def schemaDefaults_def)
  from deleteFrame_cascade[OF ids, of 0 7 "demoFrames ! 0" 4 "demoFrames ! 4"] parent crop
  have a: "frames (snd (deleteFrame 0 7 ?db)) =
          filter (\<lambda>f. frame_id f \<noteq> 0 \<and> pdfId f \<noteq> Some 0) (frames ?db)"
    and b: "length (frames (snd (deleteFrame 0 7 ?db))) +
          (length (filter (\<lambda>f. pdfId f = Some 0) (frames ?db)) + 1) = length (frames ?db)"
    and c: "frames (snd (deleteFrame 4 7 ?db)) = filter (\<lambda>f. frame_id f \<noteq> 4) (frames ?db)"
    and d: "\<forall>q. q \<noteq> 4 \<longrightarrow> findById q (snd (deleteFrame 4 7 ?db)) = findById q ?db"
    by blast+
  have "map frame_id (frames (snd (deleteFrame 0 7 ?db))) = [4, 5]"
    unfolding a by (simp add: demoFrames_def schemaDefaults_def)
  moreover have "length (frames (snd (deleteFrame 0 7 ?db))) + (3 + 1) = 6"
    using b unfolding pages by (simp add: demoFrames_def)
  moreover have "map frame_id (frames (snd (deleteFrame 4 7 ?db))) = [0, 1, 2, 3, 5]"
    unfolding c by (simp add: demoFrames_def schemaDefaults_def)
  moreover have "findById 1 (snd (deleteFrame 4 7 ?db)) = Some (demoFrames ! 1)"
    using d one by simp
  ultimately show ?thesis by blast
qed

section \<open>Properties of the rounding to doubles\<close>

text \<open>
  The binade of a real in the range of the normal doubles is the exponent of the power of
  two at or below it; integers and halves of integers of fewer than 54 bits are doubles.
\<close>

lemma pow2_powi: "pow2 k = 2 powi k"
  by (simp add: pow2_def power_int_def power_one_over)

lemma pow2_pos: "0 < pow2 k"
  by (simp add: pow2_powi)

lemma pow2_add: "pow2 (i + j) = pow2 i * pow2 j"
  by (simp add: pow2_powi power_int_add)

lemma pow2_mono: "i \<le> j \<Longrightarrow> pow2 i \<le> pow2 j"
  by (simp add: pow2_powi power_int_increasing)

lemma pow2_less: "pow2 i < pow2 j \<Longrightarrow> i < j"
  using pow2_mono[of j i] by (cases "i < j") auto

lemma binadeSteps_low:
  "a < pow2 e \<Longrightarrow> binadeSteps ks a e = e"
proof (induction ks)
  case Nil
  then show ?case by simp
next
  case (Cons k ks)
  have "pow2 e \<le> pow2 (e + int k)"
    by (rule pow2_mono) simp
  then show ?case using Cons by simp
qed

lemma binadeSteps_bounds:
  "pow2 e \<le> a \<Longrightarrow> a < pow2 (e + 2 ^ n) \<Longrightarrow>
   pow2 (binadeSteps (map (\<lambda>i. 2 ^ i) (rev [0..<n])) a e) \<le> a \<and>
   a < pow2 (binadeSteps (map (\<lambda>i. 2 ^ i) (rev [0..<n])) a e + 1)"
proof (induction n arbitrary: e)
  case 0
  then show ?case by simp
next
  case (Suc n)
  show ?case
  proof (cases "pow2 (e + 2 ^ n) \<le> a")
    case True
    have "a < pow2 (e + 2 ^ n + 2 ^ n)"
      using Suc.prems(2) by (simp add: algebra_simps)
    from Suc.IH[OF True this] True show ?thesis
      by simp
  next
    case False
    then have "a < pow2 (e + 2 ^ n)" by simp
    from Suc.IH[OF Suc.prems(1) this] False show ?thesis
      by simp
  qed
qed

lemma binade_list:
  "([1024, 512, 256, 128, 64, 32, 16, 8, 4, 2, 1] :: nat list) = map (\<lambda>i. 2 ^ i) (rev [0..<11])"
  by (simp add: upt_rec)

lemma binade_bounds:
  assumes "pow2 (- 1022) \<le> a" "a < pow2 1026"
  shows "pow2 (binade a) \<le> a \<and> a < pow2 (binade a + 1)"
proof -
  have "a < pow2 (- 1022 + 2 ^ 11)"
    using assms(2) by simp
  from binadeSteps_bounds[OF assms(1) this] show ?thesis
    unfolding binade_def binade_list .
qed

lemma binade_subnormal: "a < pow2 (- 1022) \<Longrightarrow> binade a = - 1022"
  unfolding binade_def by (rule binadeSteps_low)

lemma roundHalfEven_int: "roundHalfEven (of_int n) = n"
  by (simp add: roundHalfEven_def)

text \<open>A multiple of a power of two with fewer than 54 bits is a double.\<close>

lemma isDouble_scaled:
  assumes n: "\<bar>n\<bar> < 2 ^ 53" and k: "- 1074 \<le> k"
    and fin: "\<bar>of_int n * pow2 k\<bar> < pow2 1024"
  shows "isDouble (of_int n * pow2 k)"
proof -
  define a where "a = \<bar>of_int n * pow2 k\<bar>"
  define e where "e = binade a"
  have a: "a = of_int \<bar>n\<bar> * pow2 k"
    using pow2_pos[of k] by (simp add: a_def abs_mult)
  have le: "e \<le> k + 52"
  proof (cases "a < pow2 (- 1022)")
    case True
    then show ?thesis using k binade_subnormal[OF True] by (simp add: e_def)
  next
    case False
    have "a < pow2 1026"
      using fin pow2_mono[of 1024 1026] by (simp add: a_def)
    then have "pow2 e \<le> a"
      using binade_bounds[of a] False by (simp add: e_def)
    moreover have "a < pow2 (k + 53)"
    proof -
      have "(of_int \<bar>n\<bar> :: real) < 2 ^ 53"
        using n by (metis of_int_less_numeral_power_cancel_iff)
      then have "of_int \<bar>n\<bar> * pow2 k < 2 ^ 53 * pow2 k"
        using pow2_pos[of k] by simp
      also have "\<dots> = pow2 (k + 53)"
        using pow2_add[of k 53] by (simp add: pow2_def[of 53])
      finally show ?thesis by (simp add: a)
    qed
    ultimately have "pow2 e < pow2 (k + 53)" by simp
    then show ?thesis using pow2_less by fastforce
  qed
  define j where "j = nat (k + 52 - e)"
  have kj: "k = (e - 52) + int j"
    using le by (simp add: j_def)
  have q: "a / pow2 (e - 52) = of_int (\<bar>n\<bar> * 2 ^ j)"
    using pow2_pos[of "e - 52"] by (simp add: a kj pow2_add) (simp add: pow2_def)
  have m: "of_int (roundHalfEven (a / pow2 (e - 52))) * pow2 (e - 52) = a"
    unfolding q roundHalfEven_int using q pow2_pos[of "e - 52"]
    by (metis nonzero_eq_divide_eq less_numeral_extra(3))
  have "roundDouble (of_int n * pow2 k) = Num (of_int n * pow2 k)"
    unfolding roundDouble_def Let_def a_def[symmetric] e_def[symmetric] m
    using fin by (auto simp: a_def)
  then show ?thesis by (simp add: isDouble_def)
qed

lemma isDouble_int:
  assumes "\<bar>n\<bar> < 2 ^ 53"
  shows "isDouble (of_int n)"
proof -
  have "\<bar>(of_int n :: real)\<bar> < 2 ^ 53"
    using assms by (metis of_int_abs of_int_less_numeral_power_cancel_iff)
  also have "\<dots> < pow2 1024"
    by (simp add: pow2_def)
  finally show ?thesis
    using isDouble_scaled[OF assms, of 0] by (simp add: pow2_def)
qed

lemma isDouble_half_int:
  assumes "\<bar>n\<bar> < 2 ^ 53"
  shows "isDouble (of_int n / 2)"
proof -
  have "\<bar>(of_int n :: real)\<bar> < 2 ^ 53"
    using assms by (metis of_int_abs of_int_less_numeral_power_cancel_iff)
  then have "\<bar>(of_int n :: real) * pow2 (- 1)\<bar> < 2 ^ 53"
    by (simp add: pow2_def)
  also have "\<dots> < pow2 1024"
    by (simp add: pow2_def)
  finally show ?thesis
    using isDouble_scaled[OF assms, of "- 1"] by (simp add: pow2_def)
qed

section \<open>Properties of region extraction\<close>

lemma extractText_undefined:
  "extractText sv (previewUrl frame) = Inl (Error (''Tesseract OCR failed: '' @ sv_noImage sv))"
  by (simp add: extractText_def previewUrl_def)


lemma extractTextFromRegion_no_words:
  assumes "body_frameId body = Some i" "body_x body = Some x" "body_y body = Some y"
    "body_width body = Some w" "body_height body = Some h"
    "findById i db = Some frame" "createdBy frame = userId" "hasNoWords frame"
  shows "extractTextFromRegion cv sv userId body db =
           (Status500 ''Failed to extract text from region''
              (''Tesseract OCR failed: '' @ sv_noImage sv), db)"
  using assms by (simp add: extractTextFromRegion_def extractText_undefined)

lemma filterWords_total:
  "\<forall>w \<in> set ws. p w = Inr (q w) \<Longrightarrow> filterWords p ws = Inr (filter q ws)"
  by (induction ws) auto

lemma inRegion_numbers:
  "inRegion cv (JSNum x) (JSNum y) (JSNum w) (JSNum h) wd =
     Inr (\<exists>b. word_bbox wd = Some b \<and>
            numLe x (numHalf (numAdd (bbox_x0 b) (bbox_x1 b))) \<and>
            numLe (numHalf (numAdd (bbox_x0 b) (bbox_x1 b))) (numAdd x w) \<and>
            numLe y (numHalf (numAdd (bbox_y0 b) (bbox_y1 b))) \<and>
            numLe (numHalf (numAdd (bbox_y0 b) (bbox_y1 b))) (numAdd y h))"
  by (auto simp: inRegion_def Let_def numGeValue_def jsPlus_def numLePrimitive_def
      split: option.splits)

lemma exact_criterion:
  assumes box: "wordBox wd = Some (x0, y0, x1, y1)"
    and ex: "isDouble (x0 + x1)" "isDouble ((x0 + x1) / 2)"
      "isDouble (y0 + y1)" "isDouble ((y0 + y1) / 2)"
    and sums: "isDouble (x + w)" "isDouble (y + h)"
  shows "(\<exists>b. word_bbox wd = Some b \<and>
            numLe (Num x) (numHalf (numAdd (bbox_x0 b) (bbox_x1 b))) \<and>
            numLe (numHalf (numAdd (bbox_x0 b) (bbox_x1 b))) (numAdd (Num x) (Num w)) \<and>
            numLe (Num y) (numHalf (numAdd (bbox_y0 b) (bbox_y1 b))) \<and>
            numLe (numHalf (numAdd (bbox_y0 b) (bbox_y1 b))) (numAdd (Num y) (Num h)))
         \<longleftrightarrow> specInRegion x y w h (wordBox wd)"
proof -
  obtain b where b: "word_bbox wd = Some b" "bbox_x0 b = Num x0" "bbox_y0 b = Num y0"
      "bbox_x1 b = Num x1" "bbox_y1 b = Num y1"
    using box by (auto simp: wordBox_def split: option.splits jsnumber.splits)
  show ?thesis
    using ex sums by (simp add: b box specInRegion_def isDouble_def)
qed

text \<open>
  Claim C10, as stated. The doubles of \<^verbatim>\<open>0.7\<close> and \<^verbatim>\<open>0.3\<close> add up to less than 1, and
  their sum as doubles is 1: the word whose centre is (1, 1) is selected for the region
  with \<^verbatim>\<open>x = 0.7\<close> and \<^verbatim>\<open>width = 0.3\<close>, although its centre is to the right of
  \<open>x + width\<close>. With the strings \<^verbatim>\<open>1\<close> and \<^verbatim>\<open>2\<close> for \<open>x\<close> and \<open>width\<close>, the right edge
  is the string \<^verbatim>\<open>12\<close>, and a word whose centre is at 5 is selected.
\<close>

theorem extractTextFromRegion_rounds_and_concatenates:
  "roundDouble (7 / 10) = Num double07 \<and> roundDouble (3 / 10) = Num double03 \<and>
   extractTextFromRegion demoConversions workingServices 7
     \<lparr>body_frameId = Some 0, body_x = Some (JSNum (Num double07)), body_y = Some (JSNum (Num 0)),
      body_width = Some (JSNum (Num double03)), body_height = Some (JSNum (Num 2))\<rparr>
     demoEdgeStore =
     (Status200 \<lparr>region_text = ''edge'', wordCount = 1,
                  region = (JSNum (Num double07), JSNum (Num 0), JSNum (Num double03),
                            JSNum (Num 2))\<rparr>, demoEdgeStore) \<and>
   \<not> specInRegion double07 0 double03 2 (Some (1, 1, 1, 1)) \<and>
   extractTextFromRegion demoConversions workingServices 7
     \<lparr>body_frameId = Some 0, body_x = Some (JSStr ''1''), body_y = Some (JSNum (Num 0)),
      body_width = Some (JSStr ''2''), body_height = Some (JSNum (Num 20))\<rparr>
     demoRegionStore =
     (Status200 \<lparr>region_text = ''alpha'', wordCount = 1,
                  region = (JSStr ''1'', JSNum (Num 0), JSStr ''2'', JSNum (Num 20))\<rparr>,
      demoRegionStore) \<and>
   \<not> specInRegion 1 0 2 20 (Some (0, 0, 10, 10))"
proof -
  have r7: "roundDouble (7 / 10) = Num double07"
    by (simp add: roundDouble_def binade_def pow2_def roundHalfEven_def double07_def)
  have r3: "roundDouble (3 / 10) = Num double03"
    by (simp add: roundDouble_def binade_def pow2_def roundHalfEven_def double03_def)
  have sum: "roundDouble (double07 + double03) = Num 1"
    by (simp add: roundDouble_def binade_def pow2_def roundHalfEven_def double07_def double03_def)
  have r1: "roundDouble 1 = Num 1" "roundDouble 2 = Num 2"
    by (simp_all add: roundDouble_def binade_def pow2_def roundHalfEven_def)
  have le: "double07 \<le> 1"
    by (simp add: double07_def)
  have a: "extractTextFromRegion demoConversions workingServices 7
     \<lparr>body_frameId = Some 0, body_x = Some (JSNum (Num double07)), body_y = Some (JSNum (Num 0)),
      body_width = Some (JSNum (Num double03)), body_height = Some (JSNum (Num 2))\<rparr>
     demoEdgeStore =
     (Status200 \<lparr>region_text = ''edge'', wordCount = 1,
                  region = (JSNum (Num double07), JSNum (Num 0), JSNum (Num double03),
                            JSNum (Num 2))\<rparr>, demoEdgeStore)"
    by (simp add: extractTextFromRegion_def demoEdgeStore_def findById_def schemaDefaults_def
        hasNoWords_def inRegion_numbers sum r1 le)
  have b: "\<not> specInRegion double07 0 double03 2 (Some (1, 1, 1, 1))"
    by (simp add: specInRegion_def double07_def double03_def)
  have r10: "roundDouble 10 = Num 10" "roundDouble 5 = Num 5" "roundDouble 20 = Num 20"
    "roundDouble 200 = Num 200" "roundDouble 100 = Num 100" "roundDouble 40 = Num 40"
    "roundDouble 0 = Num 0"
    by (simp_all add: roundDouble_def binade_def pow2_def roundHalfEven_def)
  have c: "extractTextFromRegion demoConversions workingServices 7
     \<lparr>body_frameId = Some 0, body_x = Some (JSStr ''1''), body_y = Some (JSNum (Num 0)),
      body_width = Some (JSStr ''2''), body_height = Some (JSNum (Num 20))\<rparr>
     demoRegionStore =
     (Status200 \<lparr>region_text = ''alpha'', wordCount = 1,
                  region = (JSStr ''1'', JSNum (Num 0), JSStr ''2'', JSNum (Num 20))\<rparr>,
      demoRegionStore)"
    by (simp add: extractTextFromRegion_def demoRegionStore_def findById_def schemaDefaults_def
        hasNoWords_def demoWords_def inRegion_def numGeValue_def jsPlus_def numLePrimitive_def
        demoConversions_def r10 Let_def)
  have d: "\<not> specInRegion 1 0 2 20 (Some (0, 0, 10, 10))"
    by (simp add: specInRegion_def)
  show ?thesis
    using r7 r3 a b c d by blast
qed

text \<open>
  Claim C10, amended, for a request whose \<open>x\<close>, \<open>y\<close>, \<open>width\<close> and \<open>height\<close> are Numbers.
  On a frame that has OCR words, the words selected are exactly those that have a
  bounding box whose centre, computed in doubles, is at least \<open>x\<close> and \<open>y\<close> and at most
  the sums \<open>x + width\<close> and \<open>y + height\<close>, computed in doubles, in OCR order; a word
  without a bounding box is never selected; the text is the selected words' texts joined
  by one space, \<open>wordCount\<close> is their number, and the store is unchanged. Where no sum and
  no half is rounded (all of them are doubles), these are the words whose centre lies in
  the closed rectangle of the request in exact arithmetic; this is so when the request and
  the boxes have integer coordinates of fewer than 53 bits.
\<close>

theorem extractTextFromRegion_selects_centred_words:
  assumes found: "findById i db = Some frame"
    and owner: "createdBy frame = userId"
    and ocr: "raw_words (ocrRaw frame) = Some ws" "ws \<noteq> []"
  shows "\<exists>sel.
      extractTextFromRegion cv sv userId
        \<lparr>body_frameId = Some i, body_x = Some (JSNum x), body_y = Some (JSNum y),
         body_width = Some (JSNum w), body_height = Some (JSNum h)\<rparr> db =
        (Status200 \<lparr>region_text = join '' '' (map word_text sel), wordCount = length sel,
                     region = (JSNum x, JSNum y, JSNum w, JSNum h)\<rparr>, db) \<and>
      sel = filter (\<lambda>wd. \<exists>b. word_bbox wd = Some b \<and>
                    numLe x (numHalf (numAdd (bbox_x0 b) (bbox_x1 b))) \<and>
                    numLe (numHalf (numAdd (bbox_x0 b) (bbox_x1 b))) (numAdd x w) \<and>
                    numLe y (numHalf (numAdd (bbox_y0 b) (bbox_y1 b))) \<and>
                    numLe (numHalf (numAdd (bbox_y0 b) (bbox_y1 b))) (numAdd y h)) ws \<and>
      (\<forall>wd \<in> set sel. word_bbox wd \<noteq> None) \<and> subseq sel ws \<and>
      (\<forall>xr yr wr hr.
         x = Num xr \<and> y = Num yr \<and> w = Num wr \<and> h = Num hr \<and>
         isDouble (xr + wr) \<and> isDouble (yr + hr) \<and>
         (\<forall>wd \<in> set ws. word_bbox wd \<noteq> None \<longrightarrow>
            (\<exists>x0 y0 x1 y1. wordBox wd = Some (x0, y0, x1, y1) \<and>
               isDouble (x0 + x1) \<and> isDouble ((x0 + x1) / 2) \<and>
               isDouble (y0 + y1) \<and> isDouble ((y0 + y1) / 2))) \<longrightarrow>
         sel = filter (\<lambda>wd. specInRegion xr yr wr hr (wordBox wd)) ws) \<and>
      (\<forall>xi yi wi hi :: int.
         x = Num (of_int xi) \<and> y = Num (of_int yi) \<and> w = Num (of_int wi) \<and>
         h = Num (of_int hi) \<and>
         \<bar>xi\<bar> < 2 ^ 52 \<and> \<bar>yi\<bar> < 2 ^ 52 \<and> \<bar>wi\<bar> < 2 ^ 52 \<and> \<bar>hi\<bar> < 2 ^ 52 \<and>
         (\<forall>wd \<in> set ws. word_bbox wd \<noteq> None \<longrightarrow>
            (\<exists>i0 j0 i1 j1 :: int.
               wordBox wd = Some (of_int i0, of_int j0, of_int i1, of_int j1) \<and>
               \<bar>i0\<bar> < 2 ^ 52 \<and> \<bar>j0\<bar> < 2 ^ 52 \<and> \<bar>i1\<bar> < 2 ^ 52 \<and> \<bar>j1\<bar> < 2 ^ 52)) \<longrightarrow>
         sel = filter (\<lambda>wd. specInRegion (of_int xi) (of_int yi) (of_int wi) (of_int hi)
                              (wordBox wd)) ws)"
proof -
  let ?q = "\<lambda>wd. \<exists>b. word_bbox wd = Some b \<and>
                    numLe x (numHalf (numAdd (bbox_x0 b) (bbox_x1 b))) \<and>
                    numLe (numHalf (numAdd (bbox_x0 b) (bbox_x1 b))) (numAdd x w) \<and>
                    numLe y (numHalf (numAdd (bbox_y0 b) (bbox_y1 b))) \<and>
                    numLe (numHalf (numAdd (bbox_y0 b) (bbox_y1 b))) (numAdd y h)"
  have sel: "filterWords (inRegion cv (JSNum x) (JSNum y) (JSNum w) (JSNum h)) ws =
             Inr (filter ?q ws)"
    by (rule filterWords_total) (simp add: inRegion_numbers)
  have words: "\<not> hasNoWords frame"
    using ocr by (simp add: hasNoWords_def)
  have run: "extractTextFromRegion cv sv userId
        \<lparr>body_frameId = Some i, body_x = Some (JSNum x), body_y = Some (JSNum y),
         body_width = Some (JSNum w), body_height = Some (JSNum h)\<rparr> db =
        (Status200 \<lparr>region_text = join '' '' (map word_text (filter ?q ws)),
                     wordCount = length (filter ?q ws),
                     region = (JSNum x, JSNum y, JSNum w, JSNum h)\<rparr>, db)"
    using found owner words ocr sel by (simp add: extractTextFromRegion_def Let_def)
  have boxes: "\<forall>wd \<in> set (filter ?q ws). word_bbox wd \<noteq> None"
    by auto
  have exact: "filter ?q ws = filter (\<lambda>wd. specInRegion xr yr wr hr (wordBox wd)) ws"
    if eq: "x = Num xr" "y = Num yr" "w = Num wr" "h = Num hr"
      and sums: "isDouble (xr + wr)" "isDouble (yr + hr)"
      and ex: "\<forall>wd \<in> set ws. word_bbox wd \<noteq> None \<longrightarrow>
            (\<exists>x0 y0 x1 y1. wordBox wd = Some (x0, y0, x1, y1) \<and>
               isDouble (x0 + x1) \<and> isDouble ((x0 + x1) / 2) \<and>
               isDouble (y0 + y1) \<and> isDouble ((y0 + y1) / 2))"
    for xr yr wr hr
  proof (rule filter_cong[OF refl])
    fix wd assume mem: "wd \<in> set ws"
    show "?q wd \<longleftrightarrow> specInRegion xr yr wr hr (wordBox wd)"
    proof (cases "word_bbox wd")
      case None
      then show ?thesis by (simp add: wordBox_def specInRegion_def)
    next
      case (Some b)
      then obtain x0 y0 x1 y1 where box: "wordBox wd = Some (x0, y0, x1, y1)"
        and d: "isDouble (x0 + x1)" "isDouble ((x0 + x1) / 2)"
          "isDouble (y0 + y1)" "isDouble ((y0 + y1) / 2)"
        using ex mem by fastforce
      show ?thesis
        unfolding eq using exact_criterion[OF box d sums] .
    qed
  qed
  have ints: "filter ?q ws =
      filter (\<lambda>wd. specInRegion (of_int xi) (of_int yi) (of_int wi) (of_int hi) (wordBox wd)) ws"
    if eq: "x = Num (of_int xi)" "y = Num (of_int yi)" "w = Num (of_int wi)" "h = Num (of_int hi)"
      and small: "\<bar>xi\<bar> < 2 ^ 52" "\<bar>yi\<bar> < 2 ^ 52" "\<bar>wi\<bar> < 2 ^ 52" "\<bar>hi\<bar> < 2 ^ 52"
      and bx: "\<forall>wd \<in> set ws. word_bbox wd \<noteq> None \<longrightarrow>
            (\<exists>i0 j0 i1 j1 :: int.
               wordBox wd = Some (of_int i0, of_int j0, of_int i1, of_int j1) \<and>
               \<bar>i0\<bar> < 2 ^ 52 \<and> \<bar>j0\<bar> < 2 ^ 52 \<and> \<bar>i1\<bar> < 2 ^ 52 \<and> \<bar>j1\<bar> < 2 ^ 52)"
    for xi yi wi hi :: int
  proof -
    have sum: "isDouble (of_int a + of_int b) \<and> isDouble ((of_int a + of_int b) / 2)"
      if "\<bar>a\<bar> < 2 ^ 52" "\<bar>b\<bar> < 2 ^ 52" for a b :: int
    proof -
      have "\<bar>a + b\<bar> < 2 ^ 53"
        using that by simp
      then show ?thesis
        using isDouble_int[of "a + b"] isDouble_half_int[of "a + b"] by simp
    qed
    have "\<forall>wd \<in> set ws. word_bbox wd \<noteq> None \<longrightarrow>
            (\<exists>x0 y0 x1 y1. wordBox wd = Some (x0, y0, x1, y1) \<and>
               isDouble (x0 + x1) \<and> isDouble ((x0 + x1) / 2) \<and>
               isDouble (y0 + y1) \<and> isDouble ((y0 + y1) / 2))"
      using bx sum by meson
    then show ?thesis
      using exact[OF eq] sum[OF small(1) small(3)] sum[OF small(2) small(4)] by blast
  qed
  show ?thesis
    using run boxes exact ints by (intro exI[of _ "filter ?q ws"]) auto
qed

theorem extractTextFromRegion_witness:
  "extractTextFromRegion demoConversions failingOcr 7
     \<lparr>body_frameId = Some 0, body_x = Some (JSNum (Num 5)), body_y = Some (JSNum (Num 5)),
      body_width = Some (JSNum (Num 15)), body_height = Some (JSNum (Num 15))\<rparr> demoRegionStore =
   (Status200 \<lparr>region_text = ''alpha delta'', wordCount = 2,
                region = (JSNum (Num 5), JSNum (Num 5), JSNum (Num 15), JSNum (Num 15))\<rparr>,
    demoRegionStore) \<and>
   filter (\<lambda>wd. specInRegion 5 5 15 15 (wordBox wd)) demoWords = [demoWords ! 0, demoWords ! 3]"
proof -
  let ?frame = "schemaDefaults\<lparr>frame_id := 0, createdBy := 7, sourceUrl := ''http://media/img'',
                 status := Completed,
                 ocrRaw := \<lparr>raw_words = Some demoWords, raw_lines = None\<rparr>\<rparr>"
  have found: "findById 0 demoRegionStore = Some ?frame"
    by (simp add: findById_def demoRegionStore_def schemaDefaults_def)
  have owner: "createdBy ?frame = 7"
    by simp
  have ocr: "raw_words (ocrRaw ?frame) = Some demoWords" "demoWords \<noteq> []"
    by (simp_all add: demoWords_def)
  have d: "isDouble 10" "isDouble 5" "isDouble 20" "isDouble 200" "isDouble 100" "isDouble 40"
    by (simp_all add: isDouble_def roundDouble_def binade_def pow2_def roundHalfEven_def)
  have hyp: "Num 5 = Num 5 \<and> Num 15 = Num 15 \<and> isDouble (5 + 15) \<and>
      (\<forall>wd \<in> set demoWords. word_bbox wd \<noteq> None \<longrightarrow>
            (\<exists>x0 y0 x1 y1. wordBox wd = Some (x0, y0, x1, y1) \<and>
               isDouble (x0 + x1) \<and> isDouble ((x0 + x1) / 2) \<and>
               isDouble (y0 + y1) \<and> isDouble ((y0 + y1) / 2)))"
    using d by (simp add: demoWords_def wordBox_def)
  have spec: "filter (\<lambda>wd. specInRegion 5 5 15 15 (wordBox wd)) demoWords =
              [demoWords ! 0, demoWords ! 3]"
    by (simp add: demoWords_def wordBox_def specInRegion_def)
  obtain sel where
    run: "extractTextFromRegion demoConversions failingOcr 7
        \<lparr>body_frameId = Some 0, body_x = Some (JSNum (Num 5)), body_y = Some (JSNum (Num 5)),
         body_width = Some (JSNum (Num 15)), body_height = Some (JSNum (Num 15))\<rparr> demoRegionStore =
        (Status200 \<lparr>region_text = join '' '' (map word_text sel), wordCount = length sel,
                     region = (JSNum (Num 5), JSNum (Num 5), JSNum (Num 15), JSNum (Num 15))\<rparr>,
         demoRegionStore)"
    and ex: "\<forall>xr yr wr hr.
         Num 5 = Num xr \<and> Num 5 = Num yr \<and> Num 15 = Num wr \<and> Num 15 = Num hr \<and>
         isDouble (xr + wr) \<and> isDouble (yr + hr) \<and>
         (\<forall>wd \<in> set demoWords. word_bbox wd \<noteq> None \<longrightarrow>
            (\<exists>x0 y0 x1 y1. wordBox wd = Some (x0, y0, x1, y1) \<and>
               isDouble (x0 + x1) \<and> isDouble ((x0 + x1) / 2) \<and>
               isDouble (y0 + y1) \<and> isDouble ((y0 + y1) / 2))) \<longrightarrow>
         sel = filter (\<lambda>wd. specInRegion xr yr wr hr (wordBox wd)) demoWords"
    using extractTextFromRegion_selects_centred_words[OF found owner ocr,
        of demoConversions failingOcr "Num 5" "Num 5" "Num 15" "Num 15"]
    by blast
  have "sel = filter (\<lambda>wd. specInRegion 5 5 15 15 (wordBox wd)) demoWords"
    using ex hyp by blast
  then have "sel = [demoWords ! 0, demoWords ! 3]"
    using spec by simp
  then show ?thesis
    using run spec by (simp add: demoWords_def)
qed

section \<open>Properties of the answer pipeline\<close>

lemma storedConfidence_Num:
  "storedConfidence (Num x) = Num (min 1 (max 0 (if x > 1 then x / 100 else x)))"
  by (simp add: storedConfidence_def)

lemma storedConfidence_range:
  "\<exists>r. storedConfidence v = Num r \<and> 0 \<le> r \<and> r \<le> 1"
  by (cases v) (auto simp: storedConfidence_def)

lemma askTextQuestion_success:
  assumes "askTextQuestion embedQuery client generate rejects startTime savedAt failedAt
             question userId options db = (Inr result, db')"
  shows "\<exists>answer steps.
           generate question (retrieveContext embedQuery client question options) = Inr answer \<and>
           ans_steps answer = Some steps \<and>
           res_doubt result =
             answeredDoubt userId question answer steps
               (retrieveContext embedQuery client question options) (savedAt - startTime) \<and>
           db' = db @ [res_doubt result]"
  using assms
  by (auto simp: askTextQuestion_def tryAsk_def createDoubt_def Let_def
      split: sum.splits option.splits prod.splits)

text \<open>
  Claim C1, as stated, at the raw confidence 150: the record stores 1, not 150/100.
\<close>

theorem askTextQuestion_confidence_150:
  "map d_confidence
     (snd (askTextQuestion (\<lambda>q. Inl (Error ''no embedding'')) (\<lambda>v k f. Inr ([] :: unit scored_point list))
            (\<lambda>q c. Inr (demoAnswer 150)) (\<lambda>d. None) 0 5 9 ''q'' 1 noOptions [])) = [Num 1] \<and>
   Num 1 \<noteq> Num (150 / 100)"
  by (simp add: askTextQuestion_def tryAsk_def createDoubt_def Let_def demoAnswer_def
      answeredDoubt_def storedConfidence_def)

text \<open>
  Claim C1, amended. When \<^verbatim>\<open>askTextQuestion\<close> returns, the confidence of the saved record
  is \<open>min 1 (max 0 (if v > 1 then v / 100 else v))\<close> for the raw confidence \<open>v\<close>: it is
  \<open>v / 100\<close> for \<open>1 < v \<le> 100\<close>, \<open>v\<close> for \<open>0 \<le> v \<le> 1\<close>, 0 for \<open>v < 0\<close> and 1 for
  \<open>v > 100\<close>; a raw value that is not a number gives 0; the stored value is always a
  number in \<open>[0, 1]\<close>.
\<close>

theorem askTextQuestion_confidence_normalized:
  assumes "askTextQuestion embedQuery client generate rejects startTime savedAt failedAt
             question userId options db = (Inr result, db')"
  shows "\<exists>answer r.
           generate question (retrieveContext embedQuery client question options) = Inr answer \<and>
           db' = db @ [res_doubt result] \<and>
           d_confidence (res_doubt result) = Num r \<and> 0 \<le> r \<and> r \<le> 1 \<and>
           (\<forall>v. ans_confidence answer = Num v \<longrightarrow>
                r = min 1 (max 0 (if v > 1 then v / 100 else v)) \<and>
                (1 < v \<and> v \<le> 100 \<longrightarrow> r = v / 100) \<and>
                (0 \<le> v \<and> v \<le> 1 \<longrightarrow> r = v) \<and>
                (v < 0 \<longrightarrow> r = 0) \<and>
                (100 < v \<longrightarrow> r = 1)) \<and>
           (ans_confidence answer = NaN \<longrightarrow> r = 0)"
proof -
  from askTextQuestion_success[OF assms] obtain answer steps where
    gen: "generate question (retrieveContext embedQuery client question options) = Inr answer"
    and d: "res_doubt result =
             answeredDoubt userId question answer steps
               (retrieveContext embedQuery client question options) (savedAt - startTime)"
    and db': "db' = db @ [res_doubt result]"
    by blast
  have conf: "d_confidence (res_doubt result) = storedConfidence (ans_confidence answer)"
    by (simp add: d answeredDoubt_def)
  obtain r where r: "storedConfidence (ans_confidence answer) = Num r" "0 \<le> r" "r \<le> 1"
    using storedConfidence_range by blast
  have num: "\<forall>v. ans_confidence answer = Num v \<longrightarrow>
                r = min 1 (max 0 (if v > 1 then v / 100 else v)) \<and>
                (1 < v \<and> v \<le> 100 \<longrightarrow> r = v / 100) \<and>
                (0 \<le> v \<and> v \<le> 1 \<longrightarrow> r = v) \<and>
                (v < 0 \<longrightarrow> r = 0) \<and>
                (100 < v \<longrightarrow> r = 1)"
    using r(1) by (auto simp: storedConfidence_Num)
  have nan: "ans_confidence answer = NaN \<longrightarrow> r = 0"
    using r(1) by (auto simp: storedConfidence_def)
  show ?thesis
    using gen db' conf r num nan by (intro exI[of _ answer] exI[of _ r]) simp
qed

theorem askTextQuestion_confidence_witness:
  "map d_confidence
     (snd (askTextQuestion (\<lambda>q. Inl (Error ''no embedding'')) (\<lambda>v k f. Inr ([] :: unit scored_point list))
            (\<lambda>q c. Inr (demoAnswer 85)) (\<lambda>d. None) 0 5 9 ''q'' 1 noOptions [])) = [Num (85 / 100)]"
proof -
  let ?run = "askTextQuestion (\<lambda>q. Inl (Error ''no embedding'')) (\<lambda>v k f. Inr ([] :: unit scored_point list))
            (\<lambda>q c. Inr (demoAnswer 85)) (\<lambda>d. None) 0 5 9 ''q'' 1 noOptions []"
  obtain result db' where run: "?run = (Inr result, db')"
    by (simp add: askTextQuestion_def tryAsk_def createDoubt_def Let_def demoAnswer_def)
  from askTextQuestion_confidence_normalized[OF run] obtain answer r where
    gen: "Inr (demoAnswer 85) = (Inr answer :: error + answer)"
    and db': "db' = [res_doubt result]"
    and conf: "d_confidence (res_doubt result) = Num r"
    and scale: "\<forall>v. ans_confidence answer = Num v \<longrightarrow> (1 < v \<and> v \<le> 100 \<longrightarrow> r = v / 100)"
    by auto
  have "ans_confidence answer = Num 85"
    using gen by (auto simp: demoAnswer_def)
  then have "r = 85 / 100"
    using scale by auto
  then have "d_confidence (res_doubt result) = Num (85 / 100)"
    using conf by (simp only:)
  then show ?thesis
    unfolding run db' by (simp only: snd_conv list.map)
qed

text \<open>
  Claim C8. An exception of the generation client, of \<^verbatim>\<open>answer.steps.length\<close> or of
  \<^verbatim>\<open>Doubt.create\<close> is thrown again to the caller, and before that the \<^verbatim>\<open>catch\<close> block
  tries to save a record with status \<^verbatim>\<open>failed\<close>, the fixed apology as
  \<^verbatim>\<open>finalAnswer\<close> and confidence 0: the record is in the store afterwards unless that save
  is refused too, and the error of that save is never the one that reaches the caller.
\<close>

theorem askTextQuestion_failure_recorded_and_rethrown:
  "let context = retrieveContext embedQuery client question options;
       failed = failedDoubt userId question (failedAt - startTime);
       run = askTextQuestion embedQuery client generate rejects startTime savedAt failedAt
               question userId options db
   in d_status failed = DoubtFailed \<and>
      d_finalAnswer failed = Some ''Failed to generate answer. Please try again.'' \<and>
      d_confidence failed = Num 0 \<and>
      d_questionText failed = question \<and>
      (\<forall>e. generate question context = Inl e \<longrightarrow> fst run = Inl e) \<and>
      (\<forall>answer steps e.
          generate question context = Inr answer \<and> ans_steps answer = Some steps \<and>
          rejects (answeredDoubt userId question answer steps context (savedAt - startTime)) = Some e
          \<longrightarrow> fst run = Inl e) \<and>
      (\<forall>e. fst run = Inl e \<longrightarrow>
          snd run = (case rejects failed of None \<Rightarrow> db @ [failed] | Some saveError \<Rightarrow> db))"
  by (auto simp: Let_def askTextQuestion_def tryAsk_def createDoubt_def failedDoubt_def
      split: sum.splits option.splits prod.splits)

theorem askTextQuestion_failure_witness:
  "askTextQuestion (\<lambda>q. Inl (Error ''no embedding'')) (\<lambda>v k f. Inr ([] :: unit scored_point list))
     (\<lambda>q c. Inl (Error ''boom'')) (\<lambda>d. None) 0 5 9 ''q'' 1 noOptions [] =
   (Inl (Error ''boom''), [failedDoubt 1 ''q'' 9])"
proof -
  let ?run = "askTextQuestion (\<lambda>q. Inl (Error ''no embedding''))
     (\<lambda>v k f. Inr ([] :: unit scored_point list))
     (\<lambda>q c. Inl (Error ''boom'')) (\<lambda>d. None) 0 5 9 ''q'' 1 noOptions []"
  have "fst ?run = Inl (Error ''boom'') \<and> snd ?run = [] @ [failedDoubt 1 ''q'' (9 - 0)]"
    using askTextQuestion_failure_recorded_and_rethrown[of "\<lambda>q. Inl (Error ''no embedding'')"
        "\<lambda>v k f. Inr ([] :: unit scored_point list)" "''q''" noOptions 1 9 0
        "\<lambda>q c. Inl (Error ''boom'')" "\<lambda>d. None" 5 "[]"]
    by (simp add: Let_def)
  then show ?thesis
    by (simp add: prod_eq_iff)
qed

section \<open>Properties of the generation clients\<close>

lemma tryModels_returns:
  "\<exists>a. tryModels parse generate question modelsToTry = Some a"
  by (auto simp: modelsToTry_def split: sum.splits)

lemma tryModels_all_fail:
  assumes "\<forall>m \<in> set modelsToTry. \<exists>e. generate m = Inl e"
  shows "tryModels parse generate question modelsToTry = Some (geminiFallbackResponse question)"
proof -
  obtain e1 e2 e3 e4 where
    "generate ''gemini-1.5-flash-001'' = Inl e1" "generate ''gemini-1.5-flash'' = Inl e2"
    "generate ''gemini-pro'' = Inl e3" "generate ''gemini-1.0-pro'' = Inl e4"
    using assms unfolding modelsToTry_def by (metis list.set_intros(1,2))
  then show ?thesis
    by (simp add: modelsToTry_def)
qed

text \<open>
  Claim C3, as stated, on the client that the answer pipeline imports and that the claim
  points to: when the request of \<^verbatim>\<open>GroqClient\<close> fails, the answer has confidence 0, not
  0.3, and no \<^verbatim>\<open>rawResponse\<close>.
\<close>

theorem groqAskWithContext_fallback_not_03:
  "getProp (groqAskWithContext demoParse (Inl (Error ''timeout'')) ''why'') ''confidence'' =
     Inr (Some (JNum 0)) \<and>
   JNum 0 \<noteq> JNum 0.3 \<and>
   getProp (groqAskWithContext demoParse (Inl (Error ''timeout'')) ''why'') ''rawResponse'' = Inr None"
  by (simp add: groqAskWithContext_def groqFallbackResponse_def)

text \<open>
  Claim C3, amended. \<^verbatim>\<open>GeminiClient.askWithContext\<close>, the client with the ordered list of
  model identifiers, always returns an answer object; when every model of the list fails
  it returns its fallback response, which has two apology steps, confidence 0.3 and the
  \<^verbatim>\<open>rawResponse\<close> marker. \<^verbatim>\<open>GroqClient.askWithContext\<close>, which has one model, returns its
  own fallback response when the request fails or brings no content: confidence 0, two
  steps of advice, no \<^verbatim>\<open>rawResponse\<close>. Neither throws.
\<close>

theorem askWithContext_fallback:
  "(\<exists>a. geminiAskWithContext parse generate question = Some a) \<and>
   ((\<forall>m \<in> set modelsToTry. \<exists>e. generate m = Inl e) \<longrightarrow>
      geminiAskWithContext parse generate question = Some (geminiFallbackResponse question)) \<and>
   ca_confidence (geminiFallbackResponse question) = JNum 0.3 \<and>
   ca_rawResponse (geminiFallbackResponse question) = ''Fallback response'' \<and>
   ca_steps (geminiFallbackResponse question) =
     JArr [JStr ''I apologize, but I encountered an issue generating a detailed response.'',
           JStr ''Please try asking your question again.''] \<and>
   ((\<exists>e. completion = Inl e) \<or> completion = Inr None \<or> completion = Inr (Some []) \<longrightarrow>
      groqAskWithContext parse completion question = groqFallbackResponse question) \<and>
   getProp (groqFallbackResponse question) ''confidence'' = Inr (Some (JNum 0)) \<and>
   getProp (groqFallbackResponse question) ''rawResponse'' = Inr None \<and>
   getProp (groqFallbackResponse question) ''steps'' =
     Inr (Some (JArr [JStr ''Please check your internet connection.'',
                      JStr ''Try again in a moment.'']))"
proof -
  have "\<exists>a. geminiAskWithContext parse generate question = Some a"
    unfolding geminiAskWithContext_def by (rule tryModels_returns)
  moreover have "(\<forall>m \<in> set modelsToTry. \<exists>e. generate m = Inl e) \<longrightarrow>
      geminiAskWithContext parse generate question = Some (geminiFallbackResponse question)"
    unfolding geminiAskWithContext_def using tryModels_all_fail by blast
  moreover have "(\<exists>e. completion = Inl e) \<or> completion = Inr None \<or> completion = Inr (Some []) \<longrightarrow>
      groqAskWithContext parse completion question = groqFallbackResponse question"
    by (auto simp: groqAskWithContext_def)
  ultimately show ?thesis
    by (simp add: geminiFallbackResponse_def groqFallbackResponse_def)
qed

theorem askWithContext_fallback_witness:
  "geminiAskWithContext demoParse (\<lambda>m. Inl (Error ''quota'')) ''why'' =
     Some (geminiFallbackResponse ''why'') \<and>
   groqAskWithContext demoParse (Inl (Error ''quota'')) ''why'' = groqFallbackResponse ''why''"
proof -
  have "\<forall>m \<in> set modelsToTry. \<exists>e. (\<lambda>m. Inl (Error ''quota'') :: error + string) m = Inl e"
    by simp
  moreover have "\<exists>e. (Inl (Error ''quota'') :: error + string option) = Inl e"
    by simp
  ultimately show ?thesis
    using askWithContext_fallback[of demoParse "\<lambda>m. Inl (Error ''quota'')" "''why''"
        "Inl (Error ''quota'')"]
    by blast
qed

lemma structureLoop_eq:
  "structureLoop lines (steps, finalAnswer) =
     (steps @ map stripStepPrefix (filter isStepLine lines),
      finalAnswer @ concat (map (\<lambda>l. l @ '' '')
        (filter (\<lambda>l. \<not> isStepLine l \<and> 50 < length l) lines)))"
  by (induction lines arbitrary: steps finalAnswer) auto

text \<open>
  Claim C4, as stated. The text \<^verbatim>\<open>x{}\<close> is not JSON and its first balanced substring
  \<^verbatim>\<open>{}\<close> is: the policy of the claim gives the parsed object, while
  \<^verbatim>\<open>GroqClient.parseResponse\<close> gives its fixed object around the raw text. On
  \<^verbatim>\<open>{} and {}\<close> the match of \<^verbatim>\<open>ClaudeClient\<close> is the whole text, not the first balanced
  substring, and the result is the structuring by lines.
\<close>

theorem parsing_policy_not_followed:
  "demoParse ''x{}'' = None \<and>
   specFirstBalanced ''x{}'' = Some ''{}'' \<and>
   specParse demoParse ''x{}'' = Extracted (JObj []) \<and>
   groqParseResponse demoParse ''x{}'' \<noteq> JObj [] \<and>
   getProp (groqParseResponse demoParse ''x{}'') ''explanation'' = Inr (Some (JStr ''x{}'')) \<and>
   specFirstBalanced ''{} and {}'' = Some ''{}'' \<and>
   braceSpan ''{} and {}'' = Some ''{} and {}'' \<and>
   specParse demoParse ''{} and {}'' = Extracted (JObj []) \<and>
   claudeParse demoParse ''why'' ''{} and {}'' = structureNonJsonResponse ''{} and {}''"
proof -
  have "trim ''{} and {}'' = ''{} and {}''"
    by code_simp
  then show ?thesis
    by (simp add: demoParse_def specFirstBalanced_def specParse_def groqParseResponse_def
        braceSpan_def claudeParse_def)
qed

lemma fromParsed_raw: "fromParsed c raw v = Inr a \<Longrightarrow> ca_rawResponse a = raw"
  by (auto simp: fromParsed_def split: sum.splits)

lemma structureNonJsonResponse_raw: "ca_rawResponse (structureNonJsonResponse s) = s"
  by (simp add: structureNonJsonResponse_def Let_def split: prod.splits)

text \<open>
  Claim C4, amended. No parsing function throws, and each returns an answer for every
  text. \<^verbatim>\<open>GroqClient.parseResponse\<close> returns the value of the direct parse, and when that
  fails a fixed object with the raw text as \<^verbatim>\<open>explanation\<close> and confidence 0; it extracts
  nothing and structures nothing. \<^verbatim>\<open>ClaudeClient\<close> answers a blank text with its fallback
  response (confidence 0.3); otherwise it parses the span from the first opening brace to
  the last closing brace, without a direct parse before. \<^verbatim>\<open>GeminiClient\<close> parses the
  text without its code fences. Where the parse succeeds, both build the answer from the
  properties \<^verbatim>\<open>steps\<close>, \<^verbatim>\<open>final_answer\<close> or \<^verbatim>\<open>finalAnswer\<close>, and \<^verbatim>\<open>confidence\<close> of the
  parsed value, with defaults for those that are missing or falsy; where there is no
  span, the parse fails or the parsed value is \<^verbatim>\<open>null\<close>, both fall back to
  \<^verbatim>\<open>structureNonJsonResponse\<close>: of the lines that are not blank, those with the prefix
  \<^verbatim>\<open>Step n\<close>, \<^verbatim>\<open>n.\<close> or \<^verbatim>\<open>*\<close> become the steps, without the prefix, and the others
  longer than 50 characters are concatenated, a space after each, into the final answer;
  the whole text stands in when there is no step or no final answer.
\<close>

theorem parsing_always_structured:
  "(\<forall>v. parse text = Some v \<longrightarrow> groqParseResponse parse text = v) \<and>
   (parse text = None \<longrightarrow>
      getProp (groqParseResponse parse text) ''explanation'' = Inr (Some (JStr text)) \<and>
      getProp (groqParseResponse parse text) ''steps'' =
        Inr (Some (JArr [JStr ''See explanation above.''])) \<and>
      getProp (groqParseResponse parse text) ''finalAnswer'' =
        Inr (Some (JStr ''Could not parse structured answer.'')) \<and>
      getProp (groqParseResponse parse text) ''confidence'' = Inr (Some (JNum 0))) \<and>
   (trim text = [] \<longrightarrow>
      claudeParse parse question text = claudeFallbackResponse question \<and>
      ca_confidence (claudeParse parse question text) = JNum 0.3 \<and>
      ca_rawResponse (claudeParse parse question text) =
        ''Fallback response due to empty Claude output'') \<and>
   (trim text \<noteq> [] \<longrightarrow>
      (\<forall>sub v a. braceSpan text = Some sub \<and> parse sub = Some v \<and>
                 fromParsed 0.8 text v = Inr a \<longrightarrow>
         claudeParse parse question text = a) \<and>
      (braceSpan text = None \<or>
       (\<exists>sub. braceSpan text = Some sub \<and>
          (parse sub = None \<or> (\<exists>v e. parse sub = Some v \<and> fromParsed 0.8 text v = Inl e))) \<longrightarrow>
         claudeParse parse question text = structureNonJsonResponse text) \<and>
      ca_rawResponse (claudeParse parse question text) = text) \<and>
   (\<forall>v a. parse (trim (replaceAll fence [] (replaceAll (fence @ ''json'') [] text))) = Some v \<and>
          fromParsed 0.85 text v = Inr a \<longrightarrow>
      geminiParseResponse parse text = a) \<and>
   (parse (trim (replaceAll fence [] (replaceAll (fence @ ''json'') [] text))) = None \<or>
    (\<exists>v e. parse (trim (replaceAll fence [] (replaceAll (fence @ ''json'') [] text))) = Some v \<and>
           fromParsed 0.85 text v = Inl e) \<longrightarrow>
      geminiParseResponse parse text = structureNonJsonResponse text) \<and>
   ca_rawResponse (geminiParseResponse parse text) = text \<and>
   (\<forall>c kvs. fromParsed c text (JObj kvs) =
      Inr \<lparr>ca_steps = orElse (map_of kvs ''steps'') (JArr []),
           ca_finalAnswer =
             orElse (map_of kvs ''final_answer'') (orElse (map_of kvs ''finalAnswer'') (JStr [])),
           ca_confidence = orElse (map_of kvs ''confidence'') (JNum c),
           ca_rawResponse = text\<rparr>) \<and>
   (\<forall>c. \<exists>e. fromParsed c text JNull = Inl e) \<and>
   (let lines = filter (\<lambda>line. trim line \<noteq> []) (splitLines text);
        steps = map stripStepPrefix (filter isStepLine lines);
        finalAnswer = trim (concat (map (\<lambda>l. l @ '' '')
                        (filter (\<lambda>l. \<not> isStepLine l \<and> 50 < length l) lines)))
    in structureNonJsonResponse text =
         \<lparr>ca_steps = JArr (map JStr (if steps \<noteq> [] then steps else [text])),
          ca_finalAnswer = JStr (if finalAnswer \<noteq> [] then finalAnswer else substring text 0 200),
          ca_confidence = JNum 0.75,
          ca_rawResponse = text\<rparr>)"
proof -
  let ?clean = "trim (replaceAll fence [] (replaceAll (fence @ ''json'') [] text))"
  have groq1: "\<forall>v. parse text = Some v \<longrightarrow> groqParseResponse parse text = v"
    by (simp add: groqParseResponse_def)
  have groq2: "parse text = None \<longrightarrow>
      getProp (groqParseResponse parse text) ''explanation'' = Inr (Some (JStr text)) \<and>
      getProp (groqParseResponse parse text) ''steps'' =
        Inr (Some (JArr [JStr ''See explanation above.''])) \<and>
      getProp (groqParseResponse parse text) ''finalAnswer'' =
        Inr (Some (JStr ''Could not parse structured answer.'')) \<and>
      getProp (groqParseResponse parse text) ''confidence'' = Inr (Some (JNum 0))"
    by (simp add: groqParseResponse_def)
  have blank: "trim text = [] \<longrightarrow>
      claudeParse parse question text = claudeFallbackResponse question \<and>
      ca_confidence (claudeParse parse question text) = JNum 0.3 \<and>
      ca_rawResponse (claudeParse parse question text) =
        ''Fallback response due to empty Claude output''"
    by (simp add: claudeParse_def claudeFallbackResponse_def)
  have guard: "trim text \<noteq> [] \<Longrightarrow> \<not> (text = [] \<or> length (trim text) = 0)"
    by (auto simp: trim_def)
  have claude1: "trim text \<noteq> [] \<longrightarrow>
      (\<forall>sub v a. braceSpan text = Some sub \<and> parse sub = Some v \<and>
                 fromParsed 0.8 text v = Inr a \<longrightarrow>
         claudeParse parse question text = a)"
    using guard by (auto simp: claudeParse_def)
  have claude2: "trim text \<noteq> [] \<longrightarrow>
      (braceSpan text = None \<or>
       (\<exists>sub. braceSpan text = Some sub \<and>
          (parse sub = None \<or> (\<exists>v e. parse sub = Some v \<and> fromParsed 0.8 text v = Inl e))) \<longrightarrow>
         claudeParse parse question text = structureNonJsonResponse text)"
    using guard by (auto simp: claudeParse_def)
  have claude3: "trim text \<noteq> [] \<longrightarrow> ca_rawResponse (claudeParse parse question text) = text"
    using guard fromParsed_raw structureNonJsonResponse_raw
    by (auto simp: claudeParse_def split: option.splits sum.splits)
  have gemini1: "\<forall>v a. parse ?clean = Some v \<and> fromParsed 0.85 text v = Inr a \<longrightarrow>
      geminiParseResponse parse text = a"
    by (simp add: geminiParseResponse_def Let_def)
  have gemini2: "parse ?clean = None \<or>
    (\<exists>v e. parse ?clean = Some v \<and> fromParsed 0.85 text v = Inl e) \<longrightarrow>
      geminiParseResponse parse text = structureNonJsonResponse text"
    by (auto simp: geminiParseResponse_def Let_def)
  have gemini3: "ca_rawResponse (geminiParseResponse parse text) = text"
    using fromParsed_raw structureNonJsonResponse_raw
    by (auto simp: geminiParseResponse_def Let_def split: option.splits sum.splits)
  have obj: "\<forall>c kvs. fromParsed c text (JObj kvs) =
      Inr \<lparr>ca_steps = orElse (map_of kvs ''steps'') (JArr []),
           ca_finalAnswer =
             orElse (map_of kvs ''final_answer'') (orElse (map_of kvs ''finalAnswer'') (JStr [])),
           ca_confidence = orElse (map_of kvs ''confidence'') (JNum c),
           ca_rawResponse = text\<rparr>"
    by (simp add: fromParsed_def orElse_def split: option.splits)
  have null: "\<forall>c. \<exists>e. fromParsed c text JNull = Inl e"
    by (simp add: fromParsed_def)
  have heur: "(let lines = filter (\<lambda>line. trim line \<noteq> []) (splitLines text);
        steps = map stripStepPrefix (filter isStepLine lines);
        finalAnswer = trim (concat (map (\<lambda>l. l @ '' '')
                        (filter (\<lambda>l. \<not> isStepLine l \<and> 50 < length l) lines)))
    in structureNonJsonResponse text =
         \<lparr>ca_steps = JArr (map JStr (if steps \<noteq> [] then steps else [text])),
          ca_finalAnswer = JStr (if finalAnswer \<noteq> [] then finalAnswer else substring text 0 200),
          ca_confidence = JNum 0.75,
          ca_rawResponse = text\<rparr>)"
    by (simp add: structureNonJsonResponse_def Let_def structureLoop_eq)
  show ?thesis
    using groq1 groq2 blank claude1 claude2 claude3 gemini1 gemini2 gemini3 obj null heur
    by blast
qed

theorem parsing_always_structured_witness:
  "getProp (groqParseResponse demoParse ''x{}'') ''confidence'' = Inr (Some (JNum 0)) \<and>
   claudeParse demoParse ''why'' ''   '' = claudeFallbackResponse ''why'' \<and>
   claudeParse demoParse ''why'' ''see {}'' =
     \<lparr>ca_steps = JArr [], ca_finalAnswer = JStr [], ca_confidence = JNum 0.8,
      ca_rawResponse = ''see {}''\<rparr> \<and>
   claudeParse demoParse ''why'' ''* one'' = structureNonJsonResponse ''* one'' \<and>
   ca_steps (structureNonJsonResponse ''* one'') = JArr [JStr ''one''] \<and>
   geminiParseResponse demoParse (fence @ ''json{}'' @ fence) =
     \<lparr>ca_steps = JArr [], ca_finalAnswer = JStr [], ca_confidence = JNum 0.85,
      ca_rawResponse = fence @ ''json{}'' @ fence\<rparr> \<and>
   geminiParseResponse demoParse ''* one'' = structureNonJsonResponse ''* one''"
proof -
  have a: "demoParse ''x{}'' = None"
    by (simp add: demoParse_def)
  have t1: "trim ''   '' = []"
    by code_simp
  have t2: "trim ''see {}'' \<noteq> []"
    by code_simp
  have t3: "trim ''* one'' \<noteq> []"
    by code_simp
  have b: "braceSpan ''see {}'' = Some ''{}'' \<and> demoParse ''{}'' = Some (JObj []) \<and>
      fromParsed 0.8 ''see {}'' (JObj []) =
        Inr \<lparr>ca_steps = JArr [], ca_finalAnswer = JStr [], ca_confidence = JNum 0.8,
             ca_rawResponse = ''see {}''\<rparr>"
    by (simp add: braceSpan_def demoParse_def fromParsed_def orElse_def)
  have c: "braceSpan ''* one'' = None"
    by (simp add: braceSpan_def)
  have d: "ca_steps (structureNonJsonResponse ''* one'') = JArr [JStr ''one'']"
    by code_simp
  have clean1: "trim (replaceAll fence [] (replaceAll (fence @ ''json'') []
                  (fence @ ''json{}'' @ fence))) = ''{}''"
    by code_simp
  have g1: "demoParse ''{}'' = Some (JObj []) \<and>
      fromParsed 0.85 (fence @ ''json{}'' @ fence) (JObj []) =
        Inr \<lparr>ca_steps = JArr [], ca_finalAnswer = JStr [], ca_confidence = JNum 0.85,
             ca_rawResponse = fence @ ''json{}'' @ fence\<rparr>"
    by (simp add: demoParse_def fromParsed_def orElse_def)
  have clean2: "trim (replaceAll fence [] (replaceAll (fence @ ''json'') [] ''* one'')) = ''* one''"
    by code_simp
  have g2: "demoParse ''* one'' = None"
    by (simp add: demoParse_def)
  have w1: "getProp (groqParseResponse demoParse ''x{}'') ''confidence'' = Inr (Some (JNum 0))"
    using parsing_always_structured[of demoParse "''x{}''" "''why''"] a by blast
  have w2: "claudeParse demoParse ''why'' ''   '' = claudeFallbackResponse ''why''"
    using parsing_always_structured[of demoParse "''   ''" "''why''"] t1 by blast
  have w3: "claudeParse demoParse ''why'' ''see {}'' =
     \<lparr>ca_steps = JArr [], ca_finalAnswer = JStr [], ca_confidence = JNum 0.8,
      ca_rawResponse = ''see {}''\<rparr>"
    using parsing_always_structured[of demoParse "''see {}''" "''why''"] t2 b by blast
  have w4: "claudeParse demoParse ''why'' ''* one'' = structureNonJsonResponse ''* one''"
    using parsing_always_structured[of demoParse "''* one''" "''why''"] t3 c by blast
  have w5: "geminiParseResponse demoParse (fence @ ''json{}'' @ fence) =
     \<lparr>ca_steps = JArr [], ca_finalAnswer = JStr [], ca_confidence = JNum 0.85,
      ca_rawResponse = fence @ ''json{}'' @ fence\<rparr>"
    using parsing_always_structured[of demoParse "fence @ ''json{}'' @ fence" "''why''"] g1
    unfolding clean1 by blast
  have w6: "geminiParseResponse demoParse ''* one'' = structureNonJsonResponse ''* one''"
    using parsing_always_structured[of demoParse "''* one''" "''why''"] g2
    unfolding clean2 by blast
  show ?thesis
    using w1 w2 w3 w4 w5 w6 d by blast
qed

section \<open>Properties of the ingestion requests\<close>

lemma history_append:
  "history (db\<lparr>statusLog := statusLog db @ ex\<rparr>) i =
     history db i @ map snd (filter (\<lambda>e. fst e = i) ex)"
  by (simp add: history_def)

lemma history_record:
  "history \<lparr>frames = fs, nextId = n, statusLog = lg\<rparr> i = map snd (filter (\<lambda>e. fst e = i) lg)"
  by (simp add: history_def)




lemma invalidPaths_status [simp]:
  "invalidPaths (f\<lparr>status := s\<rparr>) = invalidPaths f"
  "invalidPaths (f\<lparr>status := s, processingError := m\<rparr>) = invalidPaths f"
  "invalidPaths (f\<lparr>frame_id := n\<rparr>) = invalidPaths f"
  by (simp_all add: invalidPaths_def)


















lemma create_Inl:
  "create doc db = Inl e \<Longrightarrow> invalidPaths doc \<noteq> []"
  by (auto simp: create_def Let_def split: if_splits)
















end
